theory Spec2Isabelle
  imports Complex_Main "HOL-Library.List_Lexorder"
begin

section \<open>Python strings\<close>

text \<open>
  A Python \<open>str\<close> is a sequence of Unicode code points, so a string is a list of
  code points (\<open>int\<close>): \<open>len\<close>, slicing, \<open>in\<close> and the order used by
  \<open>sorted\<close> all work on code points. \<open>u\<close> turns an ASCII literal into such a
  string.

  The character tables (\<open>isspace\<close>, \<open>\w\<close>, \<open>\d\<close>, the case mappings and the case
  properties) are those of Unicode 14.0, the version that CPython 3.11 carries, for all
  code points. Each table is written as a decision tree over the code point, with one
  leaf for every run of code points that the table treats alike.
\<close>

type_synonym ustr = "int list"

definition u :: "string \<Rightarrow> ustr" where
  "u s = map of_char s"

text \<open>\<open>str.isspace\<close>, which is also the class \<open>\s\<close> of \<open>re\<close> on \<open>str\<close> patterns.\<close>

definition is_space :: "int \<Rightarrow> bool" where
  "is_space c = ((9 \<le> c \<and> c \<le> 13) \<or> (28 \<le> c \<and> c \<le> 32) \<or> c = 133 \<or> c = 160
     \<or> c = 5760 \<or> (8192 \<le> c \<and> c \<le> 8202) \<or> c = 8232 \<or> c = 8233
     \<or> c = 8239 \<or> c = 8287 \<or> c = 12288)"

text \<open>The class U+200B to U+200D, U+2060 and U+FEFF of zero-width marks.\<close>

definition is_invisible :: "int \<Rightarrow> bool" where
  "is_invisible c = ((8203 \<le> c \<and> c \<le> 8205) \<or> c = 8288 \<or> c = 65279)"

text \<open>
  The class \<open>\d\<close>: the decimal digits of all scripts (category Nd). Each script has
  its ten digits in a row, and the value of a digit is its distance from the digit zero
  of its script. \<open>float\<close> reads every such digit with that value.
\<close>

definition digit_of :: "int \<Rightarrow> int option" where
  "digit_of c =
     (if c < 43274 then (if c < 3802 then (if c < 2800 then (if c < 1994 then (if c < 1642
     then (if c < 58 then (if c < 48 then None else Some (c - 48)) else (if c < 1632 then
     None else Some (c - 1632))) else (if c < 1786 then (if c < 1776 then None else Some (c
     - 1776)) else (if c < 1984 then None else Some (c - 1984)))) else (if c < 2544 then (if
     c < 2416 then (if c < 2406 then None else Some (c - 2406)) else (if c < 2534 then None
     else Some (c - 2534))) else (if c < 2672 then (if c < 2662 then None else Some (c -
     2662)) else (if c < 2790 then None else Some (c - 2790))))) else (if c < 3312 then (if
     c < 3056 then (if c < 2928 then (if c < 2918 then None else Some (c - 2918)) else (if c
     < 3046 then None else Some (c - 3046))) else (if c < 3184 then (if c < 3174 then None
     else Some (c - 3174)) else (if c < 3302 then None else Some (c - 3302)))) else (if c <
     3568 then (if c < 3440 then (if c < 3430 then None else Some (c - 3430)) else (if c <
     3558 then None else Some (c - 3558))) else (if c < 3674 then (if c < 3664 then None
     else Some (c - 3664)) else (if c < 3792 then None else Some (c - 3792)))))) else (if c
     < 6794 then (if c < 6122 then (if c < 4170 then (if c < 3882 then (if c < 3872 then
     None else Some (c - 3872)) else (if c < 4160 then None else Some (c - 4160))) else (if
     c < 4250 then (if c < 4240 then None else Some (c - 4240)) else (if c < 6112 then None
     else Some (c - 6112)))) else (if c < 6480 then (if c < 6170 then (if c < 6160 then None
     else Some (c - 6160)) else (if c < 6470 then None else Some (c - 6470))) else (if c <
     6618 then (if c < 6608 then None else Some (c - 6608)) else (if c < 6784 then None else
     Some (c - 6784))))) else (if c < 7242 then (if c < 7002 then (if c < 6810 then (if c <
     6800 then None else Some (c - 6800)) else (if c < 6992 then None else Some (c - 6992)))
     else (if c < 7098 then (if c < 7088 then None else Some (c - 7088)) else (if c < 7232
     then None else Some (c - 7232)))) else (if c < 42538 then (if c < 7258 then (if c <
     7248 then None else Some (c - 7248)) else (if c < 42528 then None else Some (c -
     42528))) else (if c < 43226 then (if c < 43216 then None else Some (c - 43216)) else
     (if c < 43264 then None else Some (c - 43264))))))) else (if c < 71370 then (if c <
     69744 then (if c < 44026 then (if c < 43514 then (if c < 43482 then (if c < 43472 then
     None else Some (c - 43472)) else (if c < 43504 then None else Some (c - 43504))) else
     (if c < 43610 then (if c < 43600 then None else Some (c - 43600)) else (if c < 44016
     then None else Some (c - 44016)))) else (if c < 66730 then (if c < 65306 then (if c <
     65296 then None else Some (c - 65296)) else (if c < 66720 then None else Some (c -
     66720))) else (if c < 68922 then (if c < 68912 then None else Some (c - 68912)) else
     (if c < 69734 then None else Some (c - 69734))))) else (if c < 70394 then (if c < 69952
     then (if c < 69882 then (if c < 69872 then None else Some (c - 69872)) else (if c <
     69942 then None else Some (c - 69942))) else (if c < 70106 then (if c < 70096 then None
     else Some (c - 70096)) else (if c < 70384 then None else Some (c - 70384)))) else (if c
     < 70874 then (if c < 70746 then (if c < 70736 then None else Some (c - 70736)) else (if
     c < 70864 then None else Some (c - 70864))) else (if c < 71258 then (if c < 71248 then
     None else Some (c - 71248)) else (if c < 71360 then None else Some (c - 71360))))))
     else (if c < 92874 then (if c < 72794 then (if c < 71914 then (if c < 71482 then (if c
     < 71472 then None else Some (c - 71472)) else (if c < 71904 then None else Some (c -
     71904))) else (if c < 72026 then (if c < 72016 then None else Some (c - 72016)) else
     (if c < 72784 then None else Some (c - 72784)))) else (if c < 73130 then (if c < 73050
     then (if c < 73040 then None else Some (c - 73040)) else (if c < 73120 then None else
     Some (c - 73120))) else (if c < 92778 then (if c < 92768 then None else Some (c -
     92768)) else (if c < 92864 then None else Some (c - 92864))))) else (if c < 120832 then
     (if c < 120792 then (if c < 93018 then (if c < 93008 then None else Some (c - 93008))
     else (if c < 120782 then None else Some (c - 120782))) else (if c < 120812 then (if c <
     120802 then Some (c - 120792) else Some (c - 120802)) else (if c < 120822 then Some (c
     - 120812) else Some (c - 120822)))) else (if c < 123642 then (if c < 123210 then (if c
     < 123200 then None else Some (c - 123200)) else (if c < 123632 then None else Some (c -
     123632))) else (if c < 125274 then (if c < 125264 then None else Some (c - 125264))
     else (if c < 130032 then None else (if c < 130042 then Some (c - 130032) else
     None))))))))"

definition is_digit :: "int \<Rightarrow> bool" where
  "is_digit c = (digit_of c \<noteq> None)"

definition digit_value :: "int \<Rightarrow> int" where
  "digit_value c = (case digit_of c of None \<Rightarrow> 0 | Some d \<Rightarrow> d)"

text \<open>The class \<open>\w\<close>: the underscore and every character that \<open>str.isalnum\<close> accepts.\<close>

definition is_word :: "int \<Rightarrow> bool" where
  "is_word c =
     (if c < 43471 then (if c < 4182 then (if c < 2737 then (if c < 2027 then (if c < 908
     then (if c < 247 then (if c < 178 then (if c < 95 then (if c < 58 then (if c < 48 then
     False else True) else (if c < 65 then False else (if c < 91 then True else False)))
     else (if c < 123 then (if c < 96 then True else (if c < 97 then False else True)) else
     (if c < 170 then False else (if c < 171 then True else False)))) else (if c < 187 then
     (if c < 181 then (if c < 180 then True else False) else (if c < 182 then True else (if
     c < 185 then False else True))) else (if c < 192 then (if c < 188 then False else (if c
     < 191 then True else False)) else (if c < 215 then True else (if c < 216 then False
     else True))))) else (if c < 880 then (if c < 736 then (if c < 706 then (if c < 248 then
     False else True) else (if c < 710 then False else (if c < 722 then True else False)))
     else (if c < 749 then (if c < 741 then True else (if c < 748 then False else True))
     else (if c < 750 then False else (if c < 751 then True else False)))) else (if c < 895
     then (if c < 888 then (if c < 885 then True else (if c < 886 then False else True))
     else (if c < 890 then False else (if c < 894 then True else False))) else (if c < 903
     then (if c < 896 then True else (if c < 902 then False else True)) else (if c < 904
     then False else (if c < 907 then True else False)))))) else (if c < 1632 then (if c <
     1367 then (if c < 1014 then (if c < 910 then (if c < 909 then True else False) else (if
     c < 930 then True else (if c < 931 then False else True))) else (if c < 1162 then (if c
     < 1015 then False else (if c < 1154 then True else False)) else (if c < 1328 then True
     else (if c < 1329 then False else True)))) else (if c < 1488 then (if c < 1370 then (if
     c < 1369 then False else True) else (if c < 1376 then False else (if c < 1417 then True
     else False))) else (if c < 1523 then (if c < 1515 then True else (if c < 1519 then
     False else True)) else (if c < 1568 then False else (if c < 1611 then True else
     False))))) else (if c < 1789 then (if c < 1748 then (if c < 1646 then (if c < 1642 then
     True else False) else (if c < 1648 then True else (if c < 1649 then False else True)))
     else (if c < 1765 then (if c < 1749 then False else (if c < 1750 then True else False))
     else (if c < 1767 then True else (if c < 1774 then False else True)))) else (if c <
     1840 then (if c < 1808 then (if c < 1791 then False else (if c < 1792 then True else
     False)) else (if c < 1809 then True else (if c < 1810 then False else True))) else (if
     c < 1969 then (if c < 1869 then False else (if c < 1958 then True else False)) else (if
     c < 1970 then True else (if c < 1984 then False else True))))))) else (if c < 2486 then
     (if c < 2250 then (if c < 2088 then (if c < 2048 then (if c < 2038 then (if c < 2036
     then False else True) else (if c < 2042 then False else (if c < 2043 then True else
     False))) else (if c < 2075 then (if c < 2070 then True else (if c < 2074 then False
     else True)) else (if c < 2084 then False else (if c < 2085 then True else False))))
     else (if c < 2155 then (if c < 2112 then (if c < 2089 then True else False) else (if c
     < 2137 then True else (if c < 2144 then False else True))) else (if c < 2185 then (if c
     < 2160 then False else (if c < 2184 then True else False)) else (if c < 2191 then True
     else (if c < 2208 then False else True))))) else (if c < 2417 then (if c < 2384 then
     (if c < 2362 then (if c < 2308 then False else True) else (if c < 2365 then False else
     (if c < 2366 then True else False))) else (if c < 2402 then (if c < 2385 then True else
     (if c < 2392 then False else True)) else (if c < 2406 then False else (if c < 2416 then
     True else False)))) else (if c < 2451 then (if c < 2445 then (if c < 2433 then True
     else (if c < 2437 then False else True)) else (if c < 2447 then False else (if c < 2449
     then True else False))) else (if c < 2481 then (if c < 2473 then True else (if c < 2474
     then False else True)) else (if c < 2482 then False else (if c < 2483 then True else
     False)))))) else (if c < 2602 then (if c < 2546 then (if c < 2511 then (if c < 2493
     then (if c < 2490 then True else False) else (if c < 2494 then True else (if c < 2510
     then False else True))) else (if c < 2527 then (if c < 2524 then False else (if c <
     2526 then True else False)) else (if c < 2530 then True else (if c < 2534 then False
     else True)))) else (if c < 2565 then (if c < 2554 then (if c < 2548 then False else
     True) else (if c < 2556 then False else (if c < 2557 then True else False))) else (if c
     < 2577 then (if c < 2571 then True else (if c < 2575 then False else True)) else (if c
     < 2579 then False else (if c < 2601 then True else False))))) else (if c < 2655 then
     (if c < 2615 then (if c < 2610 then (if c < 2609 then True else False) else (if c <
     2612 then True else (if c < 2613 then False else True))) else (if c < 2649 then (if c <
     2616 then False else (if c < 2618 then True else False)) else (if c < 2653 then True
     else (if c < 2654 then False else True)))) else (if c < 2702 then (if c < 2674 then (if
     c < 2662 then False else (if c < 2672 then True else False)) else (if c < 2677 then
     True else (if c < 2693 then False else True))) else (if c < 2707 then (if c < 2703 then
     False else (if c < 2706 then True else False)) else (if c < 2729 then True else (if c <
     2730 then False else True)))))))) else (if c < 3252 then (if c < 2969 then (if c < 2865
     then (if c < 2790 then (if c < 2749 then (if c < 2740 then (if c < 2738 then False else
     True) else (if c < 2741 then False else (if c < 2746 then True else False))) else (if c
     < 2769 then (if c < 2750 then True else (if c < 2768 then False else True)) else (if c
     < 2784 then False else (if c < 2786 then True else False)))) else (if c < 2829 then (if
     c < 2809 then (if c < 2800 then True else False) else (if c < 2810 then True else (if c
     < 2821 then False else True))) else (if c < 2835 then (if c < 2831 then False else (if
     c < 2833 then True else False)) else (if c < 2857 then True else (if c < 2858 then
     False else True))))) else (if c < 2918 then (if c < 2877 then (if c < 2868 then (if c <
     2866 then False else True) else (if c < 2869 then False else (if c < 2874 then True
     else False))) else (if c < 2910 then (if c < 2878 then True else (if c < 2908 then
     False else True)) else (if c < 2911 then False else (if c < 2914 then True else
     False)))) else (if c < 2949 then (if c < 2936 then (if c < 2928 then True else (if c <
     2929 then False else True)) else (if c < 2947 then False else (if c < 2948 then True
     else False))) else (if c < 2961 then (if c < 2955 then True else (if c < 2958 then
     False else True)) else (if c < 2962 then False else (if c < 2966 then True else
     False)))))) else (if c < 3114 then (if c < 3002 then (if c < 2976 then (if c < 2972
     then (if c < 2971 then True else False) else (if c < 2973 then True else (if c < 2974
     then False else True))) else (if c < 2984 then (if c < 2979 then False else (if c <
     2981 then True else False)) else (if c < 2987 then True else (if c < 2990 then False
     else True)))) else (if c < 3077 then (if c < 3025 then (if c < 3024 then False else
     True) else (if c < 3046 then False else (if c < 3059 then True else False))) else (if c
     < 3089 then (if c < 3085 then True else (if c < 3086 then False else True)) else (if c
     < 3090 then False else (if c < 3113 then True else False))))) else (if c < 3184 then
     (if c < 3163 then (if c < 3133 then (if c < 3130 then True else False) else (if c <
     3134 then True else (if c < 3160 then False else True))) else (if c < 3168 then (if c <
     3165 then False else (if c < 3166 then True else False)) else (if c < 3170 then True
     else (if c < 3174 then False else True)))) else (if c < 3213 then (if c < 3200 then (if
     c < 3192 then False else (if c < 3199 then True else False)) else (if c < 3201 then
     True else (if c < 3205 then False else True))) else (if c < 3218 then (if c < 3214 then
     False else (if c < 3217 then True else False)) else (if c < 3241 then True else (if c <
     3242 then False else True))))))) else (if c < 3634 then (if c < 3407 then (if c < 3313
     then (if c < 3293 then (if c < 3258 then (if c < 3253 then False else True) else (if c
     < 3261 then False else (if c < 3262 then True else False))) else (if c < 3298 then (if
     c < 3295 then True else (if c < 3296 then False else True)) else (if c < 3302 then
     False else (if c < 3312 then True else False)))) else (if c < 3345 then (if c < 3332
     then (if c < 3315 then True else False) else (if c < 3341 then True else (if c < 3342
     then False else True))) else (if c < 3389 then (if c < 3346 then False else (if c <
     3387 then True else False)) else (if c < 3390 then True else (if c < 3406 then False
     else True))))) else (if c < 3482 then (if c < 3430 then (if c < 3415 then (if c < 3412
     then False else True) else (if c < 3416 then False else (if c < 3426 then True else
     False))) else (if c < 3456 then (if c < 3449 then True else (if c < 3450 then False
     else True)) else (if c < 3461 then False else (if c < 3479 then True else False))))
     else (if c < 3520 then (if c < 3516 then (if c < 3506 then True else (if c < 3507 then
     False else True)) else (if c < 3517 then False else (if c < 3518 then True else
     False))) else (if c < 3568 then (if c < 3527 then True else (if c < 3558 then False
     else True)) else (if c < 3585 then False else (if c < 3633 then True else False))))))
     else (if c < 3776 then (if c < 3723 then (if c < 3674 then (if c < 3648 then (if c <
     3636 then True else False) else (if c < 3655 then True else (if c < 3664 then False
     else True))) else (if c < 3716 then (if c < 3713 then False else (if c < 3715 then True
     else False)) else (if c < 3717 then True else (if c < 3718 then False else True))))
     else (if c < 3751 then (if c < 3748 then (if c < 3724 then False else True) else (if c
     < 3749 then False else (if c < 3750 then True else False))) else (if c < 3764 then (if
     c < 3761 then True else (if c < 3762 then False else True)) else (if c < 3773 then
     False else (if c < 3774 then True else False))))) else (if c < 3892 then (if c < 3802
     then (if c < 3782 then (if c < 3781 then True else False) else (if c < 3783 then True
     else (if c < 3792 then False else True))) else (if c < 3840 then (if c < 3804 then
     False else (if c < 3808 then True else False)) else (if c < 3841 then True else (if c <
     3872 then False else True)))) else (if c < 3981 then (if c < 3913 then (if c < 3904
     then False else (if c < 3912 then True else False)) else (if c < 3949 then True else
     (if c < 3976 then False else True))) else (if c < 4159 then (if c < 4096 then False
     else (if c < 4139 then True else False)) else (if c < 4170 then True else (if c < 4176
     then False else True))))))))) else (if c < 8141 then (if c < 6122 then (if c < 4802
     then (if c < 4347 then (if c < 4238 then (if c < 4197 then (if c < 4190 then (if c <
     4186 then False else True) else (if c < 4193 then False else (if c < 4194 then True
     else False))) else (if c < 4209 then (if c < 4199 then True else (if c < 4206 then
     False else True)) else (if c < 4213 then False else (if c < 4226 then True else
     False)))) else (if c < 4294 then (if c < 4240 then (if c < 4239 then True else False)
     else (if c < 4250 then True else (if c < 4256 then False else True))) else (if c < 4301
     then (if c < 4295 then False else (if c < 4296 then True else False)) else (if c < 4302
     then True else (if c < 4304 then False else True))))) else (if c < 4704 then (if c <
     4688 then (if c < 4681 then (if c < 4348 then False else True) else (if c < 4682 then
     False else (if c < 4686 then True else False))) else (if c < 4697 then (if c < 4695
     then True else (if c < 4696 then False else True)) else (if c < 4698 then False else
     (if c < 4702 then True else False)))) else (if c < 4786 then (if c < 4750 then (if c <
     4745 then True else (if c < 4746 then False else True)) else (if c < 4752 then False
     else (if c < 4785 then True else False))) else (if c < 4799 then (if c < 4790 then True
     else (if c < 4792 then False else True)) else (if c < 4800 then False else (if c < 4801
     then True else False)))))) else (if c < 5761 then (if c < 4989 then (if c < 4881 then
     (if c < 4808 then (if c < 4806 then True else False) else (if c < 4823 then True else
     (if c < 4824 then False else True))) else (if c < 4888 then (if c < 4882 then False
     else (if c < 4886 then True else False)) else (if c < 4955 then True else (if c < 4969
     then False else True)))) else (if c < 5112 then (if c < 5008 then (if c < 4992 then
     False else True) else (if c < 5024 then False else (if c < 5110 then True else False)))
     else (if c < 5741 then (if c < 5118 then True else (if c < 5121 then False else True))
     else (if c < 5743 then False else (if c < 5760 then True else False))))) else (if c <
     5970 then (if c < 5881 then (if c < 5792 then (if c < 5787 then True else False) else
     (if c < 5867 then True else (if c < 5870 then False else True))) else (if c < 5919 then
     (if c < 5888 then False else (if c < 5906 then True else False)) else (if c < 5938 then
     True else (if c < 5952 then False else True)))) else (if c < 6068 then (if c < 5998
     then (if c < 5984 then False else (if c < 5997 then True else False)) else (if c < 6001
     then True else (if c < 6016 then False else True))) else (if c < 6108 then (if c < 6103
     then False else (if c < 6104 then True else False)) else (if c < 6109 then True else
     (if c < 6112 then False else True))))))) else (if c < 7086 then (if c < 6572 then (if c
     < 6314 then (if c < 6176 then (if c < 6138 then (if c < 6128 then False else True) else
     (if c < 6160 then False else (if c < 6170 then True else False))) else (if c < 6277
     then (if c < 6265 then True else (if c < 6272 then False else True)) else (if c < 6279
     then False else (if c < 6313 then True else False)))) else (if c < 6431 then (if c <
     6320 then (if c < 6315 then True else False) else (if c < 6390 then True else (if c <
     6400 then False else True))) else (if c < 6512 then (if c < 6470 then False else (if c
     < 6510 then True else False)) else (if c < 6517 then True else (if c < 6528 then False
     else True))))) else (if c < 6800 then (if c < 6656 then (if c < 6602 then (if c < 6576
     then False else True) else (if c < 6608 then False else (if c < 6619 then True else
     False))) else (if c < 6741 then (if c < 6679 then True else (if c < 6688 then False
     else True)) else (if c < 6784 then False else (if c < 6794 then True else False))))
     else (if c < 6981 then (if c < 6824 then (if c < 6810 then True else (if c < 6823 then
     False else True)) else (if c < 6917 then False else (if c < 6964 then True else
     False))) else (if c < 7002 then (if c < 6989 then True else (if c < 6992 then False
     else True)) else (if c < 7043 then False else (if c < 7073 then True else False))))))
     else (if c < 7424 then (if c < 7355 then (if c < 7242 then (if c < 7168 then (if c <
     7142 then True else False) else (if c < 7204 then True else (if c < 7232 then False
     else True))) else (if c < 7296 then (if c < 7245 then False else (if c < 7294 then True
     else False)) else (if c < 7305 then True else (if c < 7312 then False else True))))
     else (if c < 7406 then (if c < 7360 then (if c < 7357 then False else True) else (if c
     < 7401 then False else (if c < 7405 then True else False))) else (if c < 7415 then (if
     c < 7412 then True else (if c < 7413 then False else True)) else (if c < 7418 then
     False else (if c < 7419 then True else False))))) else (if c < 8024 then (if c < 7966
     then (if c < 7680 then (if c < 7616 then True else False) else (if c < 7958 then True
     else (if c < 7960 then False else True))) else (if c < 8008 then (if c < 7968 then
     False else (if c < 8006 then True else False)) else (if c < 8014 then True else (if c <
     8016 then False else True)))) else (if c < 8125 then (if c < 8064 then (if c < 8031
     then (if even c then False else True) else (if c < 8062 then True else False)) else (if
     c < 8117 then True else (if c < 8118 then False else True))) else (if c < 8130 then (if
     c < 8126 then False else (if c < 8127 then True else False)) else (if c < 8133 then
     True else (if c < 8134 then False else True)))))))) else (if c < 12337 then (if c <
     9472 then (if c < 8456 then (if c < 8304 then (if c < 8160 then (if c < 8148 then (if c
     < 8144 then False else True) else (if c < 8150 then False else (if c < 8156 then True
     else False))) else (if c < 8181 then (if c < 8173 then True else (if c < 8178 then
     False else True)) else (if c < 8182 then False else (if c < 8189 then True else
     False)))) else (if c < 8330 then (if c < 8308 then (if c < 8306 then True else False)
     else (if c < 8314 then True else (if c < 8319 then False else True))) else (if c < 8450
     then (if c < 8336 then False else (if c < 8349 then True else False)) else (if c < 8451
     then True else (if c < 8455 then False else True))))) else (if c < 8506 then (if c <
     8473 then (if c < 8468 then (if c < 8458 then False else True) else (if c < 8469 then
     False else (if c < 8470 then True else False))) else (if c < 8490 then (if c < 8478
     then True else (if c < 8484 then False else (if even c then True else False))) else (if
     c < 8494 then True else (if c < 8495 then False else True)))) else (if c < 8527 then
     (if c < 8517 then (if c < 8508 then False else (if c < 8512 then True else False)) else
     (if c < 8522 then True else (if c < 8526 then False else True))) else (if c < 9312 then
     (if c < 8528 then False else (if c < 8586 then True else False)) else (if c < 9372 then
     True else (if c < 9450 then False else True)))))) else (if c < 11671 then (if c < 11520
     then (if c < 11499 then (if c < 10132 then (if c < 10102 then False else True) else (if
     c < 11264 then False else (if c < 11493 then True else False))) else (if c < 11508 then
     (if c < 11503 then True else (if c < 11506 then False else True)) else (if c < 11517
     then False else (if c < 11518 then True else False)))) else (if c < 11566 then (if c <
     11559 then (if c < 11558 then True else False) else (if c < 11560 then True else (if c
     < 11565 then False else True))) else (if c < 11631 then (if c < 11568 then False else
     (if c < 11624 then True else False)) else (if c < 11632 then True else (if c < 11648
     then False else True))))) else (if c < 11720 then (if c < 11696 then (if c < 11687 then
     (if c < 11680 then False else True) else (if c < 11688 then False else (if c < 11695
     then True else False))) else (if c < 11711 then (if c < 11703 then True else (if c <
     11704 then False else True)) else (if c < 11712 then False else (if c < 11719 then True
     else False)))) else (if c < 11823 then (if c < 11735 then (if c < 11727 then True else
     (if c < 11728 then False else True)) else (if c < 11736 then False else (if c < 11743
     then True else False))) else (if c < 12296 then (if c < 11824 then True else (if c <
     12293 then False else True)) else (if c < 12321 then False else (if c < 12330 then True
     else False))))))) else (if c < 42654 then (if c < 12832 then (if c < 12544 then (if c <
     12439 then (if c < 12344 then (if c < 12342 then True else False) else (if c < 12349
     then True else (if c < 12353 then False else True))) else (if c < 12449 then (if c <
     12445 then False else (if c < 12448 then True else False)) else (if c < 12539 then True
     else (if c < 12540 then False else True)))) else (if c < 12690 then (if c < 12592 then
     (if c < 12549 then False else True) else (if c < 12593 then False else (if c < 12687
     then True else False))) else (if c < 12736 then (if c < 12694 then True else (if c <
     12704 then False else True)) else (if c < 12784 then False else (if c < 12800 then True
     else False))))) else (if c < 19904 then (if c < 12896 then (if c < 12872 then (if c <
     12842 then True else False) else (if c < 12880 then True else (if c < 12881 then False
     else True))) else (if c < 12977 then (if c < 12928 then False else (if c < 12938 then
     True else False)) else (if c < 12992 then True else (if c < 13312 then False else
     True)))) else (if c < 42509 then (if c < 42192 then (if c < 19968 then False else (if c
     < 42125 then True else False)) else (if c < 42238 then True else (if c < 42240 then
     False else True))) else (if c < 42560 then (if c < 42512 then False else (if c < 42540
     then True else False)) else (if c < 42607 then True else (if c < 42623 then False else
     True)))))) else (if c < 43043 then (if c < 42963 then (if c < 42786 then (if c < 42736
     then (if c < 42656 then False else True) else (if c < 42775 then False else (if c <
     42784 then True else False))) else (if c < 42955 then (if c < 42889 then True else (if
     c < 42891 then False else True)) else (if c < 42960 then False else (if c < 42962 then
     True else False)))) else (if c < 43010 then (if c < 42965 then (if c < 42964 then True
     else False) else (if c < 42970 then True else (if c < 42994 then False else True)))
     else (if c < 43015 then (if c < 43011 then False else (if c < 43014 then True else
     False)) else (if c < 43019 then True else (if c < 43020 then False else True))))) else
     (if c < 43259 then (if c < 43138 then (if c < 43062 then (if c < 43056 then False else
     True) else (if c < 43072 then False else (if c < 43124 then True else False))) else (if
     c < 43226 then (if c < 43188 then True else (if c < 43216 then False else True)) else
     (if c < 43250 then False else (if c < 43256 then True else False)))) else (if c < 43312
     then (if c < 43263 then (if c < 43260 then True else (if c < 43261 then False else
     True)) else (if c < 43264 then False else (if c < 43302 then True else False))) else
     (if c < 43389 then (if c < 43335 then True else (if c < 43360 then False else True))
     else (if c < 43396 then False else (if c < 43443 then True else False)))))))))) else
     (if c < 70784 then (if c < 67072 then (if c < 65008 then (if c < 43823 then (if c <
     43701 then (if c < 43596 then (if c < 43519 then (if c < 43488 then (if c < 43482 then
     True else False) else (if c < 43493 then True else (if c < 43494 then False else
     True))) else (if c < 43584 then (if c < 43520 then False else (if c < 43561 then True
     else False)) else (if c < 43587 then True else (if c < 43588 then False else True))))
     else (if c < 43642 then (if c < 43610 then (if c < 43600 then False else True) else (if
     c < 43616 then False else (if c < 43639 then True else False))) else (if c < 43696 then
     (if c < 43643 then True else (if c < 43646 then False else True)) else (if c < 43697
     then False else (if c < 43698 then True else False))))) else (if c < 43755 then (if c <
     43713 then (if c < 43705 then (if c < 43703 then True else False) else (if c < 43710
     then True else (if c < 43712 then False else True))) else (if c < 43739 then (if c <
     43714 then False else (if c < 43715 then True else False)) else (if c < 43742 then True
     else (if c < 43744 then False else True)))) else (if c < 43791 then (if c < 43777 then
     (if c < 43762 then False else (if c < 43765 then True else False)) else (if c < 43783
     then True else (if c < 43785 then False else True))) else (if c < 43808 then (if c <
     43793 then False else (if c < 43799 then True else False)) else (if c < 43815 then True
     else (if c < 43816 then False else True)))))) else (if c < 64280 then (if c < 55216
     then (if c < 43888 then (if c < 43867 then (if c < 43824 then False else True) else (if
     c < 43868 then False else (if c < 43882 then True else False))) else (if c < 44026 then
     (if c < 44003 then True else (if c < 44016 then False else True)) else (if c < 44032
     then False else (if c < 55204 then True else False)))) else (if c < 64110 then (if c <
     55243 then (if c < 55239 then True else False) else (if c < 55292 then True else (if c
     < 63744 then False else True))) else (if c < 64256 then (if c < 64112 then False else
     (if c < 64218 then True else False)) else (if c < 64263 then True else (if c < 64275
     then False else True))))) else (if c < 64320 then (if c < 64298 then (if c < 64286 then
     (if c < 64285 then False else True) else (if c < 64287 then False else (if c < 64297
     then True else False))) else (if c < 64317 then (if c < 64311 then True else (if c <
     64312 then False else True)) else (if c < 64318 then False else (if c < 64319 then True
     else False)))) else (if c < 64467 then (if c < 64325 then (if c < 64322 then True else
     (if c < 64323 then False else True)) else (if c < 64326 then False else (if c < 64434
     then True else False))) else (if c < 64912 then (if c < 64830 then True else (if c <
     64848 then False else True)) else (if c < 64914 then False else (if c < 64968 then True
     else False))))))) else (if c < 66257 then (if c < 65536 then (if c < 65371 then (if c <
     65277 then (if c < 65136 then (if c < 65020 then True else False) else (if c < 65141
     then True else (if c < 65142 then False else True))) else (if c < 65313 then (if c <
     65296 then False else (if c < 65306 then True else False)) else (if c < 65339 then True
     else (if c < 65345 then False else True)))) else (if c < 65482 then (if c < 65471 then
     (if c < 65382 then False else True) else (if c < 65474 then False else (if c < 65480
     then True else False))) else (if c < 65496 then (if c < 65488 then True else (if c <
     65490 then False else True)) else (if c < 65498 then False else (if c < 65501 then True
     else False))))) else (if c < 65630 then (if c < 65595 then (if c < 65549 then (if c <
     65548 then True else False) else (if c < 65575 then True else (if c < 65576 then False
     else True))) else (if c < 65599 then (if c < 65596 then False else (if c < 65598 then
     True else False)) else (if c < 65614 then True else (if c < 65616 then False else
     True)))) else (if c < 65913 then (if c < 65799 then (if c < 65664 then False else (if c
     < 65787 then True else False)) else (if c < 65844 then True else (if c < 65856 then
     False else True))) else (if c < 66176 then (if c < 65930 then False else (if c < 65932
     then True else False)) else (if c < 66205 then True else (if c < 66208 then False else
     True)))))) else (if c < 66772 then (if c < 66464 then (if c < 66349 then (if c < 66300
     then (if c < 66273 then False else True) else (if c < 66304 then False else (if c <
     66340 then True else False))) else (if c < 66422 then (if c < 66379 then True else (if
     c < 66384 then False else True)) else (if c < 66432 then False else (if c < 66462 then
     True else False)))) else (if c < 66518 then (if c < 66504 then (if c < 66500 then True
     else False) else (if c < 66512 then True else (if c < 66513 then False else True)))
     else (if c < 66720 then (if c < 66560 then False else (if c < 66718 then True else
     False)) else (if c < 66730 then True else (if c < 66736 then False else True))))) else
     (if c < 66956 then (if c < 66864 then (if c < 66812 then (if c < 66776 then False else
     True) else (if c < 66816 then False else (if c < 66856 then True else False))) else (if
     c < 66939 then (if c < 66916 then True else (if c < 66928 then False else True)) else
     (if c < 66940 then False else (if c < 66955 then True else False)))) else (if c < 66979
     then (if c < 66966 then (if c < 66963 then True else (if c < 66964 then False else
     True)) else (if c < 66967 then False else (if c < 66978 then True else False))) else
     (if c < 67002 then (if c < 66994 then True else (if c < 66995 then False else True))
     else (if c < 67003 then False else (if c < 67005 then True else False)))))))) else (if
     c < 69424 then (if c < 68116 then (if c < 67647 then (if c < 67515 then (if c < 67432
     then (if c < 67392 then (if c < 67383 then True else False) else (if c < 67414 then
     True else (if c < 67424 then False else True))) else (if c < 67463 then (if c < 67456
     then False else (if c < 67462 then True else False)) else (if c < 67505 then True else
     (if c < 67506 then False else True)))) else (if c < 67594 then (if c < 67590 then (if c
     < 67584 then False else True) else (if c < 67592 then False else (if c < 67593 then
     True else False))) else (if c < 67641 then (if c < 67638 then True else (if c < 67639
     then False else True)) else (if c < 67644 then False else (if c < 67645 then True else
     False))))) else (if c < 67830 then (if c < 67743 then (if c < 67672 then (if c < 67670
     then True else False) else (if c < 67703 then True else (if c < 67705 then False else
     True))) else (if c < 67808 then (if c < 67751 then False else (if c < 67760 then True
     else False)) else (if c < 67827 then True else (if c < 67828 then False else True))))
     else (if c < 68024 then (if c < 67872 then (if c < 67835 then False else (if c < 67868
     then True else False)) else (if c < 67898 then True else (if c < 67968 then False else
     True))) else (if c < 68050 then (if c < 68028 then False else (if c < 68048 then True
     else False)) else (if c < 68097 then True else (if c < 68112 then False else True))))))
     else (if c < 68467 then (if c < 68288 then (if c < 68160 then (if c < 68120 then (if c
     < 68117 then False else True) else (if c < 68121 then False else (if c < 68150 then
     True else False))) else (if c < 68223 then (if c < 68169 then True else (if c < 68192
     then False else True)) else (if c < 68224 then False else (if c < 68256 then True else
     False)))) else (if c < 68336 then (if c < 68297 then (if c < 68296 then True else
     False) else (if c < 68325 then True else (if c < 68331 then False else True))) else (if
     c < 68416 then (if c < 68352 then False else (if c < 68406 then True else False)) else
     (if c < 68438 then True else (if c < 68440 then False else True))))) else (if c < 68858
     then (if c < 68608 then (if c < 68498 then (if c < 68472 then False else True) else (if
     c < 68521 then False else (if c < 68528 then True else False))) else (if c < 68787 then
     (if c < 68681 then True else (if c < 68736 then False else True)) else (if c < 68800
     then False else (if c < 68851 then True else False)))) else (if c < 69248 then (if c <
     68922 then (if c < 68900 then True else (if c < 68912 then False else True)) else (if c
     < 69216 then False else (if c < 69247 then True else False))) else (if c < 69298 then
     (if c < 69290 then True else (if c < 69296 then False else True)) else (if c < 69376
     then False else (if c < 69416 then True else False))))))) else (if c < 70133 then (if c
     < 69872 then (if c < 69688 then (if c < 69506 then (if c < 69457 then (if c < 69446
     then True else False) else (if c < 69461 then True else (if c < 69488 then False else
     True))) else (if c < 69600 then (if c < 69552 then False else (if c < 69580 then True
     else False)) else (if c < 69623 then True else (if c < 69635 then False else True))))
     else (if c < 69749 then (if c < 69744 then (if c < 69714 then False else True) else (if
     c < 69745 then False else (if c < 69747 then True else False))) else (if c < 69808 then
     (if c < 69750 then True else (if c < 69763 then False else True)) else (if c < 69840
     then False else (if c < 69865 then True else False))))) else (if c < 70003 then (if c <
     69952 then (if c < 69891 then (if c < 69882 then True else False) else (if c < 69927
     then True else (if c < 69942 then False else True))) else (if c < 69959 then (if c <
     69956 then False else (if c < 69957 then True else False)) else (if c < 69960 then True
     else (if c < 69968 then False else True)))) else (if c < 70085 then (if c < 70019 then
     (if c < 70006 then False else (if c < 70007 then True else False)) else (if c < 70067
     then True else (if c < 70081 then False else True))) else (if c < 70108 then (if c <
     70096 then False else (if c < 70107 then True else False)) else (if c < 70109 then True
     else (if c < 70113 then False else True)))))) else (if c < 70417 then (if c < 70287
     then (if c < 70272 then (if c < 70162 then (if c < 70144 then False else True) else (if
     c < 70163 then False else (if c < 70188 then True else False))) else (if c < 70281 then
     (if c < 70279 then True else (if c < 70280 then False else True)) else (if c < 70282
     then False else (if c < 70286 then True else False)))) else (if c < 70367 then (if c <
     70303 then (if c < 70302 then True else False) else (if c < 70313 then True else (if c
     < 70320 then False else True))) else (if c < 70405 then (if c < 70384 then False else
     (if c < 70394 then True else False)) else (if c < 70413 then True else (if c < 70415
     then False else True))))) else (if c < 70480 then (if c < 70450 then (if c < 70441 then
     (if c < 70419 then False else True) else (if c < 70442 then False else (if c < 70449
     then True else False))) else (if c < 70458 then (if c < 70452 then True else (if c <
     70453 then False else True)) else (if c < 70461 then False else (if c < 70462 then True
     else False)))) else (if c < 70727 then (if c < 70498 then (if c < 70481 then True else
     (if c < 70493 then False else True)) else (if c < 70656 then False else (if c < 70709
     then True else False))) else (if c < 70746 then (if c < 70731 then True else (if c <
     70736 then False else True)) else (if c < 70751 then False else (if c < 70754 then True
     else False))))))))) else (if c < 113792 then (if c < 73040 then (if c < 72000 then (if
     c < 71360 then (if c < 71132 then (if c < 70856 then (if c < 70852 then (if c < 70832
     then True else False) else (if c < 70854 then True else (if c < 70855 then False else
     True))) else (if c < 71040 then (if c < 70864 then False else (if c < 70874 then True
     else False)) else (if c < 71087 then True else (if c < 71128 then False else True))))
     else (if c < 71248 then (if c < 71216 then (if c < 71168 then False else True) else (if
     c < 71236 then False else (if c < 71237 then True else False))) else (if c < 71339 then
     (if c < 71258 then True else (if c < 71296 then False else True)) else (if c < 71352
     then False else (if c < 71353 then True else False))))) else (if c < 71923 then (if c <
     71484 then (if c < 71424 then (if c < 71370 then True else False) else (if c < 71451
     then True else (if c < 71472 then False else True))) else (if c < 71680 then (if c <
     71488 then False else (if c < 71495 then True else False)) else (if c < 71724 then True
     else (if c < 71840 then False else True)))) else (if c < 71956 then (if c < 71945 then
     (if c < 71935 then False else (if c < 71943 then True else False)) else (if c < 71946
     then True else (if c < 71948 then False else True))) else (if c < 71960 then (if c <
     71957 then False else (if c < 71959 then True else False)) else (if c < 71984 then True
     else (if c < 71999 then False else True)))))) else (if c < 72330 then (if c < 72163
     then (if c < 72096 then (if c < 72002 then (if c < 72001 then False else True) else (if
     c < 72016 then False else (if c < 72026 then True else False))) else (if c < 72145 then
     (if c < 72104 then True else (if c < 72106 then False else True)) else (if c < 72161
     then False else (if c < 72162 then True else False)))) else (if c < 72243 then (if c <
     72192 then (if c < 72164 then True else False) else (if c < 72193 then True else (if c
     < 72203 then False else True))) else (if c < 72272 then (if c < 72250 then False else
     (if c < 72251 then True else False)) else (if c < 72273 then True else (if c < 72284
     then False else True))))) else (if c < 72784 then (if c < 72704 then (if c < 72350 then
     (if c < 72349 then False else True) else (if c < 72368 then False else (if c < 72441
     then True else False))) else (if c < 72751 then (if c < 72713 then True else (if c <
     72714 then False else True)) else (if c < 72768 then False else (if c < 72769 then True
     else False)))) else (if c < 72968 then (if c < 72848 then (if c < 72813 then True else
     (if c < 72818 then False else True)) else (if c < 72960 then False else (if c < 72967
     then True else False))) else (if c < 73009 then (if c < 72970 then True else (if c <
     72971 then False else True)) else (if c < 73030 then False else (if c < 73031 then True
     else False))))))) else (if c < 92996 then (if c < 74880 then (if c < 73130 then (if c <
     73065 then (if c < 73056 then (if c < 73050 then True else False) else (if c < 73062
     then True else (if c < 73063 then False else True))) else (if c < 73112 then (if c <
     73066 then False else (if c < 73098 then True else False)) else (if c < 73113 then True
     else (if c < 73120 then False else True)))) else (if c < 73664 then (if c < 73459 then
     (if c < 73440 then False else True) else (if c < 73648 then False else (if c < 73649
     then True else False))) else (if c < 74650 then (if c < 73685 then True else (if c <
     73728 then False else True)) else (if c < 74752 then False else (if c < 74863 then True
     else False))))) else (if c < 92767 then (if c < 78895 then (if c < 77712 then (if c <
     75076 then True else False) else (if c < 77809 then True else (if c < 77824 then False
     else True))) else (if c < 92160 then (if c < 82944 then False else (if c < 83527 then
     True else False)) else (if c < 92729 then True else (if c < 92736 then False else
     True)))) else (if c < 92874 then (if c < 92784 then (if c < 92768 then False else (if c
     < 92778 then True else False)) else (if c < 92863 then True else (if c < 92864 then
     False else True))) else (if c < 92928 then (if c < 92880 then False else (if c < 92910
     then True else False)) else (if c < 92976 then True else (if c < 92992 then False else
     True)))))) else (if c < 100344 then (if c < 93952 then (if c < 93027 then (if c < 93018
     then (if c < 93008 then False else True) else (if c < 93019 then False else (if c <
     93026 then True else False))) else (if c < 93072 then (if c < 93048 then True else (if
     c < 93053 then False else True)) else (if c < 93760 then False else (if c < 93847 then
     True else False)))) else (if c < 94112 then (if c < 94032 then (if c < 94027 then True
     else False) else (if c < 94033 then True else (if c < 94099 then False else True)))
     else (if c < 94179 then (if c < 94176 then False else (if c < 94178 then True else
     False)) else (if c < 94180 then True else (if c < 94208 then False else True))))) else
     (if c < 110592 then (if c < 110576 then (if c < 101590 then (if c < 100352 then False
     else True) else (if c < 101632 then False else (if c < 101641 then True else False)))
     else (if c < 110588 then (if c < 110580 then True else (if c < 110581 then False else
     True)) else (if c < 110589 then False else (if c < 110591 then True else False)))) else
     (if c < 110960 then (if c < 110931 then (if c < 110883 then True else (if c < 110928
     then False else True)) else (if c < 110948 then False else (if c < 110952 then True
     else False))) else (if c < 113771 then (if c < 111356 then True else (if c < 113664
     then False else True)) else (if c < 113776 then False else (if c < 113789 then True
     else False)))))))) else (if c < 124909 then (if c < 120486 then (if c < 119995 then (if
     c < 119965 then (if c < 119540 then (if c < 113808 then (if c < 113801 then True else
     False) else (if c < 113818 then True else (if c < 119520 then False else True))) else
     (if c < 119808 then (if c < 119648 then False else (if c < 119673 then True else
     False)) else (if c < 119893 then True else (if c < 119894 then False else True)))) else
     (if c < 119973 then (if c < 119968 then (if c < 119966 then False else True) else (if c
     < 119970 then False else (if c < 119971 then True else False))) else (if c < 119981
     then (if c < 119975 then True else (if c < 119977 then False else True)) else (if c <
     119982 then False else (if c < 119994 then True else False))))) else (if c < 120093
     then (if c < 120070 then (if c < 119997 then (if c < 119996 then True else False) else
     (if c < 120004 then True else (if c < 120005 then False else True))) else (if c <
     120077 then (if c < 120071 then False else (if c < 120075 then True else False)) else
     (if c < 120085 then True else (if c < 120086 then False else True)))) else (if c <
     120133 then (if c < 120123 then (if c < 120094 then False else (if c < 120122 then True
     else False)) else (if c < 120127 then True else (if c < 120128 then False else True)))
     else (if c < 120138 then (if c < 120134 then False else (if c < 120135 then True else
     False)) else (if c < 120145 then True else (if c < 120146 then False else True))))))
     else (if c < 120780 then (if c < 120630 then (if c < 120540 then (if c < 120513 then
     (if c < 120488 then False else True) else (if c < 120514 then False else (if c < 120539
     then True else False))) else (if c < 120597 then (if c < 120571 then True else (if c <
     120572 then False else True)) else (if c < 120598 then False else (if c < 120629 then
     True else False)))) else (if c < 120713 then (if c < 120656 then (if c < 120655 then
     True else False) else (if c < 120687 then True else (if c < 120688 then False else
     True))) else (if c < 120746 then (if c < 120714 then False else (if c < 120745 then
     True else False)) else (if c < 120771 then True else (if c < 120772 then False else
     True))))) else (if c < 123214 then (if c < 123136 then (if c < 120832 then (if c <
     120782 then False else True) else (if c < 122624 then False else (if c < 122655 then
     True else False))) else (if c < 123198 then (if c < 123181 then True else (if c <
     123191 then False else True)) else (if c < 123200 then False else (if c < 123210 then
     True else False)))) else (if c < 123632 then (if c < 123566 then (if c < 123215 then
     True else (if c < 123536 then False else True)) else (if c < 123584 then False else (if
     c < 123628 then True else False))) else (if c < 124903 then (if c < 123642 then True
     else (if c < 124896 then False else True)) else (if c < 124904 then False else (if c <
     124908 then True else False))))))) else (if c < 126547 then (if c < 126255 then (if c <
     125260 then (if c < 125125 then (if c < 124912 then (if c < 124911 then True else
     False) else (if c < 124927 then True else (if c < 124928 then False else True))) else
     (if c < 125184 then (if c < 125127 then False else (if c < 125136 then True else
     False)) else (if c < 125252 then True else (if c < 125259 then False else True)))) else
     (if c < 126125 then (if c < 125274 then (if c < 125264 then False else True) else (if c
     < 126065 then False else (if c < 126124 then True else False))) else (if c < 126133
     then (if c < 126128 then True else (if c < 126129 then False else True)) else (if c <
     126209 then False else (if c < 126254 then True else False))))) else (if c < 126504
     then (if c < 126496 then (if c < 126464 then (if c < 126270 then True else False) else
     (if c < 126468 then True else (if c < 126469 then False else True))) else (if c <
     126500 then (if c < 126497 then False else (if c < 126499 then True else False)) else
     (if c < 126501 then True else (if c < 126503 then False else True)))) else (if c <
     126530 then (if c < 126516 then (if c < 126505 then False else (if c < 126515 then True
     else False)) else (if c < 126520 then True else (if c < 126524 then (if even c then
     False else True) else False))) else (if c < 126541 then (if c < 126531 then True else
     (if c < 126535 then False else (if even c then False else True))) else (if c < 126544
     then True else (if c < 126545 then False else True)))))) else (if c < 126628 then (if c
     < 126579 then (if c < 126563 then (if c < 126549 then (if c < 126548 then False else
     True) else (if c < 126551 then False else (if c < 126561 then (if even c then False
     else True) else True))) else (if c < 126567 then (if c < 126564 then False else (if c <
     126565 then True else False)) else (if c < 126571 then True else (if c < 126572 then
     False else True)))) else (if c < 126591 then (if c < 126585 then (if c < 126580 then
     False else (if c < 126584 then True else False)) else (if c < 126589 then True else (if
     c < 126590 then False else True))) else (if c < 126603 then (if c < 126592 then False
     else (if c < 126602 then True else False)) else (if c < 126620 then True else (if c <
     126625 then False else True))))) else (if c < 173824 then (if c < 127232 then (if c <
     126634 then (if c < 126629 then False else True) else (if c < 126635 then False else
     (if c < 126652 then True else False))) else (if c < 130042 then (if c < 127245 then
     True else (if c < 130032 then False else True)) else (if c < 131072 then False else (if
     c < 173792 then True else False)))) else (if c < 183984 then (if c < 178206 then (if c
     < 177977 then True else (if c < 177984 then False else True)) else (if c < 178208 then
     False else (if c < 183970 then True else False))) else (if c < 195102 then (if c <
     191457 then True else (if c < 194560 then False else True)) else (if c < 196608 then
     False else (if c < 201547 then True else False)))))))))))"

text \<open>
  The simple lower case of one character, as the case-insensitive matching of \<open>re\<close>
  takes it.
\<close>

definition to_lower :: "int \<Rightarrow> int" where
  "to_lower c =
     (if c < 7829 then (if c < 544 then (if c < 412 then (if c < 386 then (if c < 305 then
     (if c < 215 then (if c < 91 then (if c < 65 then c else c + 32) else (if c < 192 then c
     else c + 32)) else (if c < 223 then (if c < 216 then c else c + 32) else (if c < 256
     then c else (if c < 304 then (if even c then c + 1 else c) else c - 199)))) else (if c
     < 330 then (if c < 313 then (if c < 311 then (if even c then c + 1 else c) else c) else
     (if c < 328 then (if even c then c else c + 1) else c)) else (if c < 377 then (if c <
     376 then (if even c then c + 1 else c) else c - 121) else (if c < 382 then (if even c
     then c else c + 1) else (if c < 385 then c else c + 210))))) else (if c < 400 then (if
     c < 393 then (if c < 391 then (if c < 390 then (if even c then c + 1 else c) else c +
     206) else (if c < 392 then c + 1 else c)) else (if c < 396 then (if c < 395 then c +
     205 else c + 1) else (if c < 398 then c else (if c < 399 then c + 79 else c + 202))))
     else (if c < 405 then (if c < 402 then (if c < 401 then c + 203 else c + 1) else (if c
     < 403 then c else (if c < 404 then c + 205 else c + 207))) else (if c < 407 then (if c
     < 406 then c else c + 211) else (if c < 408 then c + 209 else (if c < 409 then c + 1
     else c)))))) else (if c < 441 then (if c < 426 then (if c < 416 then (if c < 414 then
     (if c < 413 then c + 211 else c + 213) else (if c < 415 then c else c + 214)) else (if
     c < 423 then (if c < 422 then (if even c then c + 1 else c) else c + 218) else (if c <
     424 then c + 1 else (if c < 425 then c else c + 218)))) else (if c < 432 then (if c <
     429 then (if c < 428 then c else c + 1) else (if c < 430 then c else (if c < 431 then c
     + 218 else c + 1))) else (if c < 435 then (if c < 433 then c else c + 217) else (if c <
     439 then (if even c then c else c + 1) else (if c < 440 then c + 219 else c + 1)))))
     else (if c < 458 then (if c < 453 then (if c < 445 then (if c < 444 then c else c + 1)
     else (if c < 452 then c else c + 2)) else (if c < 455 then (if c < 454 then c + 1 else
     c) else (if c < 456 then c + 2 else (if c < 457 then c + 1 else c)))) else (if c < 497
     then (if c < 476 then (if c < 459 then c + 2 else (if even c then c else c + 1)) else
     (if c < 478 then c else (if c < 495 then (if even c then c + 1 else c) else c))) else
     (if c < 502 then (if c < 498 then c + 2 else (if even c then c + 1 else c)) else (if c
     < 503 then c - 97 else (if c < 504 then c - 56 else (if even c then c + 1 else
     c)))))))) else (if c < 976 then (if c < 882 then (if c < 577 then (if c < 571 then (if
     c < 563 then (if c < 545 then c - 130 else (if even c then c + 1 else c)) else (if c <
     570 then c else c + 10795)) else (if c < 573 then (if c < 572 then c + 1 else c) else
     (if c < 574 then c - 163 else (if c < 575 then c + 10792 else c)))) else (if c < 581
     then (if c < 579 then (if c < 578 then c + 1 else c) else (if c < 580 then c - 195 else
     c + 69)) else (if c < 591 then (if c < 582 then c + 71 else (if even c then c + 1 else
     c)) else (if c < 880 then c else (if c < 881 then c + 1 else c))))) else (if c < 907
     then (if c < 895 then (if c < 886 then (if c < 883 then c + 1 else c) else (if c < 887
     then c + 1 else c)) else (if c < 902 then (if c < 896 then c + 116 else c) else (if c <
     903 then c + 38 else (if c < 904 then c else c + 37)))) else (if c < 913 then (if c <
     909 then (if c < 908 then c else c + 64) else (if c < 910 then c else (if c < 912 then
     c + 63 else c))) else (if c < 931 then (if c < 930 then c + 32 else c) else (if c < 940
     then c + 32 else (if c < 975 then c else c + 8)))))) else (if c < 1230 then (if c <
     1019 then (if c < 1013 then (if c < 1007 then (if c < 984 then c else (if even c then c
     + 1 else c)) else (if c < 1012 then c else c - 60)) else (if c < 1016 then (if c < 1015
     then c else c + 1) else (if c < 1017 then c else (if c < 1018 then c - 7 else c + 1))))
     else (if c < 1120 then (if c < 1024 then (if c < 1021 then c else c - 130) else (if c <
     1040 then c + 80 else (if c < 1072 then c + 32 else c))) else (if c < 1162 then (if c <
     1153 then (if even c then c + 1 else c) else c) else (if c < 1216 then (if even c then
     c + 1 else c) else (if c < 1217 then c + 15 else (if even c then c else c + 1))))))
     else (if c < 4301 then (if c < 1367 then (if c < 1327 then (if c < 1232 then c else (if
     even c then c + 1 else c)) else (if c < 1329 then c else c + 48)) else (if c < 4294
     then (if c < 4256 then c else c + 7264) else (if c < 4295 then c else (if c < 4296 then
     c + 7264 else c)))) else (if c < 7312 then (if c < 5024 then (if c < 4302 then c + 7264
     else c) else (if c < 5104 then c + 38864 else (if c < 5110 then c + 8 else c))) else
     (if c < 7357 then (if c < 7355 then c - 3008 else c) else (if c < 7360 then c - 3008
     else (if c < 7680 then c else (if even c then c + 1 else c))))))))) else (if c < 11491
     then (if c < 8173 then (if c < 8072 then (if c < 7984 then (if c < 7944 then (if c <
     7839 then (if c < 7838 then c else c - 7615) else (if c < 7935 then (if even c then c +
     1 else c) else c)) else (if c < 7960 then (if c < 7952 then c - 8 else c) else (if c <
     7966 then c - 8 else (if c < 7976 then c else c - 8)))) else (if c < 8014 then (if c <
     8000 then (if c < 7992 then c else c - 8) else (if c < 8008 then c else c - 8)) else
     (if c < 8032 then (if c < 8025 then c else (if even c then c else c - 8)) else (if c <
     8040 then c else (if c < 8048 then c - 8 else c))))) else (if c < 8125 then (if c <
     8104 then (if c < 8088 then (if c < 8080 then c - 8 else c) else (if c < 8096 then c -
     8 else c)) else (if c < 8120 then (if c < 8112 then c - 8 else c) else (if c < 8122
     then c - 8 else (if c < 8124 then c - 74 else c - 9)))) else (if c < 8154 then (if c <
     8140 then (if c < 8136 then c else c - 86) else (if c < 8141 then c - 9 else (if c <
     8152 then c else c - 8))) else (if c < 8168 then (if c < 8156 then c - 100 else c) else
     (if c < 8170 then c - 8 else (if c < 8172 then c - 112 else c - 7)))))) else (if c <
     11312 then (if c < 8492 then (if c < 8189 then (if c < 8186 then (if c < 8184 then c
     else c - 128) else (if c < 8188 then c - 126 else c - 9)) else (if c < 8487 then (if c
     < 8486 then c else c - 7517) else (if c < 8490 then c else (if c < 8491 then c - 8383
     else c - 8262)))) else (if c < 8579 then (if c < 8499 then (if c < 8498 then c else c +
     28) else (if c < 8544 then c else (if c < 8560 then c + 16 else c))) else (if c < 9398
     then (if c < 8580 then c + 1 else c) else (if c < 9424 then c + 26 else (if c < 11264
     then c else c + 48))))) else (if c < 11374 then (if c < 11363 then (if c < 11361 then
     (if c < 11360 then c else c + 1) else (if c < 11362 then c else c - 10743)) else (if c
     < 11365 then (if c < 11364 then c - 3814 else c - 10727) else (if c < 11367 then c else
     (if c < 11373 then (if even c then c else c + 1) else c - 10780)))) else (if c < 11379
     then (if c < 11376 then (if c < 11375 then c - 10749 else c - 10783) else (if c < 11377
     then c - 10782 else (if c < 11378 then c else c + 1))) else (if c < 11382 then (if c <
     11381 then c else c + 1) else (if c < 11390 then c else (if c < 11392 then c - 10815
     else (if even c then c + 1 else c)))))))) else (if c < 42932 then (if c < 42891 then
     (if c < 42624 then (if c < 11502 then (if c < 11500 then (if c < 11499 then c else c +
     1) else (if c < 11501 then c else c + 1)) else (if c < 11507 then (if c < 11506 then c
     else c + 1) else (if c < 42560 then c else (if c < 42605 then (if even c then c + 1
     else c) else c)))) else (if c < 42863 then (if c < 42786 then (if c < 42651 then (if
     even c then c + 1 else c) else c) else (if c < 42799 then (if even c then c + 1 else c)
     else (if c < 42802 then c else (if even c then c + 1 else c)))) else (if c < 42877 then
     (if c < 42873 then c else (if even c then c else c + 1)) else (if c < 42878 then c -
     35332 else (if c < 42887 then (if even c then c + 1 else c) else c))))) else (if c <
     42922 then (if c < 42896 then (if c < 42893 then (if c < 42892 then c + 1 else c) else
     (if c < 42894 then c - 42280 else c)) else (if c < 42898 then (if c < 42897 then c + 1
     else c) else (if c < 42899 then c + 1 else (if c < 42902 then c else (if even c then c
     + 1 else c))))) else (if c < 42927 then (if c < 42924 then (if c < 42923 then c - 42308
     else c - 42319) else (if c < 42925 then c - 42315 else (if c < 42926 then c - 42305
     else c - 42308))) else (if c < 42929 then (if c < 42928 then c else c - 42258) else (if
     c < 42930 then c - 42282 else (if c < 42931 then c - 42261 else c + 928)))))) else (if
     c < 66600 then (if c < 42961 then (if c < 42951 then (if c < 42949 then (if c < 42948
     then (if even c then c + 1 else c) else c - 48) else (if c < 42950 then c - 42307 else
     c - 35384)) else (if c < 42953 then (if c < 42952 then c + 1 else c) else (if c < 42954
     then c + 1 else (if c < 42960 then c else c + 1)))) else (if c < 42997 then (if c <
     42967 then (if c < 42966 then c else c + 1) else (if c < 42968 then c else (if c <
     42969 then c + 1 else c))) else (if c < 65313 then (if c < 42998 then c + 1 else c)
     else (if c < 65339 then c + 32 else (if c < 66560 then c else c + 40))))) else (if c <
     66964 then (if c < 66939 then (if c < 66772 then (if c < 66736 then c else c + 40) else
     (if c < 66928 then c else c + 39)) else (if c < 66955 then (if c < 66940 then c else c
     + 39) else (if c < 66956 then c else (if c < 66963 then c + 39 else c)))) else (if c <
     71872 then (if c < 68736 then (if c < 66966 then c + 39 else c) else (if c < 68787 then
     c + 64 else (if c < 71840 then c else c + 32))) else (if c < 93792 then (if c < 93760
     then c else c + 32) else (if c < 125184 then c else (if c < 125218 then c + 34 else
     c)))))))))"

text \<open>
  The full lower case of one character, as \<open>str.lower\<close> takes it away from a capital
  sigma: the capital I with a dot (U+0130) gives an i and a combining dot.
\<close>

definition to_lower_full :: "int \<Rightarrow> ustr" where
  "to_lower_full c = (if c = 304 then [105, 775] else [to_lower c])"

text \<open>
  The full title case of one character, which \<open>str.capitalize\<close> gives the first
  character: some characters become two or three (the sharp s becomes \<open>Ss\<close>).
\<close>

definition to_title_full :: "int \<Rightarrow> ustr" where
  "to_title_full c =
     (if c < 7545 then (if c < 611 then (if c < 438 then (if c < 389 then (if c < 306 then
     (if c < 224 then (if c < 181 then (if c < 97 then [c] else (if c < 123 then [c - 32]
     else [c])) else (if c < 182 then [c + 743] else (if c < 223 then [c] else [83, 115])))
     else (if c < 255 then (if c < 247 then [c - 32] else (if c < 248 then [c] else [c -
     32])) else (if c < 256 then [c + 121] else (if c < 305 then (if even c then [c] else [c
     - 1]) else [c - 232])))) else (if c < 378 then (if c < 329 then (if c < 312 then (if
     even c then [c] else [c - 1]) else (if c < 314 then [c] else (if even c then [c - 1]
     else [c]))) else (if c < 330 then [700, 78] else (if c < 376 then (if even c then [c]
     else [c - 1]) else [c]))) else (if c < 385 then (if c < 383 then (if even c then [c -
     1] else [c]) else (if c < 384 then [c - 300] else [c + 195])) else (if c < 387 then [c]
     else (if c < 388 then [c - 1] else [c]))))) else (if c < 411 then (if c < 402 then (if
     c < 393 then (if c < 390 then [c - 1] else (if c < 392 then [c] else [c - 1])) else (if
     c < 396 then [c] else (if c < 397 then [c - 1] else [c]))) else (if c < 406 then (if c
     < 403 then [c - 1] else (if c < 405 then [c] else [c + 97])) else (if c < 409 then [c]
     else (if c < 410 then [c - 1] else [c + 163])))) else (if c < 425 then (if c < 417 then
     (if c < 414 then [c] else (if c < 415 then [c + 130] else [c])) else (if c < 422 then
     (if even c then [c] else [c - 1]) else (if c < 424 then [c] else [c - 1]))) else (if c
     < 432 then (if c < 429 then [c] else (if c < 430 then [c - 1] else [c])) else (if c <
     436 then (if c < 433 then [c - 1] else [c]) else (if c < 437 then [c - 1] else
     [c])))))) else (if c < 547 then (if c < 456 then (if c < 447 then (if c < 442 then (if
     c < 439 then [c - 1] else (if c < 441 then [c] else [c - 1])) else (if c < 445 then [c]
     else (if c < 446 then [c - 1] else [c]))) else (if c < 453 then (if c < 448 then [c +
     56] else (if c < 452 then [c] else [c + 1])) else (if c < 454 then [c] else (if c < 455
     then [c - 1] else [c + 1])))) else (if c < 496 then (if c < 459 then (if c < 457 then
     [c] else (if c < 458 then [c - 1] else [c + 1])) else (if c < 477 then (if even c then
     [c - 1] else [c]) else (if c < 478 then [c - 79] else (if even c then [c] else [c -
     1])))) else (if c < 502 then (if c < 497 then [74, 780] else (if c < 498 then [c + 1]
     else (if even c then [c] else [c - 1]))) else (if c < 505 then [c] else (if c < 544
     then (if even c then [c] else [c - 1]) else [c]))))) else (if c < 595 then (if c < 578
     then (if c < 573 then (if c < 564 then (if even c then [c] else [c - 1]) else (if c <
     572 then [c] else [c - 1])) else (if c < 575 then [c] else (if c < 577 then [c + 10815]
     else [c]))) else (if c < 592 then (if c < 579 then [c - 1] else (if c < 583 then [c]
     else (if even c then [c] else [c - 1]))) else (if c < 593 then [c + 10783] else (if c <
     594 then [c + 10780] else [c + 10782])))) else (if c < 602 then (if c < 598 then (if c
     < 596 then [c - 210] else (if c < 597 then [c - 206] else [c])) else (if c < 600 then
     [c - 205] else (if c < 601 then [c] else [c - 202]))) else (if c < 605 then (if c < 603
     then [c] else (if c < 604 then [c - 203] else [c + 42319])) else (if c < 609 then (if c
     < 608 then [c] else [c - 205]) else (if c < 610 then [c + 42315] else [c]))))))) else
     (if c < 941 then (if c < 644 then (if c < 624 then (if c < 617 then (if c < 614 then
     (if c < 612 then [c - 207] else (if c < 613 then [c] else [c + 42280])) else (if c <
     615 then [c + 42308] else (if c < 616 then [c] else [c - 209]))) else (if c < 620 then
     (if c < 618 then [c - 211] else (if c < 619 then [c + 42308] else [c + 10743])) else
     (if c < 621 then [c + 42305] else (if c < 623 then [c] else [c - 211])))) else (if c <
     637 then (if c < 627 then (if c < 625 then [c] else (if c < 626 then [c + 10749] else
     [c - 213])) else (if c < 629 then [c] else (if c < 630 then [c - 214] else [c]))) else
     (if c < 641 then (if c < 638 then [c + 10727] else (if c < 640 then [c] else [c -
     218])) else (if c < 642 then [c] else (if c < 643 then [c + 42307] else [c - 218])))))
     else (if c < 837 then (if c < 653 then (if c < 649 then (if c < 647 then [c] else (if c
     < 648 then [c + 42282] else [c - 218])) else (if c < 650 then [c - 69] else (if c < 652
     then [c - 217] else [c - 71]))) else (if c < 669 then (if c < 658 then [c] else (if c <
     659 then [c - 219] else [c])) else (if c < 670 then [c + 42261] else (if c < 671 then
     [c + 42258] else [c])))) else (if c < 887 then (if c < 882 then (if c < 838 then [c +
     84] else (if c < 881 then [c] else [c - 1])) else (if c < 883 then [c] else (if c < 884
     then [c - 1] else [c]))) else (if c < 894 then (if c < 888 then [c - 1] else (if c <
     891 then [c] else [c + 130])) else (if c < 913 then (if c < 912 then [c] else [921,
     776, 769]) else (if c < 940 then [c] else [c - 38])))))) else (if c < 1020 then (if c <
     982 then (if c < 973 then (if c < 962 then (if c < 944 then [c - 37] else (if c < 945
     then [933, 776, 769] else [c - 32])) else (if c < 963 then [c - 31] else (if c < 972
     then [c - 32] else [c - 64]))) else (if c < 977 then (if c < 975 then [c - 63] else (if
     c < 976 then [c] else [c - 62])) else (if c < 978 then [c - 57] else (if c < 981 then
     [c] else [c - 47])))) else (if c < 1011 then (if c < 1008 then (if c < 983 then [c -
     54] else (if c < 984 then [c - 8] else (if even c then [c] else [c - 1]))) else (if c <
     1009 then [c - 86] else (if c < 1010 then [c - 80] else [c + 7]))) else (if c < 1014
     then (if c < 1012 then [c - 116] else (if c < 1013 then [c] else [c - 96])) else (if c
     < 1017 then (if c < 1016 then [c] else [c - 1]) else (if c < 1019 then [c] else [c -
     1]))))) else (if c < 1415 then (if c < 1216 then (if c < 1120 then (if c < 1072 then
     [c] else (if c < 1104 then [c - 32] else [c - 80])) else (if c < 1154 then (if even c
     then [c] else [c - 1]) else (if c < 1163 then [c] else (if even c then [c] else [c -
     1])))) else (if c < 1232 then (if c < 1218 then [c] else (if c < 1231 then (if even c
     then [c - 1] else [c]) else [c - 15])) else (if c < 1328 then (if even c then [c] else
     [c - 1]) else (if c < 1377 then [c] else [c - 48])))) else (if c < 7298 then (if c <
     5118 then (if c < 1416 then [1333, 1410] else (if c < 5112 then [c] else [c - 8])) else
     (if c < 7296 then [c] else (if c < 7297 then [c - 6254] else [c - 6253]))) else (if c <
     7302 then (if c < 7299 then [c - 6244] else (if c < 7301 then [c - 6242] else [c -
     6243])) else (if c < 7304 then (if c < 7303 then [c - 6236] else [c - 6181]) else (if c
     < 7305 then [c + 35266] else [c])))))))) else (if c < 11362 then (if c < 8112 then (if
     c < 8006 then (if c < 7835 then (if c < 7681 then (if c < 7550 then (if c < 7546 then
     [c + 35332] else (if c < 7549 then [c] else [c + 3814])) else (if c < 7566 then [c]
     else (if c < 7567 then [c + 35384] else [c]))) else (if c < 7832 then (if c < 7830 then
     (if even c then [c] else [c - 1]) else (if c < 7831 then [72, 817] else [84, 776]))
     else (if c < 7833 then [87, 778] else (if c < 7834 then [89, 778] else [65, 702]))))
     else (if c < 7958 then (if c < 7936 then (if c < 7836 then [c - 59] else (if c < 7841
     then [c] else (if even c then [c] else [c - 1]))) else (if c < 7944 then [c + 8] else
     (if c < 7952 then [c] else [c + 8]))) else (if c < 7984 then (if c < 7968 then [c] else
     (if c < 7976 then [c + 8] else [c])) else (if c < 7992 then [c + 8] else (if c < 8000
     then [c] else [c + 8]))))) else (if c < 8048 then (if c < 8021 then (if c < 8018 then
     (if c < 8016 then [c] else (if c < 8017 then [933, 787] else [c + 8])) else (if c <
     8019 then [933, 787, 768] else (if c < 8020 then [c + 8] else [933, 787, 769]))) else
     (if c < 8024 then (if c < 8022 then [c + 8] else (if c < 8023 then [933, 787, 834] else
     [c + 8])) else (if c < 8032 then [c] else (if c < 8040 then [c + 8] else [c])))) else
     (if c < 8062 then (if c < 8056 then (if c < 8050 then [c + 74] else (if c < 8054 then
     [c + 86] else [c + 100])) else (if c < 8058 then [c + 128] else (if c < 8060 then [c +
     112] else [c + 126]))) else (if c < 8080 then (if c < 8064 then [c] else (if c < 8072
     then [c + 8] else [c])) else (if c < 8096 then (if c < 8088 then [c + 8] else [c]) else
     (if c < 8104 then [c + 8] else [c])))))) else (if c < 8162 then (if c < 8132 then (if c
     < 8119 then (if c < 8116 then (if c < 8114 then [c + 8] else (if c < 8115 then [8122,
     837] else [c + 9])) else (if c < 8117 then [902, 837] else (if c < 8118 then [c] else
     [913, 834]))) else (if c < 8127 then (if c < 8120 then [913, 834, 837] else (if c <
     8126 then [c] else [c - 7205])) else (if c < 8130 then [c] else (if c < 8131 then
     [8138, 837] else [c + 9])))) else (if c < 8146 then (if c < 8135 then (if c < 8133 then
     [905, 837] else (if c < 8134 then [c] else [919, 834])) else (if c < 8136 then [919,
     834, 837] else (if c < 8144 then [c] else [c + 8]))) else (if c < 8150 then (if c <
     8147 then [921, 776, 768] else (if c < 8148 then [921, 776, 769] else [c])) else (if c
     < 8152 then (if c < 8151 then [921, 834] else [921, 776, 834]) else (if c < 8160 then
     [c] else [c + 8]))))) else (if c < 8183 then (if c < 8168 then (if c < 8165 then (if c
     < 8163 then [933, 776, 768] else (if c < 8164 then [933, 776, 769] else [929, 787]))
     else (if c < 8166 then [c + 7] else (if c < 8167 then [933, 834] else [933, 776,
     834]))) else (if c < 8180 then (if c < 8178 then [c] else (if c < 8179 then [8186, 837]
     else [c + 9])) else (if c < 8181 then [911, 837] else (if c < 8182 then [c] else [937,
     834])))) else (if c < 8580 then (if c < 8527 then (if c < 8184 then [937, 834, 837]
     else (if c < 8526 then [c] else [c - 28])) else (if c < 8560 then [c] else (if c < 8576
     then [c - 16] else [c]))) else (if c < 9450 then (if c < 8581 then [c - 1] else (if c <
     9424 then [c] else [c - 26])) else (if c < 11360 then (if c < 11312 then [c] else [c -
     48]) else (if c < 11361 then [c] else [c - 1]))))))) else (if c < 42953 then (if c <
     42606 then (if c < 11501 then (if c < 11380 then (if c < 11367 then (if c < 11365 then
     [c] else (if c < 11366 then [c - 10795] else [c - 10792])) else (if c < 11373 then (if
     even c then [c - 1] else [c]) else (if c < 11379 then [c] else [c - 1]))) else (if c <
     11393 then (if c < 11382 then [c] else (if c < 11383 then [c - 1] else [c])) else (if c
     < 11492 then (if even c then [c] else [c - 1]) else (if c < 11500 then [c] else [c -
     1])))) else (if c < 11558 then (if c < 11507 then (if c < 11502 then [c] else (if c <
     11503 then [c - 1] else [c])) else (if c < 11508 then [c - 1] else (if c < 11520 then
     [c] else [c - 7264]))) else (if c < 11565 then (if c < 11559 then [c] else (if c <
     11560 then [c - 7264] else [c])) else (if c < 11566 then [c - 7264] else (if c < 42561
     then [c] else (if even c then [c] else [c - 1])))))) else (if c < 42888 then (if c <
     42864 then (if c < 42787 then (if c < 42625 then [c] else (if c < 42652 then (if even c
     then [c] else [c - 1]) else [c])) else (if c < 42800 then (if even c then [c] else [c -
     1]) else (if c < 42803 then [c] else (if even c then [c] else [c - 1])))) else (if c <
     42876 then (if c < 42874 then [c] else (if c < 42875 then [c - 1] else [c])) else (if c
     < 42877 then [c - 1] else (if c < 42879 then [c] else (if even c then [c] else [c -
     1]))))) else (if c < 42900 then (if c < 42897 then (if c < 42892 then [c] else (if c <
     42893 then [c - 1] else [c])) else (if c < 42898 then [c - 1] else (if c < 42899 then
     [c] else [c - 1]))) else (if c < 42922 then (if c < 42901 then [c + 48] else (if c <
     42903 then [c] else (if even c then [c] else [c - 1]))) else (if c < 42948 then (if c <
     42933 then [c] else (if even c then [c] else [c - 1])) else (if c < 42952 then [c] else
     [c - 1])))))) else (if c < 64278 then (if c < 43860 then (if c < 42968 then (if c <
     42961 then (if c < 42954 then [c] else (if c < 42955 then [c - 1] else [c])) else (if c
     < 42962 then [c - 1] else (if c < 42967 then [c] else [c - 1]))) else (if c < 42998
     then (if c < 42969 then [c] else (if c < 42970 then [c - 1] else [c])) else (if c <
     42999 then [c - 1] else (if c < 43859 then [c] else [c - 928])))) else (if c < 64259
     then (if c < 64256 then (if c < 43888 then [c] else (if c < 43968 then [c - 38864] else
     [c])) else (if c < 64257 then [70, 102] else (if c < 64258 then [70, 105] else [70,
     108]))) else (if c < 64263 then (if c < 64260 then [70, 102, 105] else (if c < 64261
     then [70, 102, 108] else [83, 116])) else (if c < 64276 then (if c < 64275 then [c]
     else [1348, 1398]) else (if c < 64277 then [1348, 1381] else [1348, 1387]))))) else (if
     c < 66994 then (if c < 66640 then (if c < 65345 then (if c < 64279 then [1358, 1398]
     else (if c < 64280 then [1348, 1389] else [c])) else (if c < 65371 then [c - 32] else
     (if c < 66600 then [c] else [c - 40]))) else (if c < 66967 then (if c < 66776 then [c]
     else (if c < 66812 then [c - 40] else [c])) else (if c < 66978 then [c - 39] else (if c
     < 66979 then [c] else [c - 39])))) else (if c < 68851 then (if c < 67003 then (if c <
     66995 then [c] else (if c < 67002 then [c - 39] else [c])) else (if c < 67005 then [c -
     39] else (if c < 68800 then [c] else [c - 64]))) else (if c < 93792 then (if c < 71872
     then [c] else (if c < 71904 then [c - 32] else [c])) else (if c < 125218 then (if c <
     93824 then [c - 32] else [c]) else (if c < 125252 then [c - 34] else [c])))))))))"

text \<open>The properties Cased and Case_Ignorable.\<close>

definition is_cased :: "int \<Rightarrow> bool" where
  "is_cased c =
     (if c < 11520 then (if c < 7424 then (if c < 902 then (if c < 448 then (if c < 186 then
     (if c < 123 then (if c < 91 then (if c < 65 then False else True) else (if c < 97 then
     False else True)) else (if c < 171 then (if c < 170 then False else True) else (if c <
     181 then False else (if c < 182 then True else False)))) else (if c < 216 then (if c <
     192 then (if c < 187 then True else False) else (if c < 215 then True else False)) else
     (if c < 248 then (if c < 247 then True else False) else (if c < 443 then True else (if
     c < 444 then False else True))))) else (if c < 837 then (if c < 697 then (if c < 660
     then (if c < 452 then False else True) else (if c < 661 then False else True)) else (if
     c < 706 then (if c < 704 then False else True) else (if c < 736 then False else (if c <
     741 then True else False)))) else (if c < 888 then (if c < 880 then (if c < 838 then
     True else False) else (if c < 884 then True else (if c < 886 then False else True)))
     else (if c < 894 then (if c < 890 then False else True) else (if c < 895 then False
     else (if c < 896 then True else False)))))) else (if c < 4294 then (if c < 1014 then
     (if c < 908 then (if c < 904 then (if c < 903 then True else False) else (if c < 907
     then True else False)) else (if c < 910 then (if c < 909 then True else False) else (if
     c < 930 then True else (if c < 931 then False else True)))) else (if c < 1329 then (if
     c < 1154 then (if c < 1015 then False else True) else (if c < 1162 then False else (if
     c < 1328 then True else False))) else (if c < 1376 then (if c < 1367 then True else
     False) else (if c < 1417 then True else (if c < 4256 then False else True))))) else (if
     c < 5024 then (if c < 4302 then (if c < 4296 then (if c < 4295 then False else True)
     else (if c < 4301 then False else True)) else (if c < 4347 then (if c < 4304 then False
     else True) else (if c < 4349 then False else (if c < 4352 then True else False)))) else
     (if c < 7305 then (if c < 5112 then (if c < 5110 then True else False) else (if c <
     5118 then True else (if c < 7296 then False else True))) else (if c < 7355 then (if c <
     7312 then False else True) else (if c < 7357 then False else (if c < 7360 then True
     else False))))))) else (if c < 8320 then (if c < 8126 then (if c < 8014 then (if c <
     7960 then (if c < 7680 then (if c < 7616 then True else False) else (if c < 7958 then
     True else False)) else (if c < 7968 then (if c < 7966 then True else False) else (if c
     < 8006 then True else (if c < 8008 then False else True)))) else (if c < 8062 then (if
     c < 8024 then (if c < 8016 then False else True) else (if c < 8031 then (if even c then
     False else True) else True)) else (if c < 8117 then (if c < 8064 then False else True)
     else (if c < 8118 then False else (if c < 8125 then True else False))))) else (if c <
     8156 then (if c < 8134 then (if c < 8130 then (if c < 8127 then True else False) else
     (if c < 8133 then True else False)) else (if c < 8144 then (if c < 8141 then True else
     False) else (if c < 8148 then True else (if c < 8150 then False else True)))) else (if
     c < 8182 then (if c < 8173 then (if c < 8160 then False else True) else (if c < 8178
     then False else (if c < 8181 then True else False))) else (if c < 8305 then (if c <
     8189 then True else False) else (if c < 8306 then True else (if c < 8319 then False
     else True)))))) else (if c < 8506 then (if c < 8469 then (if c < 8451 then (if c < 8349
     then (if c < 8336 then False else True) else (if c < 8450 then False else True)) else
     (if c < 8456 then (if c < 8455 then False else True) else (if c < 8458 then False else
     (if c < 8468 then True else False)))) else (if c < 8490 then (if c < 8473 then (if c <
     8470 then True else False) else (if c < 8478 then True else (if c < 8484 then False
     else (if even c then True else False)))) else (if c < 8495 then (if c < 8494 then True
     else False) else (if c < 8501 then True else (if c < 8505 then False else True)))))
     else (if c < 8579 then (if c < 8522 then (if c < 8512 then (if c < 8508 then False else
     True) else (if c < 8517 then False else True)) else (if c < 8527 then (if c < 8526 then
     False else True) else (if c < 8544 then False else (if c < 8576 then True else
     False)))) else (if c < 11493 then (if c < 9398 then (if c < 8581 then True else False)
     else (if c < 9450 then True else (if c < 11264 then False else True))) else (if c <
     11503 then (if c < 11499 then False else True) else (if c < 11506 then False else (if c
     < 11508 then True else False)))))))) else (if c < 71904 then (if c < 65339 then (if c <
     42963 then (if c < 42654 then (if c < 11565 then (if c < 11559 then (if c < 11558 then
     True else False) else (if c < 11560 then True else False)) else (if c < 42560 then (if
     c < 11566 then True else False) else (if c < 42606 then True else (if c < 42624 then
     False else True)))) else (if c < 42895 then (if c < 42888 then (if c < 42786 then False
     else True) else (if c < 42891 then False else True)) else (if c < 42955 then (if c <
     42896 then False else True) else (if c < 42960 then False else (if c < 42962 then True
     else False))))) else (if c < 43867 then (if c < 42997 then (if c < 42965 then (if c <
     42964 then True else False) else (if c < 42970 then True else False)) else (if c <
     43000 then (if c < 42999 then True else False) else (if c < 43003 then True else (if c
     < 43824 then False else True)))) else (if c < 64256 then (if c < 43881 then (if c <
     43868 then False else True) else (if c < 43888 then False else (if c < 43968 then True
     else False))) else (if c < 64275 then (if c < 64263 then True else False) else (if c <
     64280 then True else (if c < 65313 then False else True)))))) else (if c < 66979 then
     (if c < 66928 then (if c < 66640 then (if c < 65371 then (if c < 65345 then False else
     True) else (if c < 66560 then False else True)) else (if c < 66772 then (if c < 66736
     then False else True) else (if c < 66776 then False else (if c < 66812 then True else
     False)))) else (if c < 66963 then (if c < 66940 then (if c < 66939 then True else
     False) else (if c < 66955 then True else (if c < 66956 then False else True))) else (if
     c < 66966 then (if c < 66964 then False else True) else (if c < 66967 then False else
     (if c < 66978 then True else False))))) else (if c < 67462 then (if c < 67003 then (if
     c < 66995 then (if c < 66994 then True else False) else (if c < 67002 then True else
     False)) else (if c < 67456 then (if c < 67005 then True else False) else (if c < 67457
     then True else (if c < 67459 then False else True)))) else (if c < 68736 then (if c <
     67505 then (if c < 67463 then False else True) else (if c < 67506 then False else (if c
     < 67515 then True else False))) else (if c < 68800 then (if c < 68787 then True else
     False) else (if c < 68851 then True else (if c < 71840 then False else True))))))) else
     (if c < 120138 then (if c < 119996 then (if c < 119970 then (if c < 119893 then (if c <
     93824 then (if c < 93760 then False else True) else (if c < 119808 then False else
     True)) else (if c < 119965 then (if c < 119894 then False else True) else (if c <
     119966 then False else (if c < 119968 then True else False)))) else (if c < 119977 then
     (if c < 119973 then (if c < 119971 then True else False) else (if c < 119975 then True
     else False)) else (if c < 119982 then (if c < 119981 then True else False) else (if c <
     119994 then True else (if c < 119995 then False else True))))) else (if c < 120086 then
     (if c < 120070 then (if c < 120004 then (if c < 119997 then False else True) else (if c
     < 120005 then False else True)) else (if c < 120075 then (if c < 120071 then False else
     True) else (if c < 120077 then False else (if c < 120085 then True else False)))) else
     (if c < 120127 then (if c < 120094 then (if c < 120093 then True else False) else (if c
     < 120122 then True else (if c < 120123 then False else True))) else (if c < 120133 then
     (if c < 120128 then False else True) else (if c < 120134 then False else (if c < 120135
     then True else False)))))) else (if c < 120713 then (if c < 120571 then (if c < 120488
     then (if c < 120146 then (if c < 120145 then True else False) else (if c < 120486 then
     True else False)) else (if c < 120514 then (if c < 120513 then True else False) else
     (if c < 120539 then True else (if c < 120540 then False else True)))) else (if c <
     120630 then (if c < 120597 then (if c < 120572 then False else True) else (if c <
     120598 then False else (if c < 120629 then True else False))) else (if c < 120656 then
     (if c < 120655 then True else False) else (if c < 120687 then True else (if c < 120688
     then False else True))))) else (if c < 122635 then (if c < 120771 then (if c < 120745
     then (if c < 120714 then False else True) else (if c < 120746 then False else True))
     else (if c < 120780 then (if c < 120772 then False else True) else (if c < 122624 then
     False else (if c < 122634 then True else False)))) else (if c < 127306 then (if c <
     125184 then (if c < 122655 then True else False) else (if c < 125252 then True else (if
     c < 127280 then False else True))) else (if c < 127338 then (if c < 127312 then False
     else True) else (if c < 127344 then False else (if c < 127370 then True else
     False)))))))))"

definition is_case_ignorable :: "int \<Rightarrow> bool" where
  "is_case_ignorable c =
     (if c < 12293 then (if c < 3541 then (if c < 2418 then (if c < 1564 then (if c < 891
     then (if c < 173 then (if c < 59 then (if c < 46 then (if c < 39 then False else (if c
     < 40 then True else False)) else (if c < 47 then True else (if c < 58 then False else
     True))) else (if c < 96 then (if c < 94 then False else (if c < 95 then True else
     False)) else (if c < 168 then (if c < 97 then True else False) else (if c < 169 then
     True else False)))) else (if c < 183 then (if c < 176 then (if c < 174 then True else
     (if c < 175 then False else True)) else (if c < 180 then False else (if c < 181 then
     True else False))) else (if c < 880 then (if c < 185 then True else (if c < 688 then
     False else True)) else (if c < 886 then (if c < 884 then False else True) else (if c <
     890 then False else True))))) else (if c < 1471 then (if c < 1162 then (if c < 903 then
     (if c < 900 then False else (if c < 902 then True else False)) else (if c < 904 then
     True else (if c < 1155 then False else True))) else (if c < 1375 then (if c < 1369 then
     False else (if c < 1370 then True else False)) else (if c < 1425 then (if c < 1376 then
     True else False) else (if c < 1470 then True else False)))) else (if c < 1480 then (if
     c < 1475 then (if c < 1472 then True else (if c < 1473 then False else True)) else (if
     c < 1478 then (if c < 1476 then False else True) else (if c < 1479 then False else
     True))) else (if c < 1536 then (if c < 1524 then False else (if c < 1525 then True else
     False)) else (if c < 1552 then (if c < 1542 then True else False) else (if c < 1563
     then True else False)))))) else (if c < 2045 then (if c < 1774 then (if c < 1648 then
     (if c < 1601 then (if c < 1565 then True else (if c < 1600 then False else True)) else
     (if c < 1611 then False else (if c < 1632 then True else False))) else (if c < 1758
     then (if c < 1649 then True else (if c < 1750 then False else True)) else (if c < 1769
     then (if c < 1759 then False else True) else (if c < 1770 then False else True)))) else
     (if c < 1867 then (if c < 1809 then (if c < 1807 then False else (if c < 1808 then True
     else False)) else (if c < 1810 then True else (if c < 1840 then False else True))) else
     (if c < 2027 then (if c < 1958 then False else (if c < 1969 then True else False)) else
     (if c < 2042 then (if c < 2038 then True else False) else (if c < 2043 then True else
     False))))) else (if c < 2307 then (if c < 2184 then (if c < 2094 then (if c < 2046 then
     True else (if c < 2070 then False else True)) else (if c < 2137 then False else (if c <
     2140 then True else False))) else (if c < 2194 then (if c < 2185 then True else (if c <
     2192 then False else True)) else (if c < 2208 then (if c < 2200 then False else True)
     else (if c < 2249 then False else True)))) else (if c < 2381 then (if c < 2364 then (if
     c < 2362 then False else (if c < 2363 then True else False)) else (if c < 2369 then (if
     c < 2365 then True else False) else (if c < 2377 then True else False))) else (if c <
     2392 then (if c < 2382 then True else (if c < 2385 then False else True)) else (if c <
     2404 then (if c < 2402 then False else True) else (if c < 2417 then False else
     True))))))) else (if c < 2901 then (if c < 2674 then (if c < 2561 then (if c < 2501
     then (if c < 2492 then (if c < 2433 then False else (if c < 2434 then True else False))
     else (if c < 2493 then True else (if c < 2497 then False else True))) else (if c < 2530
     then (if c < 2509 then False else (if c < 2510 then True else False)) else (if c < 2558
     then (if c < 2532 then True else False) else (if c < 2559 then True else False)))) else
     (if c < 2631 then (if c < 2621 then (if c < 2563 then True else (if c < 2620 then False
     else True)) else (if c < 2625 then False else (if c < 2627 then True else False))) else
     (if c < 2638 then (if c < 2633 then True else (if c < 2635 then False else True)) else
     (if c < 2642 then (if c < 2641 then False else True) else (if c < 2672 then False else
     True))))) else (if c < 2786 then (if c < 2749 then (if c < 2689 then (if c < 2677 then
     False else (if c < 2678 then True else False)) else (if c < 2691 then True else (if c <
     2748 then False else True))) else (if c < 2759 then (if c < 2753 then False else (if c
     < 2758 then True else False)) else (if c < 2765 then (if c < 2761 then True else False)
     else (if c < 2766 then True else False)))) else (if c < 2877 then (if c < 2816 then (if
     c < 2788 then True else (if c < 2810 then False else True)) else (if c < 2818 then (if
     c < 2817 then False else True) else (if c < 2876 then False else True))) else (if c <
     2881 then (if c < 2879 then False else (if c < 2880 then True else False)) else (if c <
     2893 then (if c < 2885 then True else False) else (if c < 2894 then True else
     False)))))) else (if c < 3201 then (if c < 3077 then (if c < 3008 then (if c < 2916
     then (if c < 2903 then True else (if c < 2914 then False else True)) else (if c < 2946
     then False else (if c < 2947 then True else False))) else (if c < 3022 then (if c <
     3009 then True else (if c < 3021 then False else True)) else (if c < 3073 then (if c <
     3072 then False else True) else (if c < 3076 then False else True)))) else (if c < 3145
     then (if c < 3134 then (if c < 3132 then False else (if c < 3133 then True else False))
     else (if c < 3137 then True else (if c < 3142 then False else True))) else (if c < 3157
     then (if c < 3146 then False else (if c < 3150 then True else False)) else (if c < 3170
     then (if c < 3159 then True else False) else (if c < 3172 then True else False)))))
     else (if c < 3330 then (if c < 3270 then (if c < 3261 then (if c < 3202 then True else
     (if c < 3260 then False else True)) else (if c < 3263 then False else (if c < 3264 then
     True else False))) else (if c < 3278 then (if c < 3271 then True else (if c < 3276 then
     False else True)) else (if c < 3300 then (if c < 3298 then False else True) else (if c
     < 3328 then False else True)))) else (if c < 3426 then (if c < 3393 then (if c < 3387
     then False else (if c < 3389 then True else False)) else (if c < 3405 then (if c < 3397
     then True else False) else (if c < 3406 then True else False))) else (if c < 3458 then
     (if c < 3428 then True else (if c < 3457 then False else True)) else (if c < 3531 then
     (if c < 3530 then False else True) else (if c < 3538 then False else True)))))))) else
     (if c < 6771 then (if c < 4253 then (if c < 3976 then (if c < 3782 then (if c < 3643
     then (if c < 3633 then (if c < 3542 then False else (if c < 3543 then True else False))
     else (if c < 3634 then True else (if c < 3636 then False else True))) else (if c < 3761
     then (if c < 3654 then False else (if c < 3663 then True else False)) else (if c < 3764
     then (if c < 3762 then True else False) else (if c < 3773 then True else False)))) else
     (if c < 3893 then (if c < 3790 then (if c < 3783 then True else (if c < 3784 then False
     else True)) else (if c < 3864 then False else (if c < 3866 then True else False))) else
     (if c < 3967 then (if c < 3898 then (if even c then False else True) else (if c < 3953
     then False else True)) else (if c < 3973 then (if c < 3968 then False else True) else
     (if c < 3974 then False else True))))) else (if c < 4157 then (if c < 4039 then (if c <
     3993 then (if c < 3981 then False else (if c < 3992 then True else False)) else (if c <
     4029 then True else (if c < 4038 then False else True))) else (if c < 4146 then (if c <
     4141 then False else (if c < 4145 then True else False)) else (if c < 4153 then (if c <
     4152 then True else False) else (if c < 4155 then True else False)))) else (if c < 4213
     then (if c < 4186 then (if c < 4159 then True else (if c < 4184 then False else True))
     else (if c < 4193 then (if c < 4190 then False else True) else (if c < 4209 then False
     else True))) else (if c < 4229 then (if c < 4226 then False else (if c < 4227 then True
     else False)) else (if c < 4237 then (if c < 4231 then True else False) else (if c <
     4238 then True else False)))))) else (if c < 6155 then (if c < 6004 then (if c < 5906
     then (if c < 4349 then (if c < 4254 then True else (if c < 4348 then False else True))
     else (if c < 4957 then False else (if c < 4960 then True else False))) else (if c <
     5940 then (if c < 5909 then True else (if c < 5938 then False else True)) else (if c <
     5972 then (if c < 5970 then False else True) else (if c < 6002 then False else True))))
     else (if c < 6087 then (if c < 6071 then (if c < 6068 then False else (if c < 6070 then
     True else False)) else (if c < 6078 then True else (if c < 6086 then False else True)))
     else (if c < 6103 then (if c < 6089 then False else (if c < 6100 then True else False))
     else (if c < 6109 then (if c < 6104 then True else False) else (if c < 6110 then True
     else False))))) else (if c < 6451 then (if c < 6313 then (if c < 6212 then (if c < 6160
     then True else (if c < 6211 then False else True)) else (if c < 6277 then False else
     (if c < 6279 then True else False))) else (if c < 6435 then (if c < 6314 then True else
     (if c < 6432 then False else True)) else (if c < 6441 then (if c < 6439 then False else
     True) else (if c < 6450 then False else True)))) else (if c < 6742 then (if c < 6679
     then (if c < 6457 then False else (if c < 6460 then True else False)) else (if c < 6683
     then (if c < 6681 then True else False) else (if c < 6684 then True else False))) else
     (if c < 6751 then (if c < 6743 then True else (if c < 6744 then False else True)) else
     (if c < 6757 then (if c < 6755 then (if even c then True else False) else False) else
     (if c < 6765 then True else False))))))) else (if c < 7418 then (if c < 7083 then (if c
     < 6971 then (if c < 6832 then (if c < 6784 then (if c < 6781 then True else (if c <
     6783 then False else True)) else (if c < 6823 then False else (if c < 6824 then True
     else False))) else (if c < 6916 then (if c < 6863 then True else (if c < 6912 then
     False else True)) else (if c < 6965 then (if c < 6964 then False else True) else (if c
     < 6966 then False else True)))) else (if c < 7028 then (if c < 6978 then (if c < 6972
     then False else (if c < 6973 then True else False)) else (if c < 6979 then True else
     (if c < 7019 then False else True))) else (if c < 7074 then (if c < 7040 then False
     else (if c < 7042 then True else False)) else (if c < 7080 then (if c < 7078 then True
     else False) else (if c < 7082 then True else False))))) else (if c < 7224 then (if c <
     7149 then (if c < 7143 then (if c < 7086 then True else (if c < 7142 then False else
     True)) else (if c < 7144 then False else (if c < 7146 then True else False))) else (if
     c < 7154 then (if c < 7150 then True else (if c < 7151 then False else True)) else (if
     c < 7220 then (if c < 7212 then False else True) else (if c < 7222 then False else
     True)))) else (if c < 7394 then (if c < 7376 then (if c < 7288 then False else (if c <
     7294 then True else False)) else (if c < 7380 then (if c < 7379 then True else False)
     else (if c < 7393 then True else False))) else (if c < 7406 then (if c < 7401 then True
     else (if c < 7405 then False else True)) else (if c < 7413 then (if c < 7412 then False
     else True) else (if c < 7416 then False else True)))))) else (if c < 8232 then (if c <
     8157 then (if c < 7680 then (if c < 7544 then (if c < 7468 then False else (if c < 7531
     then True else False)) else (if c < 7545 then True else (if c < 7579 then False else
     True))) else (if c < 8127 then (if c < 8125 then False else (if c < 8126 then True else
     False)) else (if c < 8141 then (if c < 8130 then True else False) else (if c < 8144
     then True else False)))) else (if c < 8203 then (if c < 8176 then (if c < 8160 then
     True else (if c < 8173 then False else True)) else (if c < 8189 then False else (if c <
     8191 then True else False))) else (if c < 8218 then (if c < 8208 then True else (if c <
     8216 then False else True)) else (if c < 8229 then (if c < 8228 then False else True)
     else (if c < 8231 then False else True))))) else (if c < 8400 then (if c < 8304 then
     (if c < 8288 then (if c < 8234 then False else (if c < 8239 then True else False)) else
     (if c < 8293 then True else (if c < 8294 then False else True))) else (if c < 8319 then
     (if c < 8305 then False else (if c < 8306 then True else False)) else (if c < 8336 then
     (if c < 8320 then True else False) else (if c < 8349 then True else False)))) else (if
     c < 11632 then (if c < 11390 then (if c < 8433 then True else (if c < 11388 then False
     else True)) else (if c < 11506 then (if c < 11503 then False else True) else (if c <
     11631 then False else True))) else (if c < 11744 then (if c < 11647 then False else (if
     c < 11648 then True else False)) else (if c < 11823 then (if c < 11776 then True else
     False) else (if c < 11824 then True else False))))))))) else (if c < 70095 then (if c <
     44005 then (if c < 43264 then (if c < 42736 then (if c < 40982 then (if c < 12347 then
     (if c < 12334 then (if c < 12294 then True else (if c < 12330 then False else True))
     else (if c < 12337 then False else (if c < 12342 then True else False))) else (if c <
     12447 then (if c < 12348 then True else (if c < 12441 then False else True)) else (if c
     < 12543 then (if c < 12540 then False else True) else (if c < 40981 then False else
     True)))) else (if c < 42611 then (if c < 42508 then (if c < 42232 then False else (if c
     < 42238 then True else False)) else (if c < 42509 then True else (if c < 42607 then
     False else True))) else (if c < 42623 then (if c < 42612 then False else (if c < 42622
     then True else False)) else (if c < 42652 then (if c < 42624 then True else False) else
     (if c < 42656 then True else False))))) else (if c < 43011 then (if c < 42888 then (if
     c < 42786 then (if c < 42738 then True else (if c < 42752 then False else True)) else
     (if c < 42864 then False else (if c < 42865 then True else False))) else (if c < 42997
     then (if c < 42891 then True else (if c < 42994 then False else True)) else (if c <
     43002 then (if c < 43000 then False else True) else (if c < 43010 then False else
     True)))) else (if c < 43052 then (if c < 43019 then (if c < 43014 then False else (if c
     < 43015 then True else False)) else (if c < 43045 then (if c < 43020 then True else
     False) else (if c < 43047 then True else False))) else (if c < 43206 then (if c < 43053
     then True else (if c < 43204 then False else True)) else (if c < 43250 then (if c <
     43232 then False else True) else (if c < 43263 then False else True)))))) else (if c <
     43597 then (if c < 43471 then (if c < 43395 then (if c < 43335 then (if c < 43302 then
     False else (if c < 43310 then True else False)) else (if c < 43346 then True else (if c
     < 43392 then False else True))) else (if c < 43446 then (if c < 43443 then False else
     (if c < 43444 then True else False)) else (if c < 43452 then (if c < 43450 then True
     else False) else (if c < 43454 then True else False)))) else (if c < 43569 then (if c <
     43495 then (if c < 43472 then True else (if c < 43493 then False else True)) else (if c
     < 43561 then False else (if c < 43567 then True else False))) else (if c < 43575 then
     (if c < 43571 then True else (if c < 43573 then False else True)) else (if c < 43588
     then (if c < 43587 then False else True) else (if c < 43596 then False else True)))))
     else (if c < 43713 then (if c < 43697 then (if c < 43644 then (if c < 43632 then False
     else (if c < 43633 then True else False)) else (if c < 43645 then True else (if c <
     43696 then False else True))) else (if c < 43703 then (if c < 43698 then False else (if
     c < 43701 then True else False)) else (if c < 43710 then (if c < 43705 then True else
     False) else (if c < 43712 then True else False)))) else (if c < 43765 then (if c <
     43742 then (if c < 43714 then True else (if c < 43741 then False else True)) else (if c
     < 43758 then (if c < 43756 then False else True) else (if c < 43763 then False else
     True))) else (if c < 43867 then (if c < 43766 then False else (if c < 43767 then True
     else False)) else (if c < 43881 then (if c < 43872 then True else False) else (if c <
     43884 then True else False))))))) else (if c < 68100 then (if c < 65306 then (if c <
     65044 then (if c < 64286 then (if c < 44009 then (if c < 44006 then True else (if c <
     44008 then False else True)) else (if c < 44013 then False else (if c < 44014 then True
     else False))) else (if c < 64451 then (if c < 64287 then True else (if c < 64434 then
     False else True)) else (if c < 65040 then (if c < 65024 then False else True) else (if
     c < 65043 then False else True)))) else (if c < 65110 then (if c < 65106 then (if c <
     65056 then False else (if c < 65072 then True else False)) else (if c < 65107 then True
     else (if c < 65109 then False else True))) else (if c < 65287 then (if c < 65279 then
     False else (if c < 65280 then True else False)) else (if c < 65294 then (if c < 65288
     then True else False) else (if c < 65295 then True else False))))) else (if c < 65532
     then (if c < 65392 then (if c < 65343 then (if c < 65307 then True else (if c < 65342
     then False else True)) else (if c < 65344 then False else (if c < 65345 then True else
     False))) else (if c < 65440 then (if c < 65393 then True else (if c < 65438 then False
     else True)) else (if c < 65508 then (if c < 65507 then False else True) else (if c <
     65529 then False else True)))) else (if c < 67456 then (if c < 66272 then (if c < 66045
     then False else (if c < 66046 then True else False)) else (if c < 66422 then (if c <
     66273 then True else False) else (if c < 66427 then True else False))) else (if c <
     67505 then (if c < 67462 then True else (if c < 67463 then False else True)) else (if c
     < 67515 then (if c < 67506 then False else True) else (if c < 68097 then False else
     True)))))) else (if c < 69749 then (if c < 69291 then (if c < 68155 then (if c < 68108
     then (if c < 68101 then False else (if c < 68103 then True else False)) else (if c <
     68112 then True else (if c < 68152 then False else True))) else (if c < 68325 then (if
     c < 68159 then False else (if c < 68160 then True else False)) else (if c < 68900 then
     (if c < 68327 then True else False) else (if c < 68904 then True else False)))) else
     (if c < 69633 then (if c < 69457 then (if c < 69293 then True else (if c < 69446 then
     False else True)) else (if c < 69506 then False else (if c < 69510 then True else
     False))) else (if c < 69703 then (if c < 69634 then True else (if c < 69688 then False
     else True)) else (if c < 69745 then (if c < 69744 then False else True) else (if c <
     69747 then False else True))))) else (if c < 69888 then (if c < 69819 then (if c <
     69811 then (if c < 69759 then False else (if c < 69762 then True else False)) else (if
     c < 69815 then True else (if c < 69817 then False else True))) else (if c < 69826 then
     (if c < 69821 then False else (if c < 69822 then True else False)) else (if c < 69837
     then (if c < 69827 then True else False) else (if c < 69838 then True else False))))
     else (if c < 70004 then (if c < 69932 then (if c < 69891 then True else (if c < 69927
     then False else True)) else (if c < 69941 then (if c < 69933 then False else True) else
     (if c < 70003 then False else True))) else (if c < 70070 then (if c < 70016 then False
     else (if c < 70018 then True else False)) else (if c < 70089 then (if c < 70079 then
     True else False) else (if c < 70093 then True else False)))))))) else (if c < 72850
     then (if c < 71233 then (if c < 70722 then (if c < 70379 then (if c < 70198 then (if c
     < 70194 then (if c < 70096 then True else (if c < 70191 then False else True)) else (if
     c < 70196 then False else (if c < 70197 then True else False))) else (if c < 70207 then
     (if c < 70200 then True else (if c < 70206 then False else True)) else (if c < 70368
     then (if c < 70367 then False else True) else (if c < 70371 then False else True))))
     else (if c < 70465 then (if c < 70459 then (if c < 70400 then False else (if c < 70402
     then True else False)) else (if c < 70461 then True else (if c < 70464 then False else
     True))) else (if c < 70512 then (if c < 70502 then False else (if c < 70509 then True
     else False)) else (if c < 70712 then (if c < 70517 then True else False) else (if c <
     70720 then True else False))))) else (if c < 70852 then (if c < 70835 then (if c <
     70727 then (if c < 70725 then True else (if c < 70726 then False else True)) else (if c
     < 70750 then False else (if c < 70751 then True else False))) else (if c < 70843 then
     (if c < 70841 then True else (if c < 70842 then False else True)) else (if c < 70849
     then (if c < 70847 then False else True) else (if c < 70850 then False else True))))
     else (if c < 71132 then (if c < 71100 then (if c < 71090 then False else (if c < 71094
     then True else False)) else (if c < 71103 then (if c < 71102 then True else False) else
     (if c < 71105 then True else False))) else (if c < 71227 then (if c < 71134 then True
     else (if c < 71219 then False else True)) else (if c < 71230 then (if c < 71229 then
     False else True) else (if c < 71231 then False else True)))))) else (if c < 72152 then
     (if c < 71463 then (if c < 71350 then (if c < 71341 then (if c < 71339 then False else
     (if c < 71340 then True else False)) else (if c < 71342 then True else (if c < 71344
     then False else True))) else (if c < 71453 then (if c < 71351 then False else (if c <
     71352 then True else False)) else (if c < 71458 then (if c < 71456 then True else
     False) else (if c < 71462 then True else False)))) else (if c < 71995 then (if c <
     71736 then (if c < 71468 then True else (if c < 71727 then False else True)) else (if c
     < 71737 then False else (if c < 71739 then True else False))) else (if c < 71999 then
     (if c < 71997 then True else (if c < 71998 then False else True)) else (if c < 72004
     then (if c < 72003 then False else True) else (if c < 72148 then False else True)))))
     else (if c < 72273 then (if c < 72203 then (if c < 72160 then (if c < 72154 then False
     else (if c < 72156 then True else False)) else (if c < 72161 then True else (if c <
     72193 then False else True))) else (if c < 72251 then (if c < 72243 then False else (if
     c < 72249 then True else False)) else (if c < 72263 then (if c < 72255 then True else
     False) else (if c < 72264 then True else False)))) else (if c < 72346 then (if c <
     72284 then (if c < 72279 then True else (if c < 72281 then False else True)) else (if c
     < 72343 then (if c < 72330 then False else True) else (if c < 72344 then False else
     True))) else (if c < 72760 then (if c < 72752 then False else (if c < 72759 then True
     else False)) else (if c < 72767 then (if c < 72766 then True else False) else (if c <
     72768 then True else False))))))) else (if c < 118574 then (if c < 78896 then (if c <
     73022 then (if c < 72885 then (if c < 72881 then (if c < 72872 then True else (if c <
     72874 then False else True)) else (if c < 72882 then False else (if c < 72884 then True
     else False))) else (if c < 73015 then (if c < 72887 then True else (if c < 73009 then
     False else True)) else (if c < 73019 then (if c < 73018 then False else True) else (if
     c < 73020 then False else True)))) else (if c < 73106 then (if c < 73031 then (if c <
     73023 then False else (if c < 73030 then True else False)) else (if c < 73032 then True
     else (if c < 73104 then False else True))) else (if c < 73111 then (if c < 73109 then
     False else (if c < 73110 then True else False)) else (if c < 73459 then (if c < 73112
     then True else False) else (if c < 73461 then True else False))))) else (if c < 94178
     then (if c < 92992 then (if c < 92917 then (if c < 78905 then True else (if c < 92912
     then False else True)) else (if c < 92976 then False else (if c < 92983 then True else
     False))) else (if c < 94032 then (if c < 92996 then True else (if c < 94031 then False
     else True)) else (if c < 94112 then (if c < 94095 then False else True) else (if c <
     94176 then False else True)))) else (if c < 110589 then (if c < 110576 then (if c <
     94179 then False else (if c < 94181 then True else False)) else (if c < 110581 then (if
     c < 110580 then True else False) else (if c < 110588 then True else False))) else (if c
     < 113823 then (if c < 110591 then True else (if c < 113821 then False else True)) else
     (if c < 113828 then (if c < 113824 then False else True) else (if c < 118528 then False
     else True)))))) else (if c < 122887 then (if c < 121344 then (if c < 119171 then (if c
     < 119143 then (if c < 118576 then False else (if c < 118599 then True else False)) else
     (if c < 119146 then True else (if c < 119155 then False else True))) else (if c <
     119210 then (if c < 119173 then False else (if c < 119180 then True else False)) else
     (if c < 119362 then (if c < 119214 then True else False) else (if c < 119365 then True
     else False)))) else (if c < 121476 then (if c < 121453 then (if c < 121399 then True
     else (if c < 121403 then False else True)) else (if c < 121461 then False else (if c <
     121462 then True else False))) else (if c < 121504 then (if c < 121477 then True else
     (if c < 121499 then False else True)) else (if c < 121520 then (if c < 121505 then
     False else True) else (if c < 122880 then False else True))))) else (if c < 123628 then
     (if c < 122917 then (if c < 122907 then (if c < 122888 then False else (if c < 122905
     then True else False)) else (if c < 122914 then True else (if c < 122915 then False
     else True))) else (if c < 123184 then (if c < 122918 then False else (if c < 122923
     then True else False)) else (if c < 123566 then (if c < 123198 then True else False)
     else (if c < 123567 then True else False)))) else (if c < 128000 then (if c < 125143
     then (if c < 123632 then True else (if c < 125136 then False else True)) else (if c <
     125260 then (if c < 125252 then False else True) else (if c < 127995 then False else
     True))) else (if c < 917536 then (if c < 917505 then False else (if c < 917506 then
     True else False)) else (if c < 917760 then (if c < 917632 then True else False) else
     (if c < 918000 then True else False))))))))))"

text \<open>
  \<open>s.lower()\<close>. A capital sigma (U+03A3) becomes the final sigma (U+03C2) when a
  cased character comes before it, case-ignorable ones skipped, and no cased character
  comes after it in the same way; it becomes the small sigma (U+03C3) otherwise. The
  first argument holds the characters already read, the last one first.
\<close>

definition final_sigma :: "ustr \<Rightarrow> ustr \<Rightarrow> bool" where
  "final_sigma seen rest =
     ((case dropWhile is_case_ignorable seen of [] \<Rightarrow> False | c # cs \<Rightarrow> is_cased c)
      \<and> (case dropWhile is_case_ignorable rest of [] \<Rightarrow> True | c # cs \<Rightarrow> \<not> is_cased c))"

fun lower_from :: "ustr \<Rightarrow> ustr \<Rightarrow> ustr" where
  "lower_from seen [] = []"
| "lower_from seen (c # cs) =
     (if c = 931 then [if final_sigma seen cs then 962 else 963] else to_lower_full c)
     @ lower_from (c # seen) cs"

definition lower :: "ustr \<Rightarrow> ustr" where
  "lower s = lower_from [] s"

text \<open>\<open>s.capitalize()\<close>: the title case of the first character, the lower case of the rest.\<close>

definition capitalize :: "ustr \<Rightarrow> ustr" where
  "capitalize s = (case s of [] \<Rightarrow> [] | c # cs \<Rightarrow> to_title_full c @ lower_from [c] cs)"

text \<open>
  A literal of a pattern compiled with \<open>re.IGNORECASE\<close>. A character that the
  compiler finds without case (its simple lower and upper case are itself) matches
  itself only. Another one matches every character with the same simple lower case, and
  those whose lower case is one of its extra cases (the dotless i for \<open>i\<close>, the long s
  for \<open>s\<close>).
\<close>

definition sre_iscased :: "int \<Rightarrow> bool" where
  "sre_iscased c =
     (if c < 7966 then (if c < 838 then (if c < 600 then (if c < 411 then (if c < 215 then
     (if c < 123 then (if c < 91 then (if c < 65 then False else True) else (if c < 97 then
     False else True)) else (if c < 182 then (if c < 181 then False else True) else (if c <
     192 then False else True))) else (if c < 312 then (if c < 247 then (if c < 216 then
     False else True) else (if c < 248 then False else True)) else (if c < 397 then (if c <
     313 then False else True) else (if c < 398 then False else True)))) else (if c < 448
     then (if c < 442 then (if c < 426 then (if c < 412 then False else True) else (if c <
     428 then False else True)) else (if c < 446 then (if c < 444 then False else True) else
     (if c < 447 then False else True))) else (if c < 564 then (if c < 545 then (if c < 452
     then False else True) else (if c < 546 then False else True)) else (if c < 597 then (if
     c < 570 then False else True) else (if c < 598 then False else True))))) else (if c <
     627 then (if c < 612 then (if c < 605 then (if c < 602 then (if c < 601 then False else
     True) else (if c < 603 then False else True)) else (if c < 610 then (if c < 608 then
     False else True) else (if c < 611 then False else True))) else (if c < 621 then (if c <
     615 then (if c < 613 then False else True) else (if c < 616 then False else True)) else
     (if c < 624 then (if c < 623 then False else True) else (if c < 625 then False else
     True)))) else (if c < 644 then (if c < 638 then (if c < 630 then (if c < 629 then False
     else True) else (if c < 637 then False else True)) else (if c < 641 then (if c < 640
     then False else True) else (if c < 642 then False else True))) else (if c < 659 then
     (if c < 653 then (if c < 647 then False else True) else (if c < 658 then False else
     True)) else (if c < 671 then (if c < 669 then False else True) else (if c < 837 then
     False else True)))))) else (if c < 4294 then (if c < 930 then (if c < 896 then (if c <
     888 then (if c < 884 then (if c < 880 then False else True) else (if c < 886 then False
     else True)) else (if c < 894 then (if c < 891 then False else True) else (if c < 895
     then False else True))) else (if c < 907 then (if c < 903 then (if c < 902 then False
     else True) else (if c < 904 then False else True)) else (if c < 909 then (if c < 908
     then False else True) else (if c < 910 then False else True)))) else (if c < 1154 then
     (if c < 1014 then (if c < 978 then (if c < 931 then False else True) else (if c < 981
     then False else True)) else (if c < 1020 then (if c < 1015 then False else True) else
     (if c < 1021 then False else True))) else (if c < 1367 then (if c < 1328 then (if c <
     1162 then False else True) else (if c < 1329 then False else True)) else (if c < 1416
     then (if c < 1377 then False else True) else (if c < 4256 then False else True)))))
     else (if c < 7355 then (if c < 4352 then (if c < 4302 then (if c < 4296 then (if c <
     4295 then False else True) else (if c < 4301 then False else True)) else (if c < 4347
     then (if c < 4304 then False else True) else (if c < 4349 then False else True))) else
     (if c < 5118 then (if c < 5110 then (if c < 5024 then False else True) else (if c <
     5112 then False else True)) else (if c < 7305 then (if c < 7296 then False else True)
     else (if c < 7312 then False else True)))) else (if c < 7567 then (if c < 7546 then (if
     c < 7360 then (if c < 7357 then False else True) else (if c < 7545 then False else
     True)) else (if c < 7550 then (if c < 7549 then False else True) else (if c < 7566 then
     False else True))) else (if c < 7839 then (if c < 7836 then (if c < 7680 then False
     else True) else (if c < 7838 then False else True)) else (if c < 7958 then (if c < 7840
     then False else True) else (if c < 7960 then False else True))))))) else (if c < 42652
     then (if c < 8492 then (if c < 8133 then (if c < 8062 then (if c < 8014 then (if c <
     8006 then (if c < 7968 then False else True) else (if c < 8008 then False else True))
     else (if c < 8024 then (if c < 8016 then False else True) else (if c < 8031 then (if
     even c then False else True) else True))) else (if c < 8125 then (if c < 8117 then (if
     c < 8064 then False else True) else (if c < 8118 then False else True)) else (if c <
     8127 then (if c < 8126 then False else True) else (if c < 8130 then False else True))))
     else (if c < 8173 then (if c < 8148 then (if c < 8141 then (if c < 8134 then False else
     True) else (if c < 8144 then False else True)) else (if c < 8156 then (if c < 8150 then
     False else True) else (if c < 8160 then False else True))) else (if c < 8189 then (if c
     < 8181 then (if c < 8178 then False else True) else (if c < 8182 then False else True))
     else (if c < 8487 then (if c < 8486 then False else True) else (if c < 8490 then False
     else True))))) else (if c < 11383 then (if c < 8581 then (if c < 8527 then (if c < 8499
     then (if c < 8498 then False else True) else (if c < 8526 then False else True)) else
     (if c < 8576 then (if c < 8544 then False else True) else (if c < 8579 then False else
     True))) else (if c < 11377 then (if c < 9450 then (if c < 9398 then False else True)
     else (if c < 11264 then False else True)) else (if c < 11380 then (if c < 11378 then
     False else True) else (if c < 11381 then False else True)))) else (if c < 11558 then
     (if c < 11503 then (if c < 11492 then (if c < 11390 then False else True) else (if c <
     11499 then False else True)) else (if c < 11508 then (if c < 11506 then False else
     True) else (if c < 11520 then False else True))) else (if c < 11566 then (if c < 11560
     then (if c < 11559 then False else True) else (if c < 11565 then False else True)) else
     (if c < 42606 then (if c < 42560 then False else True) else (if c < 42624 then False
     else True)))))) else (if c < 65371 then (if c < 42962 then (if c < 42894 then (if c <
     42864 then (if c < 42800 then (if c < 42786 then False else True) else (if c < 42802
     then False else True)) else (if c < 42888 then (if c < 42873 then False else True) else
     (if c < 42891 then False else True))) else (if c < 42927 then (if c < 42901 then (if c
     < 42896 then False else True) else (if c < 42902 then False else True)) else (if c <
     42955 then (if c < 42928 then False else True) else (if c < 42960 then False else
     True)))) else (if c < 43968 then (if c < 42999 then (if c < 42970 then (if c < 42966
     then False else True) else (if c < 42997 then False else True)) else (if c < 43860 then
     (if c < 43859 then False else True) else (if c < 43888 then False else True))) else (if
     c < 64280 then (if c < 64263 then (if c < 64256 then False else True) else (if c <
     64275 then False else True)) else (if c < 65339 then (if c < 65313 then False else
     True) else (if c < 65345 then False else True))))) else (if c < 66978 then (if c <
     66939 then (if c < 66772 then (if c < 66640 then (if c < 66560 then False else True)
     else (if c < 66736 then False else True)) else (if c < 66812 then (if c < 66776 then
     False else True) else (if c < 66928 then False else True))) else (if c < 66963 then (if
     c < 66955 then (if c < 66940 then False else True) else (if c < 66956 then False else
     True)) else (if c < 66966 then (if c < 66964 then False else True) else (if c < 66967
     then False else True)))) else (if c < 68787 then (if c < 67002 then (if c < 66994 then
     (if c < 66979 then False else True) else (if c < 66995 then False else True)) else (if
     c < 67005 then (if c < 67003 then False else True) else (if c < 68736 then False else
     True))) else (if c < 71904 then (if c < 68851 then (if c < 68800 then False else True)
     else (if c < 71840 then False else True)) else (if c < 93824 then (if c < 93760 then
     False else True) else (if c < 125184 then False else (if c < 125252 then True else
     False)))))))))"

definition extra_cases :: "int \<Rightarrow> int list" where
  "extra_cases c =
     (if c < 1009 then (if c < 950 then (if c < 384 then (if c < 181 then (if c < 106 then
     (if c < 105 then [] else [305]) else (if c < 115 then [] else (if c < 116 then [383]
     else []))) else (if c < 305 then (if c < 182 then [956] else []) else (if c < 306 then
     [105] else (if c < 383 then [] else [115])))) else (if c < 944 then (if c < 838 then
     (if c < 837 then [] else [953, 8126]) else (if c < 912 then [] else (if c < 913 then
     [8147] else []))) else (if c < 946 then (if c < 945 then [8163] else []) else (if c <
     947 then [976] else (if c < 949 then [] else [1013]))))) else (if c < 963 then (if c <
     956 then (if c < 953 then (if c < 952 then [] else [977]) else (if c < 954 then [837,
     8126] else (if c < 955 then [1008] else []))) else (if c < 960 then (if c < 957 then
     [181] else []) else (if c < 961 then [982] else (if c < 962 then [1009] else [963]))))
     else (if c < 977 then (if c < 966 then (if c < 964 then [962] else []) else (if c < 967
     then [981] else (if c < 976 then [] else [946]))) else (if c < 982 then (if c < 978
     then [952] else (if c < 981 then [] else [966])) else (if c < 983 then [960] else (if c
     < 1008 then [] else [954])))))) else (if c < 7300 then (if c < 1089 then (if c < 1075
     then (if c < 1013 then (if c < 1010 then [961] else []) else (if c < 1014 then [949]
     else (if c < 1074 then [] else [7296]))) else (if c < 1077 then (if c < 1076 then []
     else [7297]) else (if c < 1086 then [] else (if c < 1087 then [7298] else [])))) else
     (if c < 1123 then (if c < 1091 then (if c < 1090 then [7299] else [7300, 7301]) else
     (if c < 1098 then [] else (if c < 1099 then [7302] else []))) else (if c < 7297 then
     (if c < 1124 then [7303] else (if c < 7296 then [] else [1074])) else (if c < 7298 then
     [1076] else (if c < 7299 then [1086] else [1089]))))) else (if c < 8126 then (if c <
     7305 then (if c < 7302 then (if c < 7301 then [1090, 7301] else [1090, 7300]) else (if
     c < 7303 then [1098] else (if c < 7304 then [1123] else [42571]))) else (if c < 7778
     then (if c < 7777 then [] else [7835]) else (if c < 7835 then [] else (if c < 7836 then
     [7777] else [])))) else (if c < 8164 then (if c < 8147 then (if c < 8127 then [837,
     953] else []) else (if c < 8148 then [912] else (if c < 8163 then [] else [944]))) else
     (if c < 64261 then (if c < 42571 then [] else (if c < 42572 then [7304] else [])) else
     (if c < 64262 then [64262] else (if c < 64263 then [64261] else [])))))))"

definition ci_char :: "int \<Rightarrow> int \<Rightarrow> bool" where
  "ci_char p c =
     (if \<not> sre_iscased p then c = p
      else (let lo = to_lower p in to_lower c = lo \<or> to_lower c \<in> set (extra_cases lo)))"

text \<open>\<open>s.replace(' ', '_')\<close>.\<close>

definition replace_space_underscore :: "ustr \<Rightarrow> ustr" where
  "replace_space_underscore s = map (\<lambda>c. if c = 32 then 95 else c) s"

text \<open>\<open>s.lstrip()\<close>, \<open>s.rstrip()\<close>, \<open>s.strip()\<close> and \<open>s.rstrip(':')\<close>.\<close>

definition lstrip :: "ustr \<Rightarrow> ustr" where
  "lstrip s = dropWhile is_space s"

definition rstrip :: "ustr \<Rightarrow> ustr" where
  "rstrip s = rev (dropWhile is_space (rev s))"

definition strip :: "ustr \<Rightarrow> ustr" where
  "strip s = rstrip (lstrip s)"

definition rstrip_colon :: "ustr \<Rightarrow> ustr" where
  "rstrip_colon s = rev (dropWhile (\<lambda>c. c = 58) (rev s))"

text \<open>\<open>sub in s\<close>: the substring test.\<close>

fun contains :: "ustr \<Rightarrow> ustr \<Rightarrow> bool" where
  "contains [] sub = (sub = [])"
| "contains (c # cs) sub = (take (length sub) (c # cs) = sub \<or> contains cs sub)"

text \<open>\<open>s.split(sep)\<close> for a one-character separator, and \<open>sep.join(xs)\<close>.\<close>

fun split_on :: "int \<Rightarrow> ustr \<Rightarrow> ustr list" where
  "split_on d [] = [[]]"
| "split_on d (c # cs) =
     (if c = d then [] # split_on d cs
      else (case split_on d cs of [] \<Rightarrow> [[c]] | l # ls \<Rightarrow> (c # l) # ls))"

fun join :: "ustr \<Rightarrow> ustr list \<Rightarrow> ustr" where
  "join sep [] = []"
| "join sep [x] = x"
| "join sep (x # y # ys) = x @ sep @ join sep (y # ys)"

text \<open>\<open>s.split()\<close>: the maximal runs of non-whitespace characters.\<close>

function split_ws :: "ustr \<Rightarrow> ustr list" where
  "split_ws s =
     (case dropWhile is_space s of
        [] \<Rightarrow> []
      | c # cs \<Rightarrow> takeWhile (\<lambda>x. \<not> is_space x) (c # cs)
                 # split_ws (dropWhile (\<lambda>x. \<not> is_space x) cs))"
  by pat_completeness auto
termination
proof (relation "measure length")
  fix s :: ustr and c cs
  assume a: "dropWhile is_space s = c # cs"
  have "length (dropWhile (\<lambda>x. \<not> is_space x) cs) \<le> length cs"
    by (rule length_dropWhile_le)
  moreover have "length (c # cs) \<le> length s"
    using length_dropWhile_le [of is_space s] a by simp
  ultimately show "(dropWhile (\<lambda>x. \<not> is_space x) cs, s) \<in> measure length"
    by simp
qed simp

section \<open>Python values and floats\<close>

text \<open>
  The values the scraper stores in its dictionaries: \<open>None\<close>, a finite float, the
  float \<open>inf\<close>, an int, a string, a list of strings, and the nested mapping of flags.
\<close>

datatype val =
    VNone
  | VNum rat
  | VInf
  | VInt int
  | VStr ustr
  | VList "ustr list"
  | VDict "(ustr \<times> bool) list"

text \<open>
  A \<open>float\<close> is a binary64 value. A finite one is modelled by the rational number it
  denotes. \<open>float\<close> of a numeral and the arithmetic round the exact result to the
  nearest binary64 value, a tie to the even significand: a significand of 53 bits for a
  normal value, a multiple of \<open>2^-1074\<close> below \<open>2^-1022\<close>. \<open>round_binary64\<close> is
  that rounding; \<open>None\<close> stands for a result beyond the largest finite value, which
  is \<open>inf\<close>. \<open>pow2 e\<close> is the power \<open>2^e\<close> for an integer \<open>e\<close>.
\<close>

function two_pow :: "int \<Rightarrow> int" where
  "two_pow n = (if n \<le> 0 then 1 else 2 * two_pow (n - 1))"
  by pat_completeness auto
termination
  by (relation "measure nat") auto

declare two_pow.simps [simp del]

definition pow2 :: "int \<Rightarrow> rat" where
  "pow2 e = (if 0 \<le> e then of_int (two_pow e) else 1 / of_int (two_pow (- e)))"

text \<open>\<open>int.bit_length\<close> of a positive number.\<close>

function bit_length :: "int \<Rightarrow> int" where
  "bit_length n = (if n \<le> 0 then 0 else 1 + bit_length (n div 2))"
  by pat_completeness auto
termination
  by (relation "measure nat") auto

declare bit_length.simps [simp del]

text \<open>The integer \<open>e\<close> with \<open>2^e \<le> x < 2^(e+1)\<close>, for a positive \<open>x\<close>.\<close>

definition binary_exponent :: "rat \<Rightarrow> int" where
  "binary_exponent x =
     (case quotient_of x of (a, b) \<Rightarrow>
        (let d = bit_length a - bit_length b in if pow2 d \<le> x then d else d - 1))"

definition round_half_even :: "rat \<Rightarrow> int" where
  "round_half_even x =
     (let f = \<lfloor>x\<rfloor>; r = x - of_int f
      in if r < 1 / 2 then f else if 1 / 2 < r then f + 1 else if even f then f else f + 1)"

definition round_binary64 :: "rat \<Rightarrow> rat option" where
  "round_binary64 x =
     (if x = 0 then Some 0
      else (let e = max (binary_exponent \<bar>x\<bar>) (- 1022);
                q = pow2 (e - 52);
                y = of_int (round_half_even (x / q)) * q
            in if e < 1023 then Some y else if pow2 1024 \<le> \<bar>y\<bar> then None else Some y))"

text \<open>\<open>float(s)\<close> for a numeral that denotes the rational \<open>x\<close>.\<close>

definition py_float :: "rat \<Rightarrow> val" where
  "py_float x = (case round_binary64 x of None \<Rightarrow> VInf | Some y \<Rightarrow> VNum y)"

section \<open>TextNormalizer\<close>

text \<open>The first \<open>re.sub\<close> of both cleaners: the zero-width marks are deleted.\<close>

definition strip_invisible :: "ustr \<Rightarrow> ustr" where
  "strip_invisible s = filter (\<lambda>c. \<not> is_invisible c) s"

text \<open>\<open>re.sub(r'\s+', ' ', text)\<close>: each maximal whitespace run becomes one space.\<close>

function sub_ws :: "ustr \<Rightarrow> ustr" where
  "sub_ws [] = []"
| "sub_ws (c # cs) =
     (if is_space c then 32 # sub_ws (dropWhile is_space cs) else c # sub_ws cs)"
  by pat_completeness auto
termination
  by (relation "measure length") (auto simp: less_Suc_eq_le length_dropWhile_le)

text \<open>\<open>_clean_text\<close>: the cleaner for one-line fields.\<close>

definition clean_text :: "ustr \<Rightarrow> ustr" where
  "clean_text s = (if s = [] then [] else strip (sub_ws (strip_invisible s)))"

text \<open>
  \<open>re.sub(r'\n{3,}', '\n\n', text)\<close>: a maximal run of three or more line breaks becomes
  two; a shorter run has no match at any of its positions and is copied.
\<close>

function sub_newlines :: "ustr \<Rightarrow> ustr" where
  "sub_newlines [] = []"
| "sub_newlines (c # cs) =
     (if c = 10 then
        (let n = Suc (length (takeWhile (\<lambda>x. x = 10) cs))
         in (if 3 \<le> n then [10, 10] else replicate n 10)
            @ sub_newlines (dropWhile (\<lambda>x. x = 10) cs))
      else c # sub_newlines cs)"
  by pat_completeness auto
termination
  by (relation "measure length") (auto simp: less_Suc_eq_le length_dropWhile_le)

text \<open>\<open>_clean_description_text\<close>: the cleaner that keeps the line structure.\<close>

definition clean_description_text :: "ustr \<Rightarrow> ustr" where
  "clean_description_text s =
     (if s = [] then []
      else let lines = split_on 10 (strip_invisible s);
               cleaned_lines = map (\<lambda>line. strip (sub_ws line)) lines;
               text_joined = join [10] cleaned_lines
           in strip (sub_newlines text_joined))"

text \<open>
  \<open>_extract_number\<close>: commas are dropped, then \<open>re.search(r'(\d+\.?\d*)', text)\<close> takes
  the first run of digits, a dot if one follows, and the digits after it. The result
  is the \<open>float\<close> of the match, the decimal numeral rounded to binary64.
\<close>

definition digits_value :: "ustr \<Rightarrow> int" where
  "digits_value ds = foldl (\<lambda>acc d. 10 * acc + digit_value d) 0 ds"

definition decimal_value :: "ustr \<Rightarrow> ustr \<Rightarrow> rat" where
  "decimal_value ip fp = of_int (digits_value ip) + of_int (digits_value fp) / 10 ^ length fp"

definition extract_number :: "ustr \<Rightarrow> val option" where
  "extract_number s =
     (if s = [] then None
      else let t = filter (\<lambda>c. c \<noteq> 44) s in
        (case dropWhile (\<lambda>c. \<not> is_digit c) t of
           [] \<Rightarrow> None
         | d # ds \<Rightarrow>
             (let ip = takeWhile is_digit (d # ds);
                  r = dropWhile is_digit (d # ds)
              in (case r of
                    [] \<Rightarrow> Some (py_float (decimal_value ip []))
                  | p # r' \<Rightarrow>
                      (if p = 46 then Some (py_float (decimal_value ip (takeWhile is_digit r')))
                       else Some (py_float (decimal_value ip [])))))))"

text \<open>\<open>int(x)\<close> of a finite float truncates towards zero.\<close>

definition py_int :: "rat \<Rightarrow> int" where
  "py_int r = (if 0 \<le> r then \<lfloor>r\<rfloor> else \<lceil>r\<rceil>)"

text \<open>
  \<open>self.current_year\<close>, which the constructor sets to 2025, and
  \<open>_calculate_construction_year\<close> for a finite value. The comparisons of a float with an
  int are exact. The difference \<open>self.current_year - year_or_age\<close> is a float
  subtraction, so it is rounded before \<open>int\<close> truncates it; for an age below 100 it is
  finite.
\<close>

definition current_year :: int where
  "current_year = 2025"

definition calculate_construction_year :: "rat \<Rightarrow> int option" where
  "calculate_construction_year year_or_age =
     (if year_or_age = 0 then None
      else if 1900 \<le> year_or_age \<and> year_or_age \<le> of_int current_year + 2
           then Some (py_int year_or_age)
      else if 0 < year_or_age \<and> year_or_age < 100
           then map_option py_int (round_binary64 (of_int current_year - year_or_age))
      else None)"

section \<open>Dictionaries\<close>

text \<open>
  A \<open>dict\<close> keeps its keys in insertion order, and the consolidation loop reads them in
  that order, so a dictionary is an association list. \<open>d[k] = v\<close> replaces the value of
  a present key in place and appends an absent one.
\<close>

type_synonym pydict = "(ustr \<times> val) list"

definition dict_get :: "pydict \<Rightarrow> ustr \<Rightarrow> val option" where
  "dict_get d k = map_of d k"

definition dict_has :: "('k \<times> 'v) list \<Rightarrow> 'k \<Rightarrow> bool" where
  "dict_has d k = (k \<in> set (map fst d))"

fun dict_set :: "('k \<times> 'v) list \<Rightarrow> 'k \<Rightarrow> 'v \<Rightarrow> ('k \<times> 'v) list" where
  "dict_set [] k v = [(k, v)]"
| "dict_set ((k', v') # d) k v =
     (if k' = k then (k, v) # d else (k', v') # dict_set d k v)"

text \<open>\<open>d.update(e)\<close> stores the items of \<open>e\<close> one after the other.\<close>

definition dict_update :: "pydict \<Rightarrow> pydict \<Rightarrow> pydict" where
  "dict_update d e = foldl (\<lambda>acc kv. dict_set acc (fst kv) (snd kv)) d e"

definition dict_remove :: "('k \<times> 'v) list \<Rightarrow> 'k \<Rightarrow> ('k \<times> 'v) list" where
  "dict_remove d k = filter (\<lambda>kv. fst kv \<noteq> k) d"

text \<open>\<open>bool(v)\<close>, as \<open>if v:\<close> reads a value.\<close>

fun truthy :: "val \<Rightarrow> bool" where
  "truthy VNone = False"
| "truthy (VNum r) = (r \<noteq> 0)"
| "truthy VInf = True"
| "truthy (VInt i) = (i \<noteq> 0)"
| "truthy (VStr s) = (s \<noteq> [])"
| "truthy (VList xs) = (xs \<noteq> [])"
| "truthy (VDict m) = (m \<noteq> [])"

section \<open>The queried page\<close>

text \<open>
  The markup as BeautifulSoup hands it out: a node is a string or a tag with its name,
  its classes and its children.
\<close>

datatype node =
    NavigableString ustr
  | Tag ustr "ustr list" "node list"

fun is_tag_named :: "ustr \<Rightarrow> node \<Rightarrow> bool" where
  "is_tag_named n (NavigableString s) = False"
| "is_tag_named n (Tag name cl ch) = (name = n)"

fun has_class :: "ustr \<Rightarrow> node \<Rightarrow> bool" where
  "has_class c (NavigableString s) = False"
| "has_class c (Tag name cl ch) = (c \<in> set cl)"

fun contents :: "node \<Rightarrow> node list" where
  "contents (NavigableString s) = []"
| "contents (Tag name cl ch) = ch"

text \<open>The strings below a node in document order; \<open>.text\<close> concatenates them.\<close>

fun strings_of :: "node \<Rightarrow> ustr list" where
  "strings_of (NavigableString s) = [s]"
| "strings_of (Tag name cl ch) = concat (map strings_of ch)"

definition node_text :: "node \<Rightarrow> ustr" where
  "node_text n = concat (strings_of n)"

text \<open>\<open>get_text(separator=' ', strip=True)\<close>: the stripped, non-empty strings, joined.\<close>

definition get_text_strip :: "node \<Rightarrow> ustr" where
  "get_text_strip n = join [32] (filter (\<lambda>s. s \<noteq> []) (map strip (strings_of n)))"

text \<open>
  \<open>find\<close>: the first node below in document order that satisfies the test, together
  with the siblings that follow it (the \<open>next_sibling\<close> chain).
\<close>

fun find_sib :: "(node \<Rightarrow> bool) \<Rightarrow> node list \<Rightarrow> (node \<times> node list) option" where
  "find_sib P [] = None"
| "find_sib P (c # cs) =
     (if P c then Some (c, cs)
      else (case (case c of NavigableString s \<Rightarrow> None | Tag n cl ch \<Rightarrow> find_sib P ch) of
              Some r \<Rightarrow> Some r
            | None \<Rightarrow> find_sib P cs))"

definition find_span :: "ustr \<Rightarrow> node \<Rightarrow> (node \<times> node list) option" where
  "find_span cls item =
     find_sib (\<lambda>n. is_tag_named (u ''span'') n \<and> has_class cls n) (contents item)"

text \<open>
  What \<open>parse_property_html\<close> reads from the document: the texts of the heading tags
  it looks up, the cells of the summary row (absent when the row is), the detail cells
  that \<open>select\<close> returns, the text of the description paragraph and the content of the
  \<open>og:description\<close> meta tag.
\<close>

record page =
  h1_text :: "ustr option"
  subtitle_text :: "ustr option"
  address_text :: "ustr option"
  price_tag_text :: "ustr option"
  summary_items :: "node list option"
  detail_items :: "node list"
  description_tag_text :: "ustr option"
  meta_description :: "ustr option"

section \<open>StructuralExtractor\<close>

text \<open>
  \<open>_parse_main_summary\<close>. The value of a cell is the text of the strings that follow
  the muted label, up to the first \<open><i>\<close> tag.
\<close>

fun summary_value_text :: "node list \<Rightarrow> ustr" where
  "summary_value_text [] = []"
| "summary_value_text (NavigableString s # rest) = strip s @ [32] @ summary_value_text rest"
| "summary_value_text (Tag name cl ch # rest) =
     (if name = u ''i'' then [] else summary_value_text rest)"

definition num_val :: "val option \<Rightarrow> val" where
  "num_val r = (case r of None \<Rightarrow> VNone | Some x \<Rightarrow> x)"

definition summary_item :: "pydict \<Rightarrow> node \<Rightarrow> pydict" where
  "summary_item data item =
     (case find_span (u ''text-muted'') item of
        None \<Rightarrow> data
      | Some (key_tag, siblings) \<Rightarrow>
          (let key = replace_space_underscore (lower (clean_text (node_text key_tag)));
               value_text = clean_text (summary_value_text siblings)
           in dict_set data key (num_val (extract_number value_text))))"

definition parse_main_summary :: "node list option \<Rightarrow> pydict" where
  "parse_main_summary block =
     (case block of None \<Rightarrow> [] | Some items \<Rightarrow> foldl summary_item [] items)"

text \<open>
  \<open>_parse_details_and_features\<close>, first the key and the value of one cell. With a bold
  span the key is the text of the strings before it; without a key so far, the flat
  text is split at its first colon, or the strings of the cell are the key.
\<close>

fun key_before :: "node \<Rightarrow> node list \<Rightarrow> ustr" where
  "key_before value_tag [] = []"
| "key_before value_tag (c # cs) =
     (if c = value_tag then []
      else (case c of
              NavigableString s \<Rightarrow> strip s @ [32] @ key_before value_tag cs
            | Tag name cl ch \<Rightarrow> key_before value_tag cs))"

fun nav_strings :: "node list \<Rightarrow> ustr list" where
  "nav_strings [] = []"
| "nav_strings (NavigableString s # cs) = strip s # nav_strings cs"
| "nav_strings (Tag name cl ch # cs) = nav_strings cs"

definition cell_key_value :: "node \<Rightarrow> ustr \<times> ustr" where
  "cell_key_value item =
     (let (key_text, value_text) =
        (case find_span (u ''fw-bold'') item of
           None \<Rightarrow> ([], [])
         | Some (value_tag, sibs) \<Rightarrow>
             (strip (rstrip_colon (clean_text (key_before value_tag (contents item)))),
              clean_text (node_text value_tag)))
      in if key_text \<noteq> [] then (key_text, value_text)
         else (let text = clean_text (get_text_strip item)
               in if 58 \<in> set text \<and> value_text = [] then
                    (clean_text (takeWhile (\<lambda>c. c \<noteq> 58) text),
                     clean_text (tl (dropWhile (\<lambda>c. c \<noteq> 58) text)))
                  else if text \<noteq> [] then
                    (strip (join [32] (nav_strings (contents item))), [])
                  else (key_text, value_text)))"

text \<open>The three accumulators of the loop over the cells.\<close>

record details_state =
  ds_data :: pydict
  ds_amenities :: "ustr list"
  ds_parts :: "ustr list"

definition is_excluded :: "ustr \<Rightarrow> bool" where
  "is_excluded key_normalized =
     (contains key_normalized (u ''precio'') \<or> contains key_normalized (u ''operacion'')
      \<or> contains key_normalized (u ''cuota''))"

definition details_step :: "details_state \<Rightarrow> ustr \<times> ustr \<Rightarrow> details_state" where
  "details_step st kv =
     (let key_text = fst kv; value_text = snd kv in
      if key_text = [] then st
      else
        (let key_normalized = replace_space_underscore (lower key_text);
             st1 = (if is_excluded key_normalized then st
                    else st\<lparr>ds_parts := ds_parts st @
                           [if value_text \<noteq> [] then lower key_text @ [32] @ lower value_text
                            else lower key_text]\<rparr>)
         in if value_text \<noteq> [] then
              (if contains key_normalized (u ''precio_de_venta'') then
                 st1\<lparr>ds_data := dict_set (ds_data st1) (u ''operacion'') (VStr (u ''Venta''))\<rparr>
               else if contains key_normalized (u ''precio_de_renta'') then
                 st1\<lparr>ds_data := dict_set (ds_data st1) (u ''operacion'') (VStr (u ''Renta''))\<rparr>
               else if \<not> contains key_normalized (u ''precio'') then
                 st1\<lparr>ds_data := dict_set (ds_data st1) key_normalized
                        (case extract_number value_text of
                           None \<Rightarrow> VStr value_text | Some x \<Rightarrow> x)\<rparr>
               else st1)
            else st1\<lparr>ds_amenities := ds_amenities st1 @ [key_text]\<rparr>))"

text \<open>\<open>list(dict.fromkeys(xs))\<close>: the first occurrence of each element, in order.\<close>

definition dict_fromkeys :: "ustr list \<Rightarrow> ustr list" where
  "dict_fromkeys xs = foldl (\<lambda>d k. if k \<in> set d then d else d @ [k]) [] xs"

text \<open>\<open>s.rfind(sub)\<close>: the highest index where \<open>sub\<close> starts, if there is one.\<close>

definition rfind :: "ustr \<Rightarrow> ustr \<Rightarrow> nat option" where
  "rfind s sub =
     List.find (\<lambda>i. take (length sub) (drop i s) = sub) (rev [0..<Suc (length s - length sub)])"

definition narrative :: "ustr list \<Rightarrow> ustr" where
  "narrative parts =
     (let unique_parts = dict_fromkeys parts;
          description_text = join (u '', '') unique_parts;
          description_text' =
            (if contains description_text (u '', '') then
               (case rfind description_text (u '', '') of
                  None \<Rightarrow> description_text
                | Some i \<Rightarrow> take i description_text @ u '' y '' @ drop (i + 2) description_text)
             else description_text)
      in u ''La propiedad cuenta con '' @ description_text')"

definition details_finish :: "details_state \<Rightarrow> pydict" where
  "details_finish st =
     (let data1 = (if ds_parts st \<noteq> [] then
                     dict_set (ds_data st) (u ''descripcion_amenidades'')
                       (VStr (narrative (ds_parts st)))
                   else ds_data st)
      in if ds_amenities st \<noteq> [] then
           dict_set data1 (u ''amenidades_estructurales'')
             (VList (filter (\<lambda>a. \<not> dict_has data1 (replace_space_underscore (lower a)))
                       (ds_amenities st)))
         else data1)"

definition details_loop :: "(ustr \<times> ustr) list \<Rightarrow> details_state" where
  "details_loop kvs =
     foldl details_step \<lparr>ds_data = [], ds_amenities = [], ds_parts = []\<rparr> kvs"

definition parse_details_and_features :: "node list \<Rightarrow> pydict" where
  "parse_details_and_features items = details_finish (details_loop (map cell_key_value items))"

section \<open>HeuristicTextSegmenter\<close>

text \<open>
  The bullet glyphs (U+2022, the star, the greater sign and the dash), and the three that the loop turns into a dash at
  the start of a line.
\<close>

definition is_bullet :: "int \<Rightarrow> bool" where
  "is_bullet c = (c = 8226 \<or> c = 42 \<or> c = 62 \<or> c = 45)"

definition is_leading_bullet :: "int \<Rightarrow> bool" where
  "is_leading_bullet c = (c = 8226 \<or> c = 42 \<or> c = 62)"

text \<open>
  The \<open>re.sub\<close> with the pattern of a whitespace run and a bullet, from the second character on: at
  each position the whitespace run and the bullet after it become a line break and the
  bullet; where no bullet follows the run, the character is copied. No match starts at
  the first character of the text.
\<close>

function split_bullets :: "ustr \<Rightarrow> ustr" where
  "split_bullets [] = []"
| "split_bullets (c # cs) =
     (case dropWhile is_space (c # cs) of
        [] \<Rightarrow> c # split_bullets cs
      | b # r \<Rightarrow> if is_bullet b then 10 # b # split_bullets r else c # split_bullets cs)"
  by pat_completeness auto
termination
proof (relation "measure length")
  fix c :: int and cs b r
  assume "dropWhile is_space (c # cs) = b # r"
  then have "length (b # r) \<le> length (c # cs)"
    using length_dropWhile_le [of is_space "c # cs"] by simp
  then show "(r, c # cs) \<in> measure length" by simp
qed simp_all

definition preprocess :: "ustr \<Rightarrow> ustr" where
  "preprocess description_raw =
     (let description_cleaned = strip_invisible description_raw
      in if 10 \<notin> set (strip description_cleaned) \<and> list_ex is_bullet description_cleaned
         then (case description_cleaned of [] \<Rightarrow> [] | c # cs \<Rightarrow> c # split_bullets cs)
         else description_cleaned)"

text \<open>
  \<open>_find_header\<close>, the first group of the match. The first pattern,
  \<open>^([\w\s]{2,40}?)\s*[:]?$\<close>, takes the shortest prefix of 2 to 40 word or space
  characters that is followed by whitespace, an optional colon and the end of the
  cleaned text (which has no line break). The second one is a known section name at the
  start of the text, whatever the case of its letters.
\<close>

definition header_tail_ok :: "ustr \<Rightarrow> bool" where
  "header_tail_ok r = (let r' = dropWhile is_space r in r' = [] \<or> r' = [58])"

definition header_generic :: "ustr \<Rightarrow> ustr option" where
  "header_generic t =
     map_option (\<lambda>n. take n t)
       (List.find (\<lambda>n. n \<le> length t \<and> list_all (\<lambda>c. is_word c \<or> is_space c) (take n t)
                       \<and> header_tail_ok (drop n t)) [2..<41])"

definition match_prefix_ci :: "ustr list \<Rightarrow> ustr \<Rightarrow> ustr option" where
  "match_prefix_ci alts t =
     map_option (\<lambda>a. take (length a) t)
       (List.find (\<lambda>a. length a \<le> length t \<and> list_all2 ci_char a (take (length a) t)) alts)"

definition cercanias_accent :: ustr where
  "cercanias_accent = u ''Cercan'' @ [237] @ u ''as''"

definition distribucion_accent :: ustr where
  "distribucion_accent = u ''Distribuci'' @ [243] @ u ''n''"

definition known_headers :: "ustr list" where
  "known_headers = [u ''Cercanias'', cercanias_accent, u ''Planta Alta'', u ''Planta Baja'',
     u ''Equipamiento'', distribucion_accent, u ''Servicios en la zona'']"

definition find_header :: "ustr \<Rightarrow> ustr option" where
  "find_header text =
     (let text_cleaned = clean_text text
      in (case header_generic text_cleaned of
            Some g \<Rightarrow> Some g
          | None \<Rightarrow> match_prefix_ci known_headers text_cleaned))"

text \<open>
  \<open>re.match(r'^-\s*(.+)', line)\<close>, the group: what follows the dash and the whitespace
  after it, up to a line break. When only whitespace follows the dash, the group is its
  last character that is no line break.
\<close>

definition item_match :: "ustr \<Rightarrow> ustr option" where
  "item_match line =
     (case line of
        [] \<Rightarrow> None
      | c # rest \<Rightarrow>
          if c \<noteq> 45 then None
          else (case dropWhile is_space rest of
                  [] \<Rightarrow> (case filter (\<lambda>x. x \<noteq> 10) rest of [] \<Rightarrow> None | f # fs \<Rightarrow> Some [last (f # fs)])
                | g # gs \<Rightarrow> Some (takeWhile (\<lambda>x. x \<noteq> 10) (g # gs))))"

text \<open>The state of the pass: the section lists, the current section, the flags.\<close>

record seg_state =
  seg_data :: "(ustr \<times> ustr list) list"
  seg_section :: ustr
  seg_flags :: "(ustr \<times> bool) list"

definition default_section :: ustr where
  "default_section = u ''amenidades_extraidas''"

definition is_price_keyword :: "ustr \<Rightarrow> bool" where
  "is_price_keyword line_cleaned =
     (contains (lower line_cleaned) (u ''*precio a tratar*'')
      \<or> contains (lower line_cleaned) (u ''precio a tratar'')
      \<or> contains (lower line_cleaned) (u ''precio negociable''))"

definition is_maintenance_keyword :: "ustr \<Rightarrow> bool" where
  "is_maintenance_keyword line_cleaned =
     contains (lower line_cleaned) (u ''no paga mantenimiento'')"

definition section_of_header :: "ustr \<Rightarrow> ustr" where
  "section_of_header header_text =
     (if match_prefix_ci [u ''Cercanias'', cercanias_accent, u ''Servicios en la zona'']
           header_text \<noteq> None then u ''cercanias''
      else if match_prefix_ci [u ''Equipamiento''] header_text \<noteq> None then u ''equipamiento''
      else replace_space_underscore (lower (clean_text header_text)))"

text \<open>\<open>data[current_section].append(item)\<close>.\<close>

definition section_append :: "(ustr \<times> ustr list) list \<Rightarrow> ustr \<Rightarrow> ustr \<Rightarrow> (ustr \<times> ustr list) list" where
  "section_append data k x = map (\<lambda>kv. if fst kv = k then (fst kv, snd kv @ [x]) else kv) data"

text \<open>The body of the loop over the lines.\<close>

definition seg_step :: "seg_state \<Rightarrow> ustr \<Rightarrow> seg_state" where
  "seg_step st line_raw =
     (let line_stripped = strip line_raw in
      if line_stripped = [] then st
      else
        (let line_cleaned = clean_text line_stripped;
             flags1 = (if is_price_keyword line_cleaned
                       then dict_set (seg_flags st) (u ''precio_negociable'') True
                       else seg_flags st);
             flags2 = (if is_maintenance_keyword line_cleaned
                       then dict_set flags1 (u ''no_paga_mantenimiento'') True
                       else flags1);
             is_keyword_line = (is_price_keyword line_cleaned \<or> is_maintenance_keyword line_cleaned);
             line_normalized = (if is_leading_bullet (hd line_stripped)
                                then 45 # tl line_stripped else line_stripped);
             st1 = st\<lparr>seg_flags := flags2\<rparr>
         in (case find_header line_normalized of
               Some g \<Rightarrow>
                 (let header_text = strip (rstrip_colon (if g \<noteq> [] then g else line_normalized));
                      current_section = section_of_header header_text
                  in st1\<lparr>seg_section := current_section,
                         seg_data := (if dict_has (seg_data st1) current_section then seg_data st1
                                      else seg_data st1 @ [(current_section, [])])\<rparr>)
             | None \<Rightarrow>
                 (case item_match line_normalized of
                    Some g \<Rightarrow>
                      (let item = clean_text g
                       in if item \<noteq> [] \<and> \<not> is_keyword_line
                          then st1\<lparr>seg_data := section_append (seg_data st1) (seg_section st1) item\<rparr>
                          else st1)
                  | None \<Rightarrow>
                      if length (split_ws line_cleaned) < 15 \<and> seg_section st1 \<noteq> default_section
                      then (if line_cleaned \<noteq> [] \<and> \<not> is_keyword_line
                            then st1\<lparr>seg_data :=
                                   section_append (seg_data st1) (seg_section st1) line_cleaned\<rparr>
                            else st1)
                      else st1))))"

text \<open>The consolidation after the loop: known sections are kept, the others join the amenities.\<close>

definition known_sections :: "ustr list" where
  "known_sections = [u ''cercanias'', u ''planta_baja'', u ''planta_alta'', u ''equipamiento'']"

definition normalize_section_key :: "ustr \<Rightarrow> ustr" where
  "normalize_section_key key =
     (if contains key (u ''cercania'') then u ''cercanias''
      else if contains key (u ''planta_baja'') then u ''planta_baja''
      else if contains key (u ''planta_alta'') then u ''planta_alta''
      else key)"

definition fold_section :: "pydict \<times> ustr list \<Rightarrow> ustr \<times> ustr list \<Rightarrow> pydict \<times> ustr list" where
  "fold_section acc kv =
     (let final_data = fst acc; amenities = snd acc; key = fst kv; value = snd kv in
      if value = [] then acc
      else (let normalized_key = normalize_section_key key
            in if normalized_key \<in> set known_sections then
                 (case dict_get final_data normalized_key of
                    Some (VList xs) \<Rightarrow> (dict_set final_data normalized_key (VList (xs @ value)), amenities)
                  | _ \<Rightarrow> (dict_set final_data normalized_key (VList value), amenities))
               else (final_data, amenities @ value)))"

definition seg_finish :: "seg_state \<Rightarrow> pydict" where
  "seg_finish st =
     (let final0 = (if seg_flags st \<noteq> []
                    then [(u ''caracteristicas_adicionales'', VDict (seg_flags st))] else []);
          amenities0 = (case map_of (seg_data st) default_section of None \<Rightarrow> [] | Some xs \<Rightarrow> xs);
          data' = dict_remove (seg_data st) default_section;
          (final_data, amenities) = foldl fold_section (final0, amenities0) data'
      in if amenities \<noteq> []
         then dict_set final_data default_section (VList (filter (\<lambda>a. 2 < length a) amenities))
         else final_data)"

definition seg_init :: seg_state where
  "seg_init = \<lparr>seg_data = [(default_section, [])], seg_section = default_section, seg_flags = []\<rparr>"

definition seg_lines :: "ustr \<Rightarrow> ustr list" where
  "seg_lines description_raw = split_on 10 (preprocess description_raw)"

definition parse_description_heuristics :: "ustr \<Rightarrow> pydict" where
  "parse_description_heuristics description_raw =
     (if description_raw = [] then [(default_section, VList [])]
      else seg_finish (foldl seg_step seg_init (seg_lines description_raw)))"

section \<open>RecordConsolidator\<close>

datatype error = AttributeError | TypeError

text \<open>
  Iterating a value (a list gives its elements, a string its characters, a mapping its
  keys; anything else raises), and \<open>target.extend(arg)\<close>, which only a list has.
\<close>

fun iter_strings :: "val \<Rightarrow> error + ustr list" where
  "iter_strings (VList xs) = Inr xs"
| "iter_strings (VStr s) = Inr (map (\<lambda>c. [c]) s)"
| "iter_strings (VDict m) = Inr (map fst m)"
| "iter_strings VNone = Inl TypeError"
| "iter_strings (VNum r) = Inl TypeError"
| "iter_strings VInf = Inl TypeError"
| "iter_strings (VInt i) = Inl TypeError"

fun py_extend :: "val \<Rightarrow> val \<Rightarrow> error + val" where
  "py_extend (VList xs) arg =
     (case iter_strings arg of Inl e \<Rightarrow> Inl e | Inr ys \<Rightarrow> Inr (VList (xs @ ys)))"
| "py_extend target arg = Inl AttributeError"

fun is_list :: "val \<Rightarrow> bool" where
  "is_list (VList xs) = True"
| "is_list v = False"

definition k_estructurales :: ustr where
  "k_estructurales = u ''amenidades_estructurales''"

definition k_equipamiento :: ustr where
  "k_equipamiento = u ''equipamiento''"

definition k_amenidades :: ustr where
  "k_amenidades = u ''amenidades''"

definition k_anio :: ustr where
  "k_anio = u ''a'' @ [241] @ u ''o_de_construcci'' @ [243] @ u ''n''"

text \<open>The three pops that gather the amenities, with the dictionary that is left.\<close>

definition gather_amenities :: "pydict \<Rightarrow> error + (val \<times> pydict)" where
  "gather_amenities data =
     (let all0 = (case dict_get data k_estructurales of None \<Rightarrow> VList [] | Some v \<Rightarrow> v);
          d0 = dict_remove data k_estructurales
      in (case (case dict_get d0 default_section of
                  None \<Rightarrow> Inr (all0, d0)
                | Some v \<Rightarrow> (case py_extend all0 v of
                               Inl e \<Rightarrow> Inl e
                             | Inr a \<Rightarrow> Inr (a, dict_remove d0 default_section))) of
            Inl e \<Rightarrow> Inl e
          | Inr (all1, d1) \<Rightarrow>
              (case dict_get d1 k_equipamiento of
                 None \<Rightarrow> Inr (all1, d1)
               | Some v \<Rightarrow>
                   if is_list v then
                     (case py_extend all1 v of
                        Inl e \<Rightarrow> Inl e
                      | Inr a \<Rightarrow> Inr (a, dict_remove d1 k_equipamiento))
                   else Inr (all1, d1))))"

text \<open>The cleaned, deduplicated and sorted list that becomes \<open>amenidades\<close>.\<close>

definition clean_amenities :: "ustr list \<Rightarrow> ustr list" where
  "clean_amenities all_amenities =
     sort (remdups (map (\<lambda>a. capitalize (clean_text a)) (filter (\<lambda>a. a \<noteq> []) all_amenities)))"

definition store_amenities :: "val \<Rightarrow> pydict \<Rightarrow> error + pydict" where
  "store_amenities all_amenities data =
     (if truthy all_amenities then
        (case iter_strings all_amenities of
           Inl e \<Rightarrow> Inl e
         | Inr xs \<Rightarrow> Inr (dict_set data k_amenidades (VList (clean_amenities xs))))
      else Inr data)"

definition year_val :: "int option \<Rightarrow> val" where
  "year_val y = (case y of None \<Rightarrow> VNone | Some i \<Rightarrow> VInt i)"

text \<open>
  The year is replaced when the value is an int or a float. For an int the difference
  is exact, as the rounded one is for a whole number of this size; \<open>inf\<close> is in neither
  range.
\<close>

definition fix_year :: "pydict \<Rightarrow> pydict" where
  "fix_year data =
     (case dict_get data k_anio of
        Some (VNum r) \<Rightarrow> dict_set data k_anio (year_val (calculate_construction_year r))
      | Some VInf \<Rightarrow> dict_set data k_anio VNone
      | Some (VInt i) \<Rightarrow> dict_set data k_anio (year_val (calculate_construction_year (of_int i)))
      | _ \<Rightarrow> data)"

text \<open>The synonym table, \<open>key_mapping.get(k, k)\<close>.\<close>

definition key_mapping :: "ustr \<Rightarrow> ustr" where
  "key_mapping k =
     (if k = u ''terreno'' then u ''m'' @ [178] @ u ''_terreno''
      else if k = u ''construcci'' @ [243] @ u ''n'' then u ''m'' @ [178] @ u ''_construcci'' @ [243] @ u ''n''
      else if k = u ''tipo'' then u ''tipo_propiedad''
      else if k = u ''edo._conservaci'' @ [243] @ u ''n'' then u ''edo_conservacion''
      else k)"

definition rename_step :: "pydict \<Rightarrow> ustr \<times> val \<Rightarrow> pydict" where
  "rename_step final_data kv =
     (let final_key = key_mapping (fst kv); v = snd kv in
      if dict_has final_data final_key then
        (if v \<noteq> VNone \<and> dict_get final_data final_key = Some VNone
         then dict_set final_data final_key v else final_data)
      else dict_set final_data final_key v)"

definition is_empty_val :: "val \<Rightarrow> bool" where
  "is_empty_val v = (v = VNone \<or> v = VList [] \<or> v = VStr [] \<or> v = VDict [])"

definition prune :: "pydict \<Rightarrow> pydict" where
  "prune final_data = filter (\<lambda>kv. \<not> is_empty_val (snd kv)) final_data"

text \<open>The last part of \<open>parse_property_html\<close>, from the merge of the amenities on.\<close>

definition consolidate :: "pydict \<Rightarrow> error + pydict" where
  "consolidate data =
     (case gather_amenities data of
        Inl e \<Rightarrow> Inl e
      | Inr (all_amenities, d1) \<Rightarrow>
          (case store_amenities all_amenities d1 of
             Inl e \<Rightarrow> Inl e
           | Inr d2 \<Rightarrow> Inr (prune (foldl rename_step [] (fix_year d2)))))"

text \<open>The first part: the fields of the page, stage after stage.\<close>

definition opt_clean :: "ustr option \<Rightarrow> val" where
  "opt_clean t = (case t of None \<Rightarrow> VNone | Some s \<Rightarrow> VStr (clean_text s))"

definition detect_currency :: "ustr \<Rightarrow> val" where
  "detect_currency price_text =
     (if contains (lower price_text) (u ''mxn'') then VStr (u ''MXN'')
      else if contains (lower price_text) (u ''usd'') then VStr (u ''USD'')
      else VNone)"

definition identity_stage :: "page \<Rightarrow> ustr \<Rightarrow> pydict" where
  "identity_stage p url =
     [(u ''url'', VStr url), (u ''titulo'', opt_clean (h1_text p)),
      (u ''subtitulo'', opt_clean (subtitle_text p)),
      (u ''direccion'', opt_clean (address_text p))]"

definition price_stage :: "page \<Rightarrow> pydict \<Rightarrow> pydict" where
  "price_stage p data =
     (case price_tag_text p of
        None \<Rightarrow> data
      | Some t \<Rightarrow>
          (let price_text = clean_text t
           in dict_set (dict_set data (u ''precio'') (num_val (extract_number price_text)))
                (u ''moneda'') (detect_currency price_text)))"

definition description_raw :: "page \<Rightarrow> ustr option" where
  "description_raw p =
     (case description_tag_text p of
        Some t \<Rightarrow> if t \<noteq> [] then Some t
                  else (case meta_description p of
                          Some m \<Rightarrow> if m \<noteq> [] then Some m else Some t
                        | None \<Rightarrow> Some t)
      | None \<Rightarrow> (case meta_description p of
                   Some m \<Rightarrow> if m \<noteq> [] then Some m else None
                 | None \<Rightarrow> None))"

definition description_stage :: "page \<Rightarrow> pydict \<Rightarrow> pydict" where
  "description_stage p data =
     (case description_raw p of
        None \<Rightarrow> data
      | Some raw \<Rightarrow>
          if raw = [] then data
          else dict_set (dict_update data (parse_description_heuristics raw))
                 (u ''descripcion'') (VStr (clean_description_text raw)))"

definition merge_stages :: "page \<Rightarrow> ustr \<Rightarrow> pydict" where
  "merge_stages p url =
     description_stage p
       (dict_update
          (dict_update (price_stage p (identity_stage p url))
             (parse_main_summary (summary_items p)))
          (parse_details_and_features (detail_items p)))"

definition parse_property_html :: "page \<Rightarrow> ustr \<Rightarrow> error + pydict" where
  "parse_property_html p url = consolidate (merge_stages p url)"

section \<open>Example pages\<close>

text \<open>A page with nothing but the price block \<open>$1,234,567 MXN\<close>.\<close>

definition price_page :: page where
  "price_page = \<lparr>h1_text = None, subtitle_text = None, address_text = None,
     price_tag_text = Some (u ''$1,234,567 MXN''), summary_items = None, detail_items = [],
     description_tag_text = None, meta_description = None\<rparr>"

text \<open>A page whose only detail cell is the bare label \<open>Precio\<close>.\<close>

definition precio_label_page :: page where
  "precio_label_page = \<lparr>h1_text = None, subtitle_text = None, address_text = None,
     price_tag_text = None, summary_items = None,
     detail_items = [Tag (u ''div'') [u ''col-sm-12'', u ''col-md-6'', u ''my-1'']
                       [NavigableString (u ''Precio'')]],
     description_tag_text = None, meta_description = None\<rparr>"

section \<open>Narrative, in the words of the specification\<close>

text \<open>
  The deduplication of the fragments as the specification words it: the first
  occurrence of each fragment, in the order seen. The separator of the fragments.
\<close>

definition dedup_first_seen :: "ustr list \<Rightarrow> ustr list" where
  "dedup_first_seen xs = rev (remdups (rev xs))"

definition sep :: ustr where
  "sep = u '', ''"

text \<open>Three detail cells, as keys and values: a bare amenity, a valued key, the amenity again.\<close>

definition two_cells :: "(ustr \<times> ustr) list" where
  "two_cells = [(u ''Alberca'', []), (u ''Jardin'', u ''Amplio''), (u ''Alberca'', [])]"

text \<open>A page with the price block \<open>$100 MXN\<close> and the detail cell \<open>Moneda: USD\<close>.\<close>

definition moneda_page :: page where
  "moneda_page = \<lparr>h1_text = None, subtitle_text = None, address_text = None,
     price_tag_text = Some (u ''$100 MXN''), summary_items = None,
     detail_items = [Tag (u ''div'') [u ''col-sm-12'', u ''col-md-6'', u ''my-1'']
                       [NavigableString (u ''Moneda: USD'')]],
     description_tag_text = None, meta_description = None\<rparr>"

section \<open>Merging, in the words of the specification\<close>

text \<open>
  A later stage only adds: every field that holds a value other than \<open>None\<close> before
  the stage holds the same value after it.
\<close>

definition only_adds :: "pydict \<Rightarrow> pydict \<Rightarrow> bool" where
  "only_adds before after =
     list_all (\<lambda>kv. snd kv = VNone \<or> dict_get after (fst kv) = Some (snd kv)) before"

section \<open>Consolidation, in the words of the specification\<close>

text \<open>
  The shape of a record that consolidation returns: distinct keys, each one its own
  canonical name, no empty value, no list of amenities left to merge, and a construction
  year that is no float and that \<open>_calculate_construction_year\<close> maps to itself.
\<close>

fun year_stable :: "val \<Rightarrow> bool" where
  "year_stable (VNum r) = False"
| "year_stable VInf = False"
| "year_stable (VInt y) = (calculate_construction_year (of_int y) = Some y)"
| "year_stable v = True"

definition final_like :: "pydict \<Rightarrow> bool" where
  "final_like r =
     (distinct (map fst r)
      \<and> list_all (\<lambda>kv. key_mapping (fst kv) = fst kv \<and> \<not> is_empty_val (snd kv)) r
      \<and> dict_get r k_estructurales = None
      \<and> dict_get r default_section = None
      \<and> (case dict_get r k_equipamiento of None \<Rightarrow> True | Some v \<Rightarrow> \<not> is_list v)
      \<and> (case dict_get r k_anio of None \<Rightarrow> True | Some v \<Rightarrow> year_stable v))"

text \<open>
  The three lists that the amenity merge reads: a list (or nothing) under a key, and the
  \<open>equipamiento\<close> section, which only counts when it is a list. An entry is
  capitalized when \<open>capitalize\<close> leaves it as it is. The invariant claimed for the
  field \<open>amenidades\<close>: a sorted list without duplicates of capitalized entries.
\<close>

definition list_field :: "pydict \<Rightarrow> ustr \<Rightarrow> ustr list option" where
  "list_field d k =
     (case dict_get d k of None \<Rightarrow> Some [] | Some (VList xs) \<Rightarrow> Some xs | Some _ \<Rightarrow> None)"

definition equipamiento_items :: "pydict \<Rightarrow> ustr list" where
  "equipamiento_items d = (case dict_get d k_equipamiento of Some (VList xs) \<Rightarrow> xs | _ \<Rightarrow> [])"

definition capitalized :: "ustr \<Rightarrow> bool" where
  "capitalized s = (capitalize s = s)"

definition amenidades_ok :: "pydict \<Rightarrow> bool" where
  "amenidades_ok r =
     (case dict_get r k_amenidades of
        None \<Rightarrow> True
      | Some (VList xs) \<Rightarrow> sorted xs \<and> distinct xs \<and> list_all capitalized xs
      | Some _ \<Rightarrow> False)"

section \<open>More example pages\<close>

text \<open>A page whose only detail cell is \<open>Amenidades: alberca\<close>.\<close>

definition amenidades_label_page :: page where
  "amenidades_label_page = \<lparr>h1_text = None, subtitle_text = None, address_text = None,
     price_tag_text = None, summary_items = None,
     detail_items = [Tag (u ''div'') [u ''col-sm-12'', u ''col-md-6'', u ''my-1'']
                       [NavigableString (u ''Amenidades: alberca'')]],
     description_tag_text = None, meta_description = None\<rparr>"

text \<open>
  A page with a title, a price, two valued detail cells, three bare amenities and a
  description with a blank run, a section and a keyword line; and the record it gives.
\<close>

definition cell :: "ustr \<Rightarrow> node" where
  "cell t = Tag (u ''div'') [u ''col-sm-12'', u ''col-md-6'', u ''my-1''] [NavigableString t]"

definition full_page :: page where
  "full_page = \<lparr>h1_text = Some (u ''Casa  en venta''), subtitle_text = None, address_text = None,
     price_tag_text = Some (u ''$1,234,567 MXN''), summary_items = None,
     detail_items = [cell (u ''Terreno: 200''),
                     cell (u ''A'' @ [241] @ u ''o de Construcci'' @ [243] @ u ''n: 15''),
                     cell (u ''alberca''), cell (u ''Alberca''), cell (u ''jard'' @ [237] @ u ''n'')],
     description_tag_text = Some (u ''Casa amplia y luminosa, cerca de todo.'' @ [10, 10, 10, 10]
        @ u ''Equipamiento:'' @ [10] @ u ''- Estufa'' @ [10] @ u ''*Precio a tratar*''),
     meta_description = None\<rparr>"

definition full_record :: pydict where
  "full_record =
     [(u ''url'', VStr (u ''x'')),
      (u ''titulo'', VStr (u ''Casa en venta'')),
      (u ''precio'', VNum 1234567),
      (u ''moneda'', VStr (u ''MXN'')),
      (u ''m'' @ [178] @ u ''_terreno'', VNum 200),
      (k_anio, VInt 2010),
      (u ''descripcion_amenidades'',
       VStr (u ''La propiedad cuenta con terreno 200, a'' @ [241] @ u ''o de construcci'' @ [243]
             @ u ''n 15, alberca y jard'' @ [237] @ u ''n'')),
      (u ''caracteristicas_adicionales'', VDict [(u ''precio_negociable'', True)]),
      (u ''descripcion'',
       VStr (u ''Casa amplia y luminosa, cerca de todo.'' @ [10, 10] @ u ''Equipamiento:'' @ [10]
             @ u ''- Estufa'' @ [10] @ u ''*Precio a tratar*'')),
      (k_amenidades, VList [u ''Alberca'', u ''Estufa'', u ''Jard'' @ [237] @ u ''n''])]"

section \<open>The construction year, in the words of the specification\<close>

text \<open>
  What the specification gives for a value \<open>v\<close> and a reference year \<open>y\<close>: the value
  as an integer when it lies between 1900 and \<open>y + 2\<close>, otherwise the difference
  \<open>y - v\<close> when the value lies between 0 and 100, otherwise nothing.
\<close>

definition infer_construction_year :: "rat \<Rightarrow> rat \<Rightarrow> rat option" where
  "infer_construction_year v y =
     (if 1900 \<le> v \<and> v \<le> y + 2 then Some (of_int (py_int v))
      else if 0 < v \<and> v < 100 then Some (y - v)
      else None)"

section \<open>Properties of the TextNormalizer\<close>

text \<open>The power of two, the bit length and the binary exponent.\<close>

lemma two_pow_eq: "two_pow n = 2 ^ nat n"
proof (induction n rule: two_pow.induct)
  case (1 n)
  show ?case
  proof (cases "n \<le> 0")
    case True
    then show ?thesis by (subst two_pow.simps) simp
  next
    case False
    then have "nat n = Suc (nat (n - 1))" by simp
    then show ?thesis using 1 False by (subst two_pow.simps) simp
  qed
qed

lemma pow2_eq: "pow2 e = power_int 2 e"
  by (simp add: pow2_def two_pow_eq power_int_def field_simps)

lemma bit_length_bounds:
  "0 < n \<Longrightarrow> 1 \<le> bit_length n \<and> 2 ^ nat (bit_length n - 1) \<le> n \<and> n < 2 ^ nat (bit_length n)"
proof (induction n rule: bit_length.induct)
  case (1 n)
  have b: "bit_length n = 1 + bit_length (n div 2)"
    using "1.prems" by (subst bit_length.simps) simp
  show ?case
  proof (cases "n = 1")
    case True
    have "bit_length (0::int) = 0" by (subst bit_length.simps) simp
    then have "bit_length n = 1" using b True by simp
    then show ?thesis using True by simp
  next
    case False
    then have pos: "0 < n div 2" using "1.prems" by simp
    have nle: "\<not> n \<le> 0" using "1.prems" by simp
    note ih = "1.IH" [OF nle pos]
    define k where "k = bit_length (n div 2)"
    have k1: "1 \<le> k" and lo: "2 ^ nat (k - 1) \<le> n div 2" and hi: "n div 2 < 2 ^ nat k"
      using ih by (simp_all add: k_def)
    have bk: "bit_length n = k + 1" using b by (simp add: k_def)
    have e1: "nat (k + 1 - 1) = Suc (nat (k - 1))" using k1 by simp
    have e2: "nat (k + 1) = Suc (nat k)" using k1 by simp
    have "2 * 2 ^ nat (k - 1) \<le> n" using lo by simp
    moreover have "n < 2 * 2 ^ nat k" using hi by simp
    ultimately show ?thesis using bk k1 e1 e2 by simp
  qed
qed

lemma bit_length_powi:
  assumes "0 < n"
  shows "(2::rat) powi (bit_length n - 1) \<le> of_int n" and "of_int n < (2::rat) powi (bit_length n)"
proof -
  note b = bit_length_bounds [OF assms]
  have "(of_int (2 ^ nat (bit_length n - 1)) :: rat) \<le> of_int n"
    using b by (simp only: of_int_le_iff)
  then show "(2::rat) powi (bit_length n - 1) \<le> of_int n"
    using b by (simp add: power_int_def)
  have "(of_int n :: rat) < of_int (2 ^ nat (bit_length n))"
    using b by (simp only: of_int_less_iff)
  then show "of_int n < (2::rat) powi (bit_length n)"
    using b by (simp add: power_int_def)
qed

lemma binary_exponent_bounds:
  assumes "0 < x"
  shows "pow2 (binary_exponent x) \<le> x" and "x < pow2 (binary_exponent x + 1)"
proof -
  obtain a b where q: "quotient_of x = (a, b)" by (cases "quotient_of x")
  have bp: "0 < b" using q quotient_of_denom_pos by blast
  have x: "x = of_int a / of_int b" using q by (rule quotient_of_div)
  have ap: "0 < a" using assms x bp by (simp add: zero_less_divide_iff)
  define d where "d = bit_length a - bit_length b"
  note la = bit_length_powi [OF ap]
  note lb = bit_length_powi [OF bp]
  have bpos: "(0::rat) < of_int b" using bp by simp
  have up: "x < 2 powi (d + 1)"
  proof -
    have "of_int a * (2::rat) powi (bit_length b - 1) < 2 powi (bit_length a) * of_int b"
      using la(2) lb(1) ap bp
      by (intro mult_less_le_imp_less) (simp_all add: zero_less_power_int)
    moreover have "(2::rat) powi (bit_length a) = 2 powi (d + 1) * 2 powi (bit_length b - 1)"
      by (simp add: d_def power_int_add [symmetric])
    ultimately have "of_int a * (2::rat) powi (bit_length b - 1)
        < 2 powi (d + 1) * of_int b * 2 powi (bit_length b - 1)"
      by (simp add: mult_ac)
    then have "of_int a < (2::rat) powi (d + 1) * of_int b"
      by (simp add: zero_less_power_int)
    then show ?thesis using bpos by (simp add: x pos_divide_less_eq)
  qed
  have lo: "2 powi (d - 1) < x"
  proof -
    have "(2::rat) powi (bit_length a - 1) * of_int b < of_int a * 2 powi (bit_length b)"
      using la(1) lb(2) ap bp
      by (intro mult_le_less_imp_less) (simp_all add: zero_less_power_int)
    moreover have "(2::rat) powi (bit_length a - 1) = 2 powi (d - 1) * 2 powi (bit_length b)"
      by (simp add: d_def power_int_add [symmetric])
    ultimately have "2 powi (d - 1) * of_int b * (2::rat) powi (bit_length b)
        < of_int a * 2 powi (bit_length b)"
      by (simp add: mult_ac)
    then have "(2::rat) powi (d - 1) * of_int b < of_int a"
      by (simp add: zero_less_power_int)
    then show ?thesis using bpos by (simp add: x pos_less_divide_eq)
  qed
  have e: "binary_exponent x = (if 2 powi d \<le> x then d else d - 1)"
    by (simp add: binary_exponent_def q d_def Let_def pow2_eq)
  show "pow2 (binary_exponent x) \<le> x"
    using e lo by (simp add: pow2_eq)
  show "x < pow2 (binary_exponent x + 1)"
    using e up by (auto simp: pow2_eq)
qed

lemma binary_exponent_unique:
  assumes "pow2 e \<le> x" and "x < pow2 (e + 1)"
  shows "binary_exponent x = e"
proof -
  have "0 < pow2 e" by (simp add: pow2_eq zero_less_power_int)
  then have xp: "0 < x" using assms(1) by simp
  note b = binary_exponent_bounds [OF xp]
  define f where "f = binary_exponent x"
  have "(2::rat) powi f < 2 powi (e + 1)" using b(1) assms(2) by (simp add: pow2_eq f_def)
  then have "f < e + 1"
    using power_int_increasing [of "e + 1" f "2::rat"] by (cases "f < e + 1") auto
  moreover have "(2::rat) powi e < 2 powi (f + 1)" using b(2) assms(1) by (simp add: pow2_eq f_def)
  then have "e < f + 1"
    using power_int_increasing [of "f + 1" e "2::rat"] by (cases "e < f + 1") auto
  ultimately show ?thesis by (simp add: f_def)
qed

text \<open>
  Rounding to the nearest integer, and the float nearest to a number between 1024 and
  2048, where the binary64 values are the multiples of \<open>2^-42\<close>. The integer part of
  that float is the integer part of the number itself, unless the number is less than
  \<open>2^-43\<close> below a whole number, which the float then is.
\<close>

lemma pow2_values: "pow2 10 = 1024" "pow2 11 = 2048" "pow2 (- 42) = 1 / 4398046511104"
  by code_simp+

lemma round_half_even_cases:
  "round_half_even y = \<lfloor>y + 1 / 2\<rfloor>
   \<or> (round_half_even y = \<lfloor>y + 1 / 2\<rfloor> - 1 \<and> even (round_half_even y))"
proof -
  define f where "f = \<lfloor>y\<rfloor>"
  define r where "r = y - of_int f"
  have r0: "0 \<le> r" and r1: "r < 1" by (simp_all add: r_def f_def) linarith+
  have y: "y = of_int f + r" by (simp add: r_def)
  have rh: "round_half_even y =
     (if r < 1 / 2 then f else if 1 / 2 < r then f + 1 else if even f then f else f + 1)"
    by (simp add: round_half_even_def Let_def f_def r_def)
  consider (lt) "r < 1 / 2" | (gt) "1 / 2 < r" | (eq) "r = 1 / 2" by linarith
  then show ?thesis
  proof cases
    case lt
    then have "\<lfloor>y + 1 / 2\<rfloor> = f" using r0 by (simp add: y floor_unique)
    then show ?thesis using rh lt by simp
  next
    case gt
    then have "\<lfloor>y + 1 / 2\<rfloor> = f + 1" using r1 by (simp add: y floor_unique)
    then show ?thesis using rh gt by simp
  next
    case eq
    then have "\<lfloor>y + 1 / 2\<rfloor> = f + 1" by (simp add: y floor_unique)
    then show ?thesis using rh eq by auto
  qed
qed

lemma floor_divide_int:
  assumes "0 < (m::int)"
  shows "\<lfloor>(z::rat) / of_int m\<rfloor> = \<lfloor>z\<rfloor> div m"
proof (rule floor_unique)
  have mp: "(0::rat) < of_int m" using assms by simp
  define k where "k = \<lfloor>z\<rfloor>"
  have k: "of_int k \<le> z" "z < of_int k + 1" unfolding k_def by linarith+
  have dm: "m * (k div m) + k mod m = k" by (rule mult_div_mod_eq)
  have m0: "0 \<le> k mod m" and m1: "k mod m < m" using assms by simp_all
  have "of_int (k div m) * (of_int m :: rat) \<le> of_int k"
  proof -
    have "m * (k div m) \<le> k" using dm m0 by linarith
    then have "(of_int (m * (k div m)) :: rat) \<le> of_int k" by (simp only: of_int_le_iff)
    then show ?thesis by (simp add: mult.commute)
  qed
  then have "of_int (k div m) * (of_int m :: rat) \<le> z" using k(1) by linarith
  then show "of_int (\<lfloor>z\<rfloor> div m) \<le> z / of_int m"
    using mp by (simp add: k_def pos_le_divide_eq)
  have "k + 1 \<le> m * (k div m) + m" using dm m1 by linarith
  then have "k + 1 \<le> (k div m + 1) * m" by (simp add: algebra_simps)
  then have "(of_int (k + 1) :: rat) \<le> of_int ((k div m + 1) * m)" by (simp only: of_int_le_iff)
  then have "z < (of_int (k div m) + 1) * (of_int m :: rat)" using k(2) by simp
  then show "z / of_int m < of_int (\<lfloor>z\<rfloor> div m) + 1"
    using mp by (simp add: k_def pos_divide_less_eq)
qed

lemma floor_round_half_even:
  assumes "0 < (m::int)" and "even m"
  shows "\<lfloor>(of_int (round_half_even y) :: rat) / of_int m\<rfloor> = \<lfloor>(y + 1 / 2) / of_int m\<rfloor>"
proof -
  define t where "t = \<lfloor>y + 1 / 2\<rfloor>"
  have a: "\<lfloor>(of_int (round_half_even y) :: rat) / of_int m\<rfloor> = round_half_even y div m"
    using floor_divide_int [OF assms(1), of "of_int (round_half_even y)"] by simp
  have b: "\<lfloor>(y + 1 / 2) / of_int m\<rfloor> = t div m"
    using floor_divide_int [OF assms(1), of "y + 1 / 2"] by (simp add: t_def)
  from round_half_even_cases [of y]
  have "round_half_even y div m = t div m"
  proof
    assume "round_half_even y = \<lfloor>y + 1 / 2\<rfloor>"
    then show ?thesis by (simp add: t_def)
  next
    assume c: "round_half_even y = \<lfloor>y + 1 / 2\<rfloor> - 1 \<and> even (round_half_even y)"
    then have r: "round_half_even y = t - 1" by (simp add: t_def)
    have ev: "even (t - 1)" using c unfolding r by blast
    have "odd t" using ev by simp
    then have "t mod m \<noteq> 0" using assms(2) by (metis dvd_trans mod_0_imp_dvd)
    moreover have "0 \<le> t mod m" using assms(1) by simp
    ultimately have "1 \<le> t mod m" by simp
    have tm: "m * (t div m) + t mod m = t" by (rule mult_div_mod_eq)
    have up: "t mod m < m" using assms(1) by simp
    have "(t - 1) div m = t div m"
    proof (rule int_div_pos_eq [of _ _ _ "t mod m - 1"])
      show "0 \<le> t mod m - 1" using \<open>1 \<le> t mod m\<close> by simp
      show "t mod m - 1 < m" using up by linarith
      show "t - 1 = m * (t div m) + (t mod m - 1)" using tm by linarith
    qed
    then show ?thesis using r by simp
  qed
  then show ?thesis using a b by simp
qed

lemma round_binary64_binade_10:
  assumes "1024 \<le> x" and "x < 2048"
  shows "round_binary64 x = Some (of_int (round_half_even (x * 2 ^ 42)) / 2 ^ 42)"
proof -
  have xp: "0 < x" using assms(1) by simp
  have e: "binary_exponent \<bar>x\<bar> = 10"
    using assms xp by (intro binary_exponent_unique) (simp_all add: pow2_values)
  have q: "pow2 (10 - 52) = 1 / 4398046511104" using pow2_values(3) by simp
  have "round_binary64 x = Some (of_int (round_half_even (x / pow2 (10 - 52))) * pow2 (10 - 52))"
    using xp e by (simp add: round_binary64_def Let_def)
  then show ?thesis unfolding q by simp
qed

lemma float_difference_floor:
  assumes "1024 \<le> x" and "x < 2048"
  shows "map_option py_int (round_binary64 x) = Some \<lfloor>x + 1 / 2 ^ 43\<rfloor>"
proof -
  define r where "r = round_half_even (x * 2 ^ 42)"
  have rb: "round_binary64 x = Some (of_int r / 2 ^ 42)"
    using round_binary64_binade_10 [OF assms] by (simp add: r_def)
  have fl: "\<lfloor>(of_int r :: rat) / of_int (2 ^ 42)\<rfloor> = \<lfloor>(x * 2 ^ 42 + 1 / 2) / of_int (2 ^ 42)\<rfloor>"
    unfolding r_def by (rule floor_round_half_even) simp_all
  have eq: "(x * 2 ^ 42 + 1 / 2) / of_int (2 ^ 42) = x + 1 / 2 ^ 43"
    by (simp add: field_simps)
  have f: "\<lfloor>(of_int r :: rat) / 2 ^ 42\<rfloor> = \<lfloor>x + 1 / 2 ^ 43\<rfloor>" using fl unfolding eq by simp
  have "0 \<le> x + 1 / 2 ^ 43" using assms(1) by simp
  then have "0 \<le> \<lfloor>x + 1 / 2 ^ 43\<rfloor>" by simp
  then have "0 \<le> \<lfloor>(of_int r :: rat) / 2 ^ 42\<rfloor>" using f by simp
  then have nn: "0 \<le> (of_int r :: rat) / 2 ^ 42" by (simp only: zero_le_floor)
  show ?thesis using rb f nn by (simp add: py_int_def)
qed

lemma calculate_construction_year_eq:
  "calculate_construction_year v =
     (if 1900 \<le> v \<and> v \<le> 2027 then Some \<lfloor>v\<rfloor>
      else if 0 < v \<and> v < 100 then Some \<lfloor>2025 - v + 1 / 2 ^ 43\<rfloor>
      else None)"
proof -
  have a: "map_option py_int (round_binary64 (2025 - v)) = Some \<lfloor>2025 - v + 1 / 2 ^ 43\<rfloor>"
    if "0 < v" "v < 100"
    using that by (intro float_difference_floor) simp_all
  show ?thesis
    using a by (auto simp: calculate_construction_year_def current_year_def py_int_def)
qed

text \<open>
  Claim C4, as amended. The reference year is 2025, the one the constructor sets. A
  value between 1900 and 2027 gives its integer part. Otherwise a value between 0 and
  100 gives the integer part of the float difference \<open>2025 - v\<close>, which is the integer
  part of \<open>2025 - v + 2^-43\<close>: the integer part of the exact difference, or one more
  when the difference is less than \<open>2^-43\<close> below a whole number. Any other value
  gives nothing. For a whole number \<open>n\<close> the results are \<open>n\<close> and \<open>2025 - n\<close>
  themselves, as the specification has it: 15 gives 2010, 1998 gives 1998, 250 gives
  nothing.
\<close>

theorem calculate_construction_year_cases:
  "current_year = 2025
   \<and> calculate_construction_year v =
     (if 1900 \<le> v \<and> v \<le> 2027 then Some \<lfloor>v\<rfloor>
      else if 0 < v \<and> v < 100 then Some \<lfloor>2025 - v + 1 / 2 ^ 43\<rfloor>
      else None)
   \<and> calculate_construction_year (of_int n) =
     (if 1900 \<le> n \<and> n \<le> 2027 then Some n
      else if 0 < n \<and> n < 100 then Some (2025 - n)
      else None)
   \<and> map_option of_int (calculate_construction_year (of_int n))
       = infer_construction_year (of_int n) 2025
   \<and> calculate_construction_year 15 = Some 2010
   \<and> calculate_construction_year 1998 = Some 1998
   \<and> calculate_construction_year 250 = None"
proof -
  have fl: "\<lfloor>2025 - (of_int k :: rat) + 1 / 2 ^ 43\<rfloor> = 2025 - k" for k
  proof (rule floor_unique)
    show "of_int (2025 - k) \<le> 2025 - (of_int k :: rat) + 1 / 2 ^ 43" by simp
    show "2025 - (of_int k :: rat) + 1 / 2 ^ 43 < of_int (2025 - k) + 1" by simp
  qed
  have ints: "calculate_construction_year (of_int k) =
     (if 1900 \<le> k \<and> k \<le> 2027 then Some k
      else if 0 < k \<and> k < 100 then Some (2025 - k)
      else None)" for k
  proof -
    have b: "(1900 \<le> (of_int k :: rat)) = (1900 \<le> k)" "((of_int k :: rat) \<le> 2027) = (k \<le> 2027)"
      "(0 < (of_int k :: rat)) = (0 < k)" "((of_int k :: rat) < 100) = (k < 100)"
      by linarith+
    show ?thesis
      by (simp only: calculate_construction_year_eq [of "of_int k"] fl b floor_of_int)
  qed
  have spec: "map_option of_int (calculate_construction_year (of_int n))
       = infer_construction_year (of_int n) 2025"
    by (simp add: ints infer_construction_year_def py_int_def)
  have e1: "calculate_construction_year 15 = Some 2010"
    using ints [of 15] by simp
  have e2: "calculate_construction_year 1998 = Some 1998"
    using ints [of 1998] by simp
  have e3: "calculate_construction_year 250 = None"
    using ints [of 250] by simp
  show ?thesis
    using calculate_construction_year_eq [of v] ints [of n] spec e1 e2 e3
    by (simp only: current_year_def simp_thms)
qed

text \<open>
  The claim as stated fails for a value with a fractional part. For 15.5 the difference
  is 2009.5 and the code returns 2009. For \<open>2^-60\<close> the float difference is 2025
  itself, which the code returns, although the integer part of the exact difference is
  2024.
\<close>

theorem construction_year_fraction_counterexample:
  "calculate_construction_year (31 / 2) = Some 2009
   \<and> infer_construction_year (31 / 2) 2025 = Some (4019 / 2)
   \<and> map_option of_int (calculate_construction_year (31 / 2))
       \<noteq> infer_construction_year (31 / 2) 2025
   \<and> calculate_construction_year (1 / 2 ^ 60) = Some 2025
   \<and> map_option of_int (calculate_construction_year (1 / 2 ^ 60))
       \<noteq> infer_construction_year (1 / 2 ^ 60) 2025
   \<and> py_int (2025 - 1 / 2 ^ 60) = 2024"
  by code_simp

section \<open>Dictionaries and numbers\<close>

lemma dict_get_set_same: "dict_get (dict_set d k v) k = Some v"
  by (induction d) (auto simp: dict_get_def)

lemma dict_get_set_other: "k' \<noteq> k \<Longrightarrow> dict_get (dict_set d k v) k' = dict_get d k'"
  by (induction d) (auto simp: dict_get_def)

lemma keys_dict_set: "fst ` set (dict_set d k v) = insert k (fst ` set d)"
proof (induction d)
  case Nil
  then show ?case by simp
next
  case (Cons a d)
  then show ?case by (cases a) (auto split: if_splits)
qed

lemma distinct_dict_set: "distinct (map fst d) \<Longrightarrow> distinct (map fst (dict_set d k v))"
proof (induction d)
  case Nil
  then show ?case by simp
next
  case (Cons a d)
  obtain k' v' where a: "a = (k', v')" by (cases a)
  show ?case
  proof (cases "k' = k")
    case True
    then show ?thesis using Cons.prems a by simp
  next
    case False
    have "k' \<notin> fst ` set (dict_set d k v)"
      using Cons.prems a False by (simp add: keys_dict_set)
    then show ?thesis using Cons a False by simp
  qed
qed

lemma extract_number_None: "(extract_number s = None) = (\<not> list_ex is_digit s)"
proof -
  have comma: "\<not> is_digit 44" by code_simp
  have eq: "(dropWhile (\<lambda>c. \<not> is_digit c) (filter (\<lambda>c. c \<noteq> 44) s) = []) = (\<not> list_ex is_digit s)"
    using comma by (auto simp: dropWhile_eq_Nil_conv list_ex_iff)
  show ?thesis
  proof (cases "dropWhile (\<lambda>c. \<not> is_digit c) (filter (\<lambda>c. c \<noteq> 44) s)")
    case Nil
    have "extract_number s = None"
      by (simp add: extract_number_def Nil)
    moreover have "\<not> list_ex is_digit s" using eq Nil by simp
    ultimately show ?thesis by simp
  next
    case (Cons d ds)
    then have ex: "list_ex is_digit s" using eq by simp
    then have ne: "s \<noteq> []" by auto
    have "\<exists>r. extract_number s = Some r"
      by (cases "dropWhile is_digit (d # ds)")
         (simp_all add: extract_number_def Let_def Cons ne)
    then show ?thesis using ex by auto
  qed
qed

section \<open>Price and currency\<close>

section \<open>Detail cells without a value\<close>

text \<open>
  Claim C10. A detail cell that yields a key and no value appends the key to the list of
  bare amenities whatever the key is, also when it contains \<open>precio\<close>, \<open>operacion\<close>
  or \<open>cuota\<close>: the exclusion only keeps the key out of the narrative fragments (the
  field map is not touched by a key without value, and a key with a value never joins
  the amenities). A page whose only detail cell is \<open>Precio\<close> ends with
  \<open>amenidades = [Precio]\<close>.
\<close>

theorem valueless_key_is_amenity:
  "key_text \<noteq> [] \<longrightarrow>
     ds_amenities (details_step st (key_text, [])) = ds_amenities st @ [key_text]
     \<and> ds_data (details_step st (key_text, [])) = ds_data st
     \<and> ds_parts (details_step st (key_text, [])) =
         (if is_excluded (replace_space_underscore (lower key_text)) then ds_parts st
          else ds_parts st @ [lower key_text])
     \<and> (value_text \<noteq> [] \<longrightarrow>
          ds_amenities (details_step st (key_text, value_text)) = ds_amenities st)"
  by (simp add: details_step_def Let_def)

theorem valueless_key_is_amenity_witness:
  "u ''Precio'' \<noteq> []
   \<and> is_excluded (replace_space_underscore (lower (u ''Precio'')))
   \<and> details_step \<lparr>ds_data = [], ds_amenities = [], ds_parts = []\<rparr> (u ''Precio'', [])
       = \<lparr>ds_data = [], ds_amenities = [u ''Precio''], ds_parts = []\<rparr>
   \<and> cell_key_value (Tag (u ''div'') [u ''col-sm-12'', u ''col-md-6'', u ''my-1'']
                       [NavigableString (u ''Precio'')]) = (u ''Precio'', [])
   \<and> parse_property_html precio_label_page (u ''x'') =
       Inr [(u ''url'', VStr (u ''x'')), (u ''amenidades'', VList [u ''Precio''])]"
proof -
  have ne: "u ''Precio'' \<noteq> []" by (simp add: u_def)
  have ex: "is_excluded (replace_space_underscore (lower (u ''Precio'')))" by code_simp
  have c: "cell_key_value (Tag (u ''div'') [u ''col-sm-12'', u ''col-md-6'', u ''my-1'']
                       [NavigableString (u ''Precio'')]) = (u ''Precio'', [])"
    by code_simp
  have e: "parse_property_html precio_label_page (u ''x'') =
       Inr [(u ''url'', VStr (u ''x'')), (u ''amenidades'', VList [u ''Precio''])]"
    by code_simp
  have s: "details_step \<lparr>ds_data = [], ds_amenities = [], ds_parts = []\<rparr> (u ''Precio'', [])
       = \<lparr>ds_data = [], ds_amenities = [u ''Precio''], ds_parts = []\<rparr>"
    using valueless_key_is_amenity
      [of "u ''Precio''" "\<lparr>ds_data = [], ds_amenities = [], ds_parts = []\<rparr>"] ne ex
    by simp
  from ne ex s c e show ?thesis by blast
qed

section \<open>The final record\<close>

text \<open>
  Claim C2. Whatever the page and the URL, a record that \<open>parse_property_html\<close>
  returns has no field whose value is \<open>None\<close>, the empty string, the empty list or
  the empty mapping.
\<close>

theorem final_record_has_no_empty_field:
  "parse_property_html p url = Inr r \<longrightarrow>
     list_all (\<lambda>kv. snd kv \<noteq> VNone \<and> snd kv \<noteq> VStr [] \<and> snd kv \<noteq> VList []
                     \<and> snd kv \<noteq> VDict []) r"
proof
  assume a: "parse_property_html p url = Inr r"
  then obtain d where r: "r = prune d"
    by (auto simp: parse_property_html_def consolidate_def split: sum.splits prod.splits)
  show "list_all (\<lambda>kv. snd kv \<noteq> VNone \<and> snd kv \<noteq> VStr [] \<and> snd kv \<noteq> VList []
                     \<and> snd kv \<noteq> VDict []) r"
    unfolding r prune_def is_empty_val_def by (simp add: list_all_iff)
qed

theorem final_record_has_no_empty_field_witness:
  "parse_property_html price_page (u ''x'') =
       Inr [(u ''url'', VStr (u ''x'')), (u ''precio'', VNum 1234567), (u ''moneda'', VStr (u ''MXN''))]
   \<and> dict_get (identity_stage price_page (u ''x'')) (u ''titulo'') = Some VNone
   \<and> list_all (\<lambda>kv. snd kv \<noteq> VNone \<and> snd kv \<noteq> VStr [] \<and> snd kv \<noteq> VList []
                     \<and> snd kv \<noteq> VDict [])
        [(u ''url'', VStr (u ''x'')), (u ''precio'', VNum 1234567), (u ''moneda'', VStr (u ''MXN''))]"
proof -
  have e: "parse_property_html price_page (u ''x'') =
       Inr [(u ''url'', VStr (u ''x'')), (u ''precio'', VNum 1234567), (u ''moneda'', VStr (u ''MXN''))]"
    by code_simp
  have t: "dict_get (identity_stage price_page (u ''x'')) (u ''titulo'') = Some VNone"
    by code_simp
  from final_record_has_no_empty_field [of price_page "u ''x''"] e t
  show ?thesis by blast
qed

section \<open>The narrative sentence\<close>

lemma remdups_drop_later: "x \<in> set ys \<Longrightarrow> remdups (zs @ x # ys) = remdups (zs @ ys)"
  by (induction zs) auto

lemma fromkeys_foldl:
  "distinct d \<Longrightarrow>
   foldl (\<lambda>d k. if k \<in> set d then d else d @ [k]) d xs = rev (remdups (rev xs @ rev d))"
proof (induction xs arbitrary: d)
  case Nil
  then show ?case by (simp add: distinct_remdups_id)
next
  case (Cons x xs)
  show ?case
  proof (cases "x \<in> set d")
    case True
    have "remdups (rev xs @ x # rev d) = remdups (rev xs @ rev d)"
      using True by (simp add: remdups_drop_later)
    then show ?thesis using Cons True by simp
  next
    case False
    then have "distinct (d @ [x])" using Cons.prems by simp
    from Cons.IH [OF this] False show ?thesis by simp
  qed
qed

lemma dict_fromkeys_eq: "dict_fromkeys xs = dedup_first_seen xs"
  using fromkeys_foldl [of "[]" xs] by (simp add: dict_fromkeys_def dedup_first_seen_def)

lemma contains_iff: "contains s sub = (\<exists>a b. s = a @ sub @ b)"
proof (induction s)
  case Nil
  then show ?case by auto
next
  case (Cons c cs)
  show ?case
  proof
    assume "contains (c # cs) sub"
    then consider "take (length sub) (c # cs) = sub" | "contains cs sub" by auto
    then show "\<exists>a b. c # cs = a @ sub @ b"
    proof cases
      case 1
      then have "c # cs = [] @ sub @ drop (length sub) (c # cs)"
        by (metis append_Nil append_take_drop_id)
      then show ?thesis by blast
    next
      case 2
      then obtain a b where "cs = a @ sub @ b" using Cons.IH by blast
      then have "c # cs = (c # a) @ sub @ b" by simp
      then show ?thesis by blast
    qed
  next
    assume "\<exists>a b. c # cs = a @ sub @ b"
    then obtain a b where ab: "c # cs = a @ sub @ b" by blast
    show "contains (c # cs) sub"
    proof (cases a)
      case Nil
      then have "take (length sub) (c # cs) = sub" using ab by simp
      then show ?thesis by simp
    next
      case (Cons x a')
      then have "cs = a' @ sub @ b" using ab by simp
      then have "contains cs sub" using Cons.IH by blast
      then show ?thesis by simp
    qed
  qed
qed

lemma find_last_index:
  "i < n \<Longrightarrow> P i \<Longrightarrow> (\<And>j. i < j \<Longrightarrow> j < n \<Longrightarrow> \<not> P j) \<Longrightarrow>
   List.find P (rev [0..<n]) = Some i"
proof (induction n)
  case 0
  then show ?case by simp
next
  case (Suc n)
  show ?case
  proof (cases "i = n")
    case True
    then show ?thesis using Suc.prems by simp
  next
    case False
    then have lt: "i < n" using Suc.prems by simp
    have "\<not> P n" using Suc.prems(3) [of n] lt by simp
    moreover have "List.find P (rev [0..<n]) = Some i"
      using Suc.IH [OF lt Suc.prems(2)] Suc.prems(3) by simp
    ultimately show ?thesis by simp
  qed
qed

lemma sep_chars: "sep = [44, 32]"
  by (simp add: sep_def u_def)

lemma rfind_last_sep:
  assumes "\<not> contains b sep"
  shows "rfind (a @ sep @ b) sep = Some (length a)"
proof -
  let ?s = "a @ sep @ b"
  let ?P = "\<lambda>i. take (length sep) (drop i ?s) = sep"
  have len: "length sep = 2" by (simp add: sep_chars)
  have n: "length a < Suc (length ?s - length sep)" by simp
  have Pi: "?P (length a)" by simp
  have later: "\<not> ?P j" if j: "length a < j" for j
  proof
    assume P: "?P j"
    show False
    proof (cases "j = Suc (length a)")
      case True
      then have "drop j ?s = 32 # b" by (simp add: sep_chars)
      then have "take 2 (32 # b) = [44, 32]" using P by (simp add: sep_chars)
      then show False by (simp add: numeral_2_eq_2)
    next
      case False
      then obtain k where k: "j = length a + 2 + k" using j
        by (metis add_2_eq_Suc' less_iff_Suc_add add_Suc_right add_Suc Suc_lessI less_imp_Suc_add)
      then have "drop j ?s = drop k b" by (simp add: len)
      then have "take (length sep) (drop k b) = sep" using P by simp
      then have "b = take k b @ sep @ drop (length sep) (drop k b)"
        by (metis append_take_drop_id)
      then have "contains b sep" using contains_iff by blast
      then show False using assms by simp
    qed
  qed
  show ?thesis
    unfolding rfind_def
    by (rule find_last_index [where P = ?P, OF n Pi]) (use later in blast)
qed

lemma join_snoc: "xs \<noteq> [] \<Longrightarrow> join s (xs @ [y]) = join s xs @ s @ y"
  by (induction s xs rule: join.induct) auto

lemma narrative_unfold:
  "narrative parts =
     (let d = join sep (dedup_first_seen parts)
      in u ''La propiedad cuenta con '' @
         (if contains d sep
          then (case rfind d sep of None \<Rightarrow> d | Some i \<Rightarrow> take i d @ u '' y '' @ drop (i + 2) d)
          else d))"
  by (simp add: narrative_def Let_def dict_fromkeys_eq sep_def)

lemma narrative_no_sep:
  "\<not> contains (join sep (dedup_first_seen parts)) sep \<Longrightarrow>
   narrative parts = u ''La propiedad cuenta con '' @ join sep (dedup_first_seen parts)"
  by (simp add: narrative_unfold Let_def)

lemma narrative_last_sep:
  assumes d: "join sep (dedup_first_seen parts) = a @ sep @ b" and b: "\<not> contains b sep"
  shows "narrative parts = u ''La propiedad cuenta con '' @ a @ u '' y '' @ b"
proof -
  have c: "contains (a @ sep @ b) sep" using contains_iff by blast
  have r: "rfind (a @ sep @ b) sep = Some (length a)" by (rule rfind_last_sep [OF b])
  have "drop (length a + 2) (a @ sep @ b) = b" by (simp add: sep_chars)
  then show ?thesis
    using c r by (simp add: narrative_unfold Let_def d)
qed

lemma narrative_two_or_more:
  assumes l: "2 \<le> length (dedup_first_seen parts)"
    and b: "\<not> contains (last (dedup_first_seen parts)) sep"
  shows "narrative parts = u ''La propiedad cuenta con '' @
           join sep (butlast (dedup_first_seen parts)) @ u '' y '' @ last (dedup_first_seen parts)"
proof -
  let ?q = "dedup_first_seen parts"
  have ne: "?q \<noteq> []" using l by auto
  have bne: "butlast ?q \<noteq> []"
  proof
    assume "butlast ?q = []"
    then have "length ?q \<le> 1" by (metis One_nat_def length_butlast list.size(3) diff_is_0_eq)
    then show False using l by simp
  qed
  have "?q = butlast ?q @ [last ?q]" using ne by simp
  then have "join sep ?q = join sep (butlast ?q) @ sep @ last ?q"
    using join_snoc [OF bne, of sep "last ?q"] by simp
  then show ?thesis using narrative_last_sep b by blast
qed

lemma finish_narrative:
  "ds_parts st \<noteq> [] \<Longrightarrow>
   dict_get (details_finish st) (u ''descripcion_amenidades'') = Some (VStr (narrative (ds_parts st)))"
proof -
  have ne: "u ''descripcion_amenidades'' \<noteq> u ''amenidades_estructurales''" by (simp add: u_def)
  assume "ds_parts st \<noteq> []"
  then show ?thesis
    using ne by (simp add: details_finish_def Let_def dict_get_set_same dict_get_set_other)
qed

text \<open>
  Claim C6. For a non-empty list of fragments, \<open>descripcion_amenidades\<close> is the
  sentence built from them: the fragments deduplicated in first-seen order and joined
  with a comma and a space, the last comma-and-space of the joined text replaced by
  \<open> y \<close>, after the prefix \<open>La propiedad cuenta con \<close>. When the last fragment has
  no comma-and-space of its own, that is the join of all fragments but the last,
  \<open> y \<close> and the last fragment. Two fragments give \<open>alberca y 2 recamaras\<close> (with
  the accent), three give \<open>a, b y c\<close>.
\<close>

theorem narrative_sentence:
  "(ds_parts st \<noteq> [] \<longrightarrow>
      dict_get (details_finish st) (u ''descripcion_amenidades'')
        = Some (VStr (narrative (ds_parts st))))
   \<and> dict_fromkeys parts = dedup_first_seen parts
   \<and> (\<not> contains (join sep (dedup_first_seen parts)) sep \<longrightarrow>
        narrative parts = u ''La propiedad cuenta con '' @ join sep (dedup_first_seen parts))
   \<and> (join sep (dedup_first_seen parts) = a @ sep @ b \<and> \<not> contains b sep \<longrightarrow>
        narrative parts = u ''La propiedad cuenta con '' @ a @ u '' y '' @ b)
   \<and> (2 \<le> length (dedup_first_seen parts) \<and> \<not> contains (last (dedup_first_seen parts)) sep \<longrightarrow>
        narrative parts = u ''La propiedad cuenta con '' @
          join sep (butlast (dedup_first_seen parts)) @ u '' y '' @ last (dedup_first_seen parts))
   \<and> narrative [u ''alberca'', u ''2 rec'' @ [225] @ u ''maras'']
        = u ''La propiedad cuenta con alberca y 2 rec'' @ [225] @ u ''maras''
   \<and> narrative [u ''alberca'', u ''jardin'', u ''alberca'', u ''terraza'']
        = u ''La propiedad cuenta con alberca, jardin y terraza''"
proof -
  have e1: "narrative [u ''alberca'', u ''2 rec'' @ [225] @ u ''maras'']
        = u ''La propiedad cuenta con alberca y 2 rec'' @ [225] @ u ''maras''"
    by code_simp
  have e2: "narrative [u ''alberca'', u ''jardin'', u ''alberca'', u ''terraza'']
        = u ''La propiedad cuenta con alberca, jardin y terraza''"
    by code_simp
  show ?thesis
    using finish_narrative [of st] dict_fromkeys_eq [of parts] narrative_no_sep [of parts]
      narrative_last_sep [of parts a b] narrative_two_or_more [of parts] e1 e2
    by blast
qed

theorem narrative_sentence_witness:
  "ds_parts (details_loop two_cells) = [u ''alberca'', u ''jardin amplio'', u ''alberca'']
   \<and> ds_parts (details_loop two_cells) \<noteq> []
   \<and> dedup_first_seen (ds_parts (details_loop two_cells)) = [u ''alberca'', u ''jardin amplio'']
   \<and> join sep (dedup_first_seen (ds_parts (details_loop two_cells)))
        = u ''alberca'' @ sep @ u ''jardin amplio''
   \<and> \<not> contains (u ''jardin amplio'') sep
   \<and> narrative (ds_parts (details_loop two_cells))
        = u ''La propiedad cuenta con '' @ u ''alberca'' @ u '' y '' @ u ''jardin amplio''
   \<and> dict_get (details_finish (details_loop two_cells)) (u ''descripcion_amenidades'')
        = Some (VStr (u ''La propiedad cuenta con alberca y jardin amplio''))"
proof -
  have p: "ds_parts (details_loop two_cells) = [u ''alberca'', u ''jardin amplio'', u ''alberca'']"
    by code_simp
  have ne: "ds_parts (details_loop two_cells) \<noteq> []" by code_simp
  have q: "dedup_first_seen (ds_parts (details_loop two_cells)) = [u ''alberca'', u ''jardin amplio'']"
    by code_simp
  have j: "join sep (dedup_first_seen (ds_parts (details_loop two_cells)))
        = u ''alberca'' @ sep @ u ''jardin amplio''"
    by code_simp
  have b: "\<not> contains (u ''jardin amplio'') sep" by code_simp
  have n: "narrative (ds_parts (details_loop two_cells))
        = u ''La propiedad cuenta con '' @ u ''alberca'' @ u '' y '' @ u ''jardin amplio''"
    and f: "dict_get (details_finish (details_loop two_cells)) (u ''descripcion_amenidades'')
        = Some (VStr (narrative (ds_parts (details_loop two_cells))))"
    using narrative_sentence [of "details_loop two_cells" "ds_parts (details_loop two_cells)"
        "u ''alberca''" "u ''jardin amplio''"] ne j b
    by blast+
  have c: "u ''La propiedad cuenta con '' @ u ''alberca'' @ u '' y '' @ u ''jardin amplio''
        = u ''La propiedad cuenta con alberca y jardin amplio''"
    by (simp add: u_def)
  from p ne q j b n f c show ?thesis by simp
qed

section \<open>The merge stages\<close>

lemma distinct_dict_update:
  "distinct (map fst d) \<Longrightarrow> distinct (map fst (dict_update d e))"
  unfolding dict_update_def
  by (induction e arbitrary: d) (simp_all add: distinct_dict_set)

lemma dict_get_None: "(dict_get d k = None) = (k \<notin> fst ` set d)"
  by (simp add: dict_get_def map_of_eq_None_iff)

lemma dict_get_update:
  "distinct (map fst e) \<Longrightarrow>
   dict_get (dict_update d e) k =
     (case dict_get e k of Some v \<Rightarrow> Some v | None \<Rightarrow> dict_get d k)"
proof (induction e arbitrary: d)
  case Nil
  then show ?case by (simp add: dict_update_def dict_get_def)
next
  case (Cons a e)
  obtain k' v' where a: "a = (k', v')" by (cases a)
  have d: "distinct (map fst e)" and n: "k' \<notin> fst ` set e" using Cons.prems a by auto
  have u: "dict_update d (a # e) = dict_update (dict_set d k' v') e"
    by (simp add: dict_update_def a)
  have ih: "dict_get (dict_update d (a # e)) k =
     (case dict_get e k of Some v \<Rightarrow> Some v | None \<Rightarrow> dict_get (dict_set d k' v') k)"
    using Cons.IH [OF d, of "dict_set d k' v'"] u by simp
  show ?case
  proof (cases "k = k'")
    case True
    have e: "dict_get e k = None" using n True by (simp add: dict_get_None)
    have h: "dict_get (a # e) k = Some v'" using True a by (simp add: dict_get_def)
    have g: "dict_get (dict_set d k' v') k = Some v'" using True by (simp add: dict_get_set_same)
    show ?thesis by (simp only: ih e h g option.case)
  next
    case False
    have o: "dict_get (dict_set d k' v') k = dict_get d k"
      using False by (simp add: dict_get_set_other)
    have h: "dict_get (a # e) k = dict_get e k" using False a by (simp add: dict_get_def)
    show ?thesis by (simp only: ih o h)
  qed
qed

lemma distinct_summary_item:
  "distinct (map fst d) \<Longrightarrow> distinct (map fst (summary_item d item))"
  by (simp add: summary_item_def Let_def distinct_dict_set split: option.splits prod.splits)

lemma distinct_foldl_summary:
  "distinct (map fst d) \<Longrightarrow> distinct (map fst (foldl summary_item d items))"
  by (induction items arbitrary: d) (simp_all add: distinct_summary_item)

lemma distinct_parse_main_summary: "distinct (map fst (parse_main_summary b))"
  by (simp add: parse_main_summary_def distinct_foldl_summary split: option.splits)

lemma distinct_details_step:
  "distinct (map fst (ds_data st)) \<Longrightarrow> distinct (map fst (ds_data (details_step st kv)))"
  by (simp add: details_step_def Let_def distinct_dict_set split: option.splits)

lemma distinct_fold_section:
  "distinct (map fst (fst acc)) \<Longrightarrow> distinct (map fst (fst (fold_section acc kv)))"
  by (simp add: fold_section_def Let_def distinct_dict_set split: option.splits val.splits)

lemma distinct_foldl_details:
  "distinct (map fst (ds_data st)) \<Longrightarrow> distinct (map fst (ds_data (foldl details_step st kvs)))"
  by (induction kvs arbitrary: st) (simp_all add: distinct_details_step)

lemma distinct_details_finish:
  "distinct (map fst (ds_data st)) \<Longrightarrow> distinct (map fst (details_finish st))"
  by (simp add: details_finish_def Let_def distinct_dict_set)

lemma distinct_parse_details: "distinct (map fst (parse_details_and_features items))"
  by (simp add: parse_details_and_features_def details_loop_def distinct_details_finish
      distinct_foldl_details)

lemma distinct_foldl_section:
  "distinct (map fst (fst acc)) \<Longrightarrow> distinct (map fst (fst (foldl fold_section acc kvs)))"
  by (induction kvs arbitrary: acc) (simp_all add: distinct_fold_section)

lemma distinct_seg_finish: "distinct (map fst (seg_finish st))"
proof -
  define f0 where "f0 = (if seg_flags st \<noteq> []
             then [(u ''caracteristicas_adicionales'', VDict (seg_flags st))] else [])"
  define a0 where "a0 = (case map_of (seg_data st) default_section of None \<Rightarrow> [] | Some xs \<Rightarrow> xs)"
  obtain fd am where fa:
    "foldl fold_section (f0, a0) (dict_remove (seg_data st) default_section) = (fd, am)"
    by (cases "foldl fold_section (f0, a0) (dict_remove (seg_data st) default_section)")
  have "distinct (map fst (fst (f0, a0)))" by (simp add: f0_def)
  from distinct_foldl_section [OF this, of "dict_remove (seg_data st) default_section"]
  have d: "distinct (map fst fd)" by (simp add: fa)
  have "seg_finish st =
      (if am \<noteq> [] then dict_set fd default_section (VList (filter (\<lambda>a. 2 < length a) am))
       else fd)"
    using fa by (simp add: seg_finish_def Let_def f0_def a0_def)
  then show ?thesis using d by (simp add: distinct_dict_set)
qed

lemma distinct_heuristics: "distinct (map fst (parse_description_heuristics raw))"
  by (simp add: parse_description_heuristics_def distinct_seg_finish)

lemma distinct_identity_stage: "distinct (map fst (identity_stage p url))"
  by (simp add: identity_stage_def u_def)

lemma distinct_price_stage:
  "distinct (map fst d) \<Longrightarrow> distinct (map fst (price_stage p d))"
  by (simp add: price_stage_def Let_def distinct_dict_set split: option.splits)

lemma distinct_description_stage:
  "distinct (map fst d) \<Longrightarrow> distinct (map fst (description_stage p d))"
  by (simp add: description_stage_def distinct_dict_set distinct_dict_update split: option.splits)

lemma distinct_merge_stages: "distinct (map fst (merge_stages p url))"
  by (simp add: merge_stages_def distinct_description_stage distinct_dict_update
      distinct_price_stage distinct_identity_stage)

lemma dict_get_description_stage:
  "dict_get (description_stage p d) k =
     (case description_raw p of
        None \<Rightarrow> dict_get d k
      | Some raw \<Rightarrow>
          if raw = [] then dict_get d k
          else if k = u ''descripcion'' then Some (VStr (clean_description_text raw))
          else (case dict_get (parse_description_heuristics raw) k of
                  Some v \<Rightarrow> Some v
                | None \<Rightarrow> dict_get d k))"
proof (cases "description_raw p")
  case None
  then show ?thesis by (simp add: description_stage_def)
next
  case (Some raw)
  show ?thesis
  proof (cases "raw = []")
    case True
    then show ?thesis using Some by (simp add: description_stage_def)
  next
    case False
    have s: "description_stage p d =
        dict_set (dict_update d (parse_description_heuristics raw)) (u ''descripcion'')
          (VStr (clean_description_text raw))"
      using Some False by (simp add: description_stage_def)
    show ?thesis
    proof (cases "k = u ''descripcion''")
      case True
      then show ?thesis using Some False s by (simp add: dict_get_set_same)
    next
      case nk: False
      have "dict_get (description_stage p d) k =
          dict_get (dict_update d (parse_description_heuristics raw)) k"
        using nk s by (simp add: dict_get_set_other)
      then show ?thesis
        using Some False nk dict_get_update [OF distinct_heuristics, of d raw k] by simp
    qed
  qed
qed

text \<open>
  Claim C1, as amended. Each later merge stage stores its fields over the record: a key
  that the stage produces takes the value of the stage, whatever the record held (the
  summary map may even store \<open>None\<close>); a key that the stage does not produce keeps
  its value. This holds for the summary map, the detail map, and the description stage
  (the output of the segmenter, then the cleaned description under \<open>descripcion\<close>).
\<close>

theorem later_stage_replaces:
  "dict_get (dict_update d (parse_main_summary b)) k =
     (case dict_get (parse_main_summary b) k of Some v \<Rightarrow> Some v | None \<Rightarrow> dict_get d k)
   \<and> dict_get (dict_update d (parse_details_and_features items)) k =
     (case dict_get (parse_details_and_features items) k of
        Some v \<Rightarrow> Some v | None \<Rightarrow> dict_get d k)
   \<and> dict_get (description_stage p d) k =
     (case description_raw p of
        None \<Rightarrow> dict_get d k
      | Some raw \<Rightarrow>
          if raw = [] then dict_get d k
          else if k = u ''descripcion'' then Some (VStr (clean_description_text raw))
          else (case dict_get (parse_description_heuristics raw) k of
                  Some v \<Rightarrow> Some v
                | None \<Rightarrow> dict_get d k))"
  using dict_get_update [OF distinct_parse_main_summary, of d b k]
    dict_get_update [OF distinct_parse_details, of d items k]
    dict_get_description_stage [of p d k]
  by blast

text \<open>
  The claim as stated fails: on the page with the price block \<open>$100 MXN\<close> and the
  detail cell \<open>Moneda: USD\<close>, the price stage stores \<open>moneda = MXN\<close> and the detail
  map replaces it by \<open>USD\<close>, which is what the final record holds.
\<close>

theorem later_stage_overwrites_counterexample:
  "dict_get (price_stage moneda_page (identity_stage moneda_page (u ''x''))) (u ''moneda'')
     = Some (VStr (u ''MXN''))
   \<and> parse_details_and_features (detail_items moneda_page)
     = [(u ''moneda'', VStr (u ''USD'')),
        (u ''descripcion_amenidades'', VStr (u ''La propiedad cuenta con moneda usd''))]
   \<and> dict_get (merge_stages moneda_page (u ''x'')) (u ''moneda'') = Some (VStr (u ''USD''))
   \<and> \<not> only_adds (price_stage moneda_page (identity_stage moneda_page (u ''x'')))
                   (merge_stages moneda_page (u ''x''))
   \<and> parse_property_html moneda_page (u ''x'')
     = Inr [(u ''url'', VStr (u ''x'')), (u ''precio'', VNum 100), (u ''moneda'', VStr (u ''USD'')),
            (u ''descripcion_amenidades'', VStr (u ''La propiedad cuenta con moneda usd''))]"
  by code_simp

section \<open>Consolidation\<close>

lemma dict_has_iff: "dict_has d k = (k \<in> fst ` set d)"
  by (simp add: dict_has_def)

lemma dict_set_absent: "k \<notin> fst ` set d \<Longrightarrow> dict_set d k v = d @ [(k, v)]"
  by (induction d) auto

lemma dict_set_same_value: "dict_get d k = Some v \<Longrightarrow> dict_set d k v = d"
proof (induction d)
  case Nil
  then show ?case by (simp add: dict_get_def)
next
  case (Cons a d)
  obtain k' v' where a: "a = (k', v')" by (cases a)
  show ?case
  proof (cases "k' = k")
    case True
    then show ?thesis using Cons.prems a by (simp add: dict_get_def)
  next
    case False
    then have "dict_get d k = Some v" using Cons.prems a by (simp add: dict_get_def)
    then show ?thesis using Cons.IH False a by simp
  qed
qed

lemma dict_remove_absent: "k \<notin> fst ` set d \<Longrightarrow> dict_remove d k = d"
  by (induction d) (auto simp: dict_remove_def)

lemma keys_dict_remove: "fst ` set (dict_remove d k) = fst ` set d - {k}"
  by (auto simp: dict_remove_def)

lemma distinct_dict_remove: "distinct (map fst d) \<Longrightarrow> distinct (map fst (dict_remove d k))"
  by (simp add: dict_remove_def distinct_map_filter)

lemma dict_get_remove_same: "dict_get (dict_remove d k) k = None"
  by (simp add: dict_get_None keys_dict_remove)

lemma dict_get_remove_other: "k' \<noteq> k \<Longrightarrow> dict_get (dict_remove d k) k' = dict_get d k'"
  by (induction d) (auto simp: dict_remove_def dict_get_def)

lemma keys_rename_step:
  "fst ` set (rename_step f kv) = insert (key_mapping (fst kv)) (fst ` set f)"
  by (auto simp: rename_step_def Let_def keys_dict_set dict_has_iff)

lemma keys_foldl_rename:
  "fst ` set (foldl rename_step f d) = fst ` set f \<union> key_mapping ` fst ` set d"
proof (induction d arbitrary: f)
  case Nil
  then show ?case by simp
next
  case (Cons a d)
  show ?case using Cons.IH [of "rename_step f a"] keys_rename_step [of f a] by auto
qed

lemma distinct_rename_step:
  "distinct (map fst f) \<Longrightarrow> distinct (map fst (rename_step f kv))"
  by (simp add: rename_step_def Let_def distinct_dict_set)

lemma distinct_foldl_rename:
  "distinct (map fst f) \<Longrightarrow> distinct (map fst (foldl rename_step f d))"
  by (induction d arbitrary: f) (simp_all add: distinct_rename_step)

lemma key_mapping_idem: "key_mapping (key_mapping k) = key_mapping k"
  by (simp add: key_mapping_def u_def)

lemma foldl_rename_fixed:
  "distinct (map fst r) \<Longrightarrow> (\<And>k. k \<in> fst ` set r \<Longrightarrow> key_mapping k = k) \<Longrightarrow>
   fst ` set f \<inter> fst ` set r = {} \<Longrightarrow> foldl rename_step f r = f @ r"
proof (induction r arbitrary: f)
  case Nil
  then show ?case by simp
next
  case (Cons a r)
  obtain k v where a: "a = (k, v)" by (cases a)
  have km: "key_mapping k = k" using Cons.prems(2) [of k] a by simp
  have nk: "k \<notin> fst ` set f" using Cons.prems(3) a by auto
  have step: "rename_step f a = f @ [(k, v)]"
    using km nk a by (simp add: rename_step_def Let_def dict_has_iff dict_set_absent)
  have d: "distinct (map fst r)" and kr: "k \<notin> fst ` set r" using Cons.prems(1) a by auto
  have disj: "fst ` set (f @ [(k, v)]) \<inter> fst ` set r = {}"
    using Cons.prems(3) kr a by auto
  have "foldl rename_step (f @ [(k, v)]) r = (f @ [(k, v)]) @ r"
    by (rule Cons.IH [OF d _ disj]) (use Cons.prems(2) in auto)
  then show ?case using step a by simp
qed

lemma keys_prune: "fst ` set (prune d) \<subseteq> fst ` set d"
  by (auto simp: prune_def)

lemma distinct_prune: "distinct (map fst d) \<Longrightarrow> distinct (map fst (prune d))"
  by (simp add: prune_def distinct_map_filter)

lemma dict_get_prune:
  "distinct (map fst d) \<Longrightarrow>
   dict_get (prune d) k =
     (case dict_get d k of None \<Rightarrow> None
      | Some v \<Rightarrow> if is_empty_val v then None else Some v)"
proof (induction d)
  case Nil
  then show ?case by (simp add: prune_def dict_get_def)
next
  case (Cons a d)
  obtain k' v' where a: "a = (k', v')" by (cases a)
  have d: "distinct (map fst d)" and n: "k' \<notin> fst ` set d" using Cons.prems a by auto
  show ?case
  proof (cases "k = k'")
    case True
    have "k \<notin> fst ` set (prune d)" using n True keys_prune by blast
    then have p: "dict_get (prune d) k = None" by (simp add: dict_get_None)
    have h: "dict_get (a # d) k = Some v'" using True a by (simp add: dict_get_def)
    show ?thesis
    proof (cases "is_empty_val v'")
      case True
      then have "prune (a # d) = prune d" using a by (simp add: prune_def)
      then show ?thesis using p h True by simp
    next
      case False
      then have "prune (a # d) = (k', v') # prune d" using a by (simp add: prune_def)
      then show ?thesis using h False True by (simp add: dict_get_def)
    qed
  next
    case False
    have h: "dict_get (a # d) k = dict_get d k" using False a by (simp add: dict_get_def)
    have "dict_get (prune (a # d)) k = dict_get (prune d) k"
      using False a by (simp add: prune_def dict_get_def)
    then show ?thesis using Cons.IH [OF d] h by simp
  qed
qed

lemma prune_values: "kv \<in> set (prune d) \<Longrightarrow> \<not> is_empty_val (snd kv)"
  by (simp add: prune_def)

lemma prune_id: "list_all (\<lambda>kv. \<not> is_empty_val (snd kv)) r \<Longrightarrow> prune r = r"
  by (simp add: prune_def list_all_iff)

lemma fixed_keys:
  "key_mapping k_estructurales = k_estructurales"
  "key_mapping default_section = default_section"
  "key_mapping k_equipamiento = k_equipamiento"
  "key_mapping k_anio = k_anio"
  "key_mapping k_amenidades = k_amenidades"
  by (simp_all add: key_mapping_def k_estructurales_def default_section_def k_equipamiento_def
      k_anio_def k_amenidades_def u_def)

lemma no_target:
  "key_mapping k = k_estructurales \<Longrightarrow> k = k_estructurales"
  "key_mapping k = default_section \<Longrightarrow> k = default_section"
  "key_mapping k = k_equipamiento \<Longrightarrow> k = k_equipamiento"
  "key_mapping k = k_anio \<Longrightarrow> k = k_anio"
  "key_mapping k = k_amenidades \<Longrightarrow> k = k_amenidades"
  by (simp_all add: key_mapping_def k_estructurales_def default_section_def k_equipamiento_def
      k_anio_def k_amenidades_def u_def split: if_splits)

lemma key_neqs:
  "k_estructurales \<noteq> default_section" "k_estructurales \<noteq> k_equipamiento"
  "k_estructurales \<noteq> k_anio" "k_estructurales \<noteq> k_amenidades"
  "default_section \<noteq> k_equipamiento" "default_section \<noteq> k_anio"
  "default_section \<noteq> k_amenidades" "k_equipamiento \<noteq> k_anio"
  "k_equipamiento \<noteq> k_amenidades" "k_anio \<noteq> k_amenidades"
  by (simp_all add: k_estructurales_def default_section_def k_equipamiento_def
      k_anio_def k_amenidades_def u_def)

lemma rename_step_lookup_other:
  "key_mapping (fst kv) \<noteq> K \<Longrightarrow> dict_get (rename_step f kv) K = dict_get f K"
  by (simp add: rename_step_def Let_def dict_get_set_other)

lemma fold_rename_lookup_other:
  "(\<And>k. k \<in> fst ` set e \<Longrightarrow> key_mapping k \<noteq> K) \<Longrightarrow>
   dict_get (foldl rename_step f e) K = dict_get f K"
proof (induction e arbitrary: f)
  case Nil
  then show ?case by simp
next
  case (Cons a e)
  have "key_mapping (fst a) \<noteq> K" using Cons.prems [of "fst a"] by simp
  then have "dict_get (rename_step f a) K = dict_get f K" by (rule rename_step_lookup_other)
  moreover have "dict_get (foldl rename_step (rename_step f a) e) K = dict_get (rename_step f a) K"
    by (rule Cons.IH) (use Cons.prems in auto)
  ultimately show ?case by simp
qed

lemma fold_rename_lookup:
  assumes fxd: "key_mapping K = K" and tgt: "\<And>k. key_mapping k = K \<Longrightarrow> k = K"
  shows "distinct (map fst d) \<Longrightarrow> K \<notin> fst ` set f \<Longrightarrow>
         dict_get (foldl rename_step f d) K = dict_get d K"
proof (induction d arbitrary: f)
  case Nil
  have "dict_get f K = None" using Nil by (simp add: dict_get_None)
  then show ?case by (simp add: dict_get_def)
next
  case (Cons a d)
  obtain k v where a: "a = (k, v)" by (cases a)
  have d: "distinct (map fst d)" and kd: "k \<notin> fst ` set d" using Cons.prems(1) a by auto
  show ?case
  proof (cases "k = K")
    case True
    have step: "rename_step f a = dict_set f K v"
      using True a fxd Cons.prems(2) by (simp add: rename_step_def Let_def dict_has_iff)
    have "key_mapping k' \<noteq> K" if m: "k' \<in> fst ` set d" for k'
    proof
      assume "key_mapping k' = K"
      then have "k' = K" by (rule tgt)
      then show False using m kd True by simp
    qed
    then have "dict_get (foldl rename_step (dict_set f K v) d) K = dict_get (dict_set f K v) K"
      by (rule fold_rename_lookup_other)
    then show ?thesis using step True a by (simp add: dict_get_set_same) (simp add: dict_get_def)
  next
    case False
    have fk: "key_mapping k \<noteq> K"
    proof
      assume "key_mapping k = K"
      then have "k = K" by (rule tgt)
      then show False using False by simp
    qed
    have "K \<notin> fst ` set (rename_step f a)"
      using keys_rename_step [of f a] fk a Cons.prems(2) by auto
    from Cons.IH [OF d this] have "dict_get (foldl rename_step (rename_step f a) d) K = dict_get d K" .
    then show ?thesis using False a by (simp add: dict_get_def)
  qed
qed

lemma year_stable_calc:
  assumes "calculate_construction_year v = Some y"
  shows "calculate_construction_year (of_int y) = Some y"
proof -
  have range: "1900 \<le> y \<and> y \<le> 2027"
  proof (cases "1900 \<le> v \<and> v \<le> 2027")
    case True
    then have "y = \<lfloor>v\<rfloor>" using assms by (simp add: calculate_construction_year_eq)
    moreover have "1900 \<le> \<lfloor>v\<rfloor>" using True by (simp add: le_floor_iff)
    moreover have "\<lfloor>v\<rfloor> \<le> 2027" using True by (simp add: floor_le_iff)
    ultimately show ?thesis by simp
  next
    case False
    then have v: "0 < v \<and> v < 100" and y: "y = \<lfloor>2025 - v + 1 / 2 ^ 43\<rfloor>" using assms
      by (auto simp: calculate_construction_year_eq split: if_splits)
    have "1925 \<le> \<lfloor>2025 - v + 1 / 2 ^ 43\<rfloor>" using v by (simp add: le_floor_iff)
    moreover have "\<lfloor>2025 - v + 1 / 2 ^ 43\<rfloor> \<le> 2025" using v by (simp add: floor_le_iff)
    ultimately show ?thesis using y by simp
  qed
  then have "1900 \<le> (of_int y :: rat) \<and> (of_int y :: rat) \<le> 2027" by simp
  then show ?thesis by (simp add: calculate_construction_year_eq)
qed

lemma gather_dict:
  assumes "gather_amenities d = Inr (a, d1)"
  shows "d1 = (let dm = dict_remove (dict_remove d k_estructurales) default_section
               in (case dict_get dm k_equipamiento of
                     None \<Rightarrow> dm
                   | Some v \<Rightarrow> if is_list v then dict_remove dm k_equipamiento else dm))"
proof -
  define d0 where "d0 = dict_remove d k_estructurales"
  define all0 where "all0 = (case dict_get d k_estructurales of None \<Rightarrow> VList [] | Some v \<Rightarrow> v)"
  define mid where "mid = (case dict_get d0 default_section of
                  None \<Rightarrow> Inr (all0, d0)
                | Some v \<Rightarrow> (case py_extend all0 v of
                               Inl e \<Rightarrow> Inl e
                             | Inr a \<Rightarrow> Inr (a, dict_remove d0 default_section)))"
  have g: "gather_amenities d =
     (case mid of
        Inl e \<Rightarrow> Inl e
      | Inr (all1, dm) \<Rightarrow>
          (case dict_get dm k_equipamiento of
             None \<Rightarrow> Inr (all1, dm)
           | Some v \<Rightarrow>
               if is_list v then
                 (case py_extend all1 v of
                    Inl e \<Rightarrow> Inl e
                  | Inr a \<Rightarrow> Inr (a, dict_remove dm k_equipamiento))
               else Inr (all1, dm)))"
    unfolding gather_amenities_def Let_def mid_def d0_def all0_def by (rule refl)
  obtain all1 dm where m: "mid = Inr (all1, dm)"
    using assms g by (cases mid) auto
  have dm: "dm = dict_remove d0 default_section"
  proof (cases "dict_get d0 default_section")
    case None
    then have "default_section \<notin> fst ` set d0" by (simp add: dict_get_None)
    then have "dict_remove d0 default_section = d0" by (rule dict_remove_absent)
    then show ?thesis using m None by (simp add: mid_def)
  next
    case (Some v)
    then show ?thesis using m by (auto simp: mid_def split: sum.splits)
  qed
  have "d1 = (case dict_get dm k_equipamiento of
                     None \<Rightarrow> dm
                   | Some v \<Rightarrow> if is_list v then dict_remove dm k_equipamiento else dm)"
    using assms g m by (auto split: option.splits sum.splits if_splits)
  then show ?thesis unfolding Let_def dm d0_def .
qed

lemma gather_props:
  assumes g: "gather_amenities d = Inr (a, d1)" and dd: "distinct (map fst d)"
  shows "distinct (map fst d1)"
    and "dict_get d1 k_estructurales = None"
    and "dict_get d1 default_section = None"
    and "(case dict_get d1 k_equipamiento of None \<Rightarrow> True | Some v \<Rightarrow> \<not> is_list v)"
    and "k \<noteq> k_estructurales \<Longrightarrow> k \<noteq> default_section \<Longrightarrow> k \<noteq> k_equipamiento \<Longrightarrow>
         dict_get d1 k = dict_get d k"
proof -
  define dm where "dm = dict_remove (dict_remove d k_estructurales) default_section"
  have d1: "d1 = (case dict_get dm k_equipamiento of
                     None \<Rightarrow> dm
                   | Some v \<Rightarrow> if is_list v then dict_remove dm k_equipamiento else dm)"
    using gather_dict [OF g] unfolding Let_def dm_def .
  have ddm: "distinct (map fst dm)" using dd by (simp add: dm_def distinct_dict_remove)
  have e: "dict_get dm k_estructurales = None"
    using key_neqs by (simp add: dm_def dict_get_remove_other dict_get_remove_same)
  have x: "dict_get dm default_section = None" by (simp add: dm_def dict_get_remove_same)
  have o: "dict_get dm k = dict_get d k" if "k \<noteq> k_estructurales" "k \<noteq> default_section" for k
    using that by (simp add: dm_def dict_get_remove_other)
  consider (same) "d1 = dm" "(case dict_get dm k_equipamiento of None \<Rightarrow> True | Some v \<Rightarrow> \<not> is_list v)"
    | (removed) "d1 = dict_remove dm k_equipamiento"
    using d1 by (cases "dict_get dm k_equipamiento") (auto split: if_splits)
  then have all: "distinct (map fst d1) \<and> dict_get d1 k_estructurales = None
      \<and> dict_get d1 default_section = None
      \<and> (case dict_get d1 k_equipamiento of None \<Rightarrow> True | Some v \<Rightarrow> \<not> is_list v)
      \<and> (k \<noteq> k_estructurales \<longrightarrow> k \<noteq> default_section \<longrightarrow> k \<noteq> k_equipamiento \<longrightarrow>
         dict_get d1 k = dict_get d k)"
  proof cases
    case same
    then show ?thesis using ddm e x o by simp
  next
    case removed
    then show ?thesis
      using ddm e x o key_neqs
      by (simp add: distinct_dict_remove dict_get_remove_other dict_get_remove_same)
  qed
  show "distinct (map fst d1)" using all by simp
  show "dict_get d1 k_estructurales = None" using all by simp
  show "dict_get d1 default_section = None" using all by simp
  show "(case dict_get d1 k_equipamiento of None \<Rightarrow> True | Some v \<Rightarrow> \<not> is_list v)"
    using all by simp
  show "k \<noteq> k_estructurales \<Longrightarrow> k \<noteq> default_section \<Longrightarrow> k \<noteq> k_equipamiento \<Longrightarrow>
         dict_get d1 k = dict_get d k" using all by simp
qed

lemma store_cases:
  "store_amenities a d1 = Inr d2 \<Longrightarrow>
   d2 = d1 \<or> (\<exists>xs. d2 = dict_set d1 k_amenidades (VList xs))"
  by (auto simp: store_amenities_def split: if_splits sum.splits)

lemma store_props:
  assumes s: "store_amenities a d1 = Inr d2" and dd: "distinct (map fst d1)"
  shows "distinct (map fst d2)"
    and "k \<noteq> k_amenidades \<Longrightarrow> dict_get d2 k = dict_get d1 k"
  using store_cases [OF s] dd by (auto simp: distinct_dict_set dict_get_set_other)

lemma fix_year_props:
  assumes dd: "distinct (map fst d2)"
  shows "distinct (map fst (fix_year d2))"
    and "k \<noteq> k_anio \<Longrightarrow> dict_get (fix_year d2) k = dict_get d2 k"
    and "(case dict_get (fix_year d2) k_anio of None \<Rightarrow> True
          | Some v \<Rightarrow> v = VNone \<or> year_stable v)"
proof -
  have st: "year_val (calculate_construction_year v) = VNone
      \<or> year_stable (year_val (calculate_construction_year v))" for v
    by (cases "calculate_construction_year v")
       (simp_all add: year_val_def year_stable_calc)
  consider (none) "dict_get d2 k_anio = None"
    | (num) r where "dict_get d2 k_anio = Some (VNum r)"
    | (inf) "dict_get d2 k_anio = Some VInf"
    | (int) i where "dict_get d2 k_anio = Some (VInt i)"
    | (other) v where "dict_get d2 k_anio = Some v" "\<forall>r. v \<noteq> VNum r" "v \<noteq> VInf"
        "\<forall>i. v \<noteq> VInt i"
    by (cases "dict_get d2 k_anio") auto
  then have all: "distinct (map fst (fix_year d2))
     \<and> (k \<noteq> k_anio \<longrightarrow> dict_get (fix_year d2) k = dict_get d2 k)
     \<and> (case dict_get (fix_year d2) k_anio of None \<Rightarrow> True
          | Some v \<Rightarrow> v = VNone \<or> year_stable v)"
  proof cases
    case none
    then show ?thesis using dd by (simp add: fix_year_def)
  next
    case num
    then show ?thesis using dd st [of r]
      by (simp add: fix_year_def distinct_dict_set dict_get_set_other dict_get_set_same)
  next
    case inf
    then show ?thesis using dd
      by (simp add: fix_year_def distinct_dict_set dict_get_set_other dict_get_set_same)
  next
    case int
    then show ?thesis using dd st [of "of_int i"]
      by (simp add: fix_year_def distinct_dict_set dict_get_set_other dict_get_set_same)
  next
    case other
    then have "fix_year d2 = d2" by (cases v) (simp_all add: fix_year_def)
    moreover have "year_stable v" using other by (cases v) simp_all
    ultimately show ?thesis using dd other by simp
  qed
  show "distinct (map fst (fix_year d2))" using all by simp
  show "k \<noteq> k_anio \<Longrightarrow> dict_get (fix_year d2) k = dict_get d2 k" using all by simp
  show "(case dict_get (fix_year d2) k_anio of None \<Rightarrow> True
          | Some v \<Rightarrow> v = VNone \<or> year_stable v)" using all by simp
qed

lemma consolidate_final_like:
  assumes dd: "distinct (map fst d)" and c: "consolidate d = Inr r"
  shows "final_like r"
proof -
  obtain a d1 where g: "gather_amenities d = Inr (a, d1)"
    using c by (auto simp: consolidate_def split: sum.splits prod.splits)
  obtain d2 where s: "store_amenities a d1 = Inr d2"
    using c g by (auto simp: consolidate_def split: sum.splits)
  define d3 where "d3 = fix_year d2"
  define f where "f = foldl rename_step [] d3"
  have r: "r = prune f" using c g s by (simp add: consolidate_def f_def d3_def)
  note gp = gather_props [OF g dd]
  note sp = store_props [OF s gp(1)]
  note yp = fix_year_props [OF sp(1)]
  have dd3: "distinct (map fst d3)" using yp(1) by (simp add: d3_def)
  have e3: "dict_get d3 k_estructurales = None"
    using gp(2) sp(2) [of k_estructurales] yp(2) [of k_estructurales] key_neqs
    by (simp add: d3_def)
  have x3: "dict_get d3 default_section = None"
    using gp(3) sp(2) [of default_section] yp(2) [of default_section] key_neqs
    by (simp add: d3_def)
  have q3: "dict_get d3 k_equipamiento = dict_get d1 k_equipamiento"
    using sp(2) [of k_equipamiento] yp(2) [of k_equipamiento] key_neqs
    by (simp add: d3_def)
  have y3: "(case dict_get d3 k_anio of None \<Rightarrow> True | Some v \<Rightarrow> v = VNone \<or> year_stable v)"
    using yp(3) by (simp add: d3_def)
  have df: "distinct (map fst f)" by (simp add: f_def distinct_foldl_rename)
  have fe: "dict_get f k_estructurales = None"
    using fold_rename_lookup [OF fixed_keys(1) no_target(1) dd3, of "[]"] e3 by (simp add: f_def)
  have fx: "dict_get f default_section = None"
    using fold_rename_lookup [OF fixed_keys(2) no_target(2) dd3, of "[]"] x3 by (simp add: f_def)
  have fq: "dict_get f k_equipamiento = dict_get d1 k_equipamiento"
    using fold_rename_lookup [OF fixed_keys(3) no_target(3) dd3, of "[]"] q3 by (simp add: f_def)
  have fy: "dict_get f k_anio = dict_get d3 k_anio"
    using fold_rename_lookup [OF fixed_keys(4) no_target(4) dd3, of "[]"] by (simp add: f_def)
  have kf: "key_mapping k = k" if "k \<in> fst ` set f" for k
  proof -
    from that have "k \<in> key_mapping ` fst ` set d3"
      using keys_foldl_rename [of "[]" d3] by (simp add: f_def)
    then show ?thesis using key_mapping_idem by auto
  qed
  have dr: "distinct (map fst r)" using df by (simp add: r distinct_prune)
  have la: "list_all (\<lambda>kv. key_mapping (fst kv) = fst kv \<and> \<not> is_empty_val (snd kv)) r"
    unfolding list_all_iff
  proof
    fix kv assume m: "kv \<in> set r"
    then have "fst kv \<in> fst ` set f" using keys_prune [of f] r by auto
    then have "key_mapping (fst kv) = fst kv" by (rule kf)
    moreover have "\<not> is_empty_val (snd kv)" using m r prune_values by blast
    ultimately show "key_mapping (fst kv) = fst kv \<and> \<not> is_empty_val (snd kv)" by simp
  qed
  have re: "dict_get r k_estructurales = None"
    using dict_get_prune [OF df, of k_estructurales] fe by (simp add: r)
  have rx: "dict_get r default_section = None"
    using dict_get_prune [OF df, of default_section] fx by (simp add: r)
  have rq: "(case dict_get r k_equipamiento of None \<Rightarrow> True | Some v \<Rightarrow> \<not> is_list v)"
    using dict_get_prune [OF df, of k_equipamiento] fq gp(4)
    by (simp add: r split: option.splits if_splits)
  have ry: "(case dict_get r k_anio of None \<Rightarrow> True | Some v \<Rightarrow> year_stable v)"
    using dict_get_prune [OF df, of k_anio] fy y3
    by (auto simp: r is_empty_val_def split: option.splits if_splits)
  show ?thesis using dr la re rx rq ry by (simp add: final_like_def)
qed

lemma final_like_fixed:
  assumes fl: "final_like r"
  shows "consolidate r = Inr r"
proof -
  have dr: "distinct (map fst r)"
    and la: "list_all (\<lambda>kv. key_mapping (fst kv) = fst kv \<and> \<not> is_empty_val (snd kv)) r"
    and re: "dict_get r k_estructurales = None"
    and rx: "dict_get r default_section = None"
    and rq: "(case dict_get r k_equipamiento of None \<Rightarrow> True | Some v \<Rightarrow> \<not> is_list v)"
    and ry: "(case dict_get r k_anio of None \<Rightarrow> True | Some v \<Rightarrow> year_stable v)"
    using fl by (simp_all add: final_like_def)
  have "k_estructurales \<notin> fst ` set r" using re by (simp add: dict_get_None)
  then have rm: "dict_remove r k_estructurales = r" by (rule dict_remove_absent)
  have g: "gather_amenities r = Inr (VList [], r)"
    using re rx rq rm by (cases "dict_get r k_equipamiento") (simp_all add: gather_amenities_def)
  have s: "store_amenities (VList []) r = Inr r" by (simp add: store_amenities_def)
  have y: "fix_year r = r"
  proof (cases "dict_get r k_anio")
    case None
    then show ?thesis by (simp add: fix_year_def)
  next
    case (Some v)
    then have st: "year_stable v" using ry by simp
    show ?thesis
    proof (cases v)
      case (VInt i)
      then have "calculate_construction_year (of_int i) = Some i" using st by simp
      then have "fix_year r = dict_set r k_anio (VInt i)"
        using Some VInt by (simp add: fix_year_def year_val_def)
      then show ?thesis using Some VInt by (simp add: dict_set_same_value)
    qed (use Some st in \<open>simp_all add: fix_year_def\<close>)
  qed
  have "foldl rename_step [] r = [] @ r"
    by (rule foldl_rename_fixed [OF dr]) (use la in \<open>auto simp: list_all_iff\<close>)
  then have f: "foldl rename_step [] r = r" by simp
  have p: "prune r = r" by (rule prune_id) (use la in \<open>simp add: list_all_iff\<close>)
  show ?thesis using g s y f p by (simp add: consolidate_def)
qed

lemma full_page_record: "parse_property_html full_page (u ''x'') = Inr full_record"
  by code_simp

lemma full_page_lists:
  "list_field (merge_stages full_page (u ''x'')) k_estructurales
     = Some [u ''alberca'', u ''Alberca'', u ''jard'' @ [237] @ u ''n'']"
  "list_field (merge_stages full_page (u ''x'')) default_section = Some []"
  "equipamiento_items (merge_stages full_page (u ''x'')) = [u ''Estufa'']"
  by code_simp+

text \<open>
  Claim C9. Consolidation is idempotent: a record that consolidation returns (from any
  dictionary, so in particular every record that \<open>parse_property_html\<close> returns) has
  the shape of a final record, and consolidating it again returns it unchanged.
\<close>

theorem consolidate_idempotent:
  "(distinct (map fst d) \<and> consolidate d = Inr r \<longrightarrow> final_like r \<and> consolidate r = Inr r)
   \<and> (parse_property_html p url = Inr r' \<longrightarrow> final_like r' \<and> consolidate r' = Inr r')"
proof -
  have a: "distinct (map fst d) \<and> consolidate d = Inr r \<longrightarrow> final_like r \<and> consolidate r = Inr r"
    using consolidate_final_like final_like_fixed by blast
  have "parse_property_html p url = Inr r' \<longrightarrow> final_like r'"
    using consolidate_final_like [OF distinct_merge_stages]
    by (simp add: parse_property_html_def)
  then have b: "parse_property_html p url = Inr r' \<longrightarrow> final_like r' \<and> consolidate r' = Inr r'"
    using final_like_fixed by blast
  from a b show ?thesis by blast
qed

theorem consolidate_idempotent_witness:
  "distinct (map fst (merge_stages full_page (u ''x'')))
   \<and> consolidate (merge_stages full_page (u ''x'')) = Inr full_record
   \<and> parse_property_html full_page (u ''x'') = Inr full_record
   \<and> final_like full_record
   \<and> consolidate full_record = Inr full_record"
proof -
  have dd: "distinct (map fst (merge_stages full_page (u ''x'')))" by (rule distinct_merge_stages)
  have c: "consolidate (merge_stages full_page (u ''x'')) = Inr full_record"
    using full_page_record by (simp add: parse_property_html_def)
  from consolidate_idempotent
    [of "merge_stages full_page (u ''x'')" full_record full_page "u ''x''" full_record]
    dd c full_page_record
  show ?thesis by blast
qed

end
